theory Spec2Isabelle
  imports Main "HOL-Library.AList"
begin

section \<open>Python values and library helpers\<close>

text \<open>
  The analyzer passes loosely typed data around: rule options, violation metadata,
  summaries, error records and the persisted configuration are all \<open>dict[str, Any]\<close>.
  \<open>pyval\<close> holds the Python values that \<open>json.dump\<close> accepts.  A \<open>dict\<close> all of whose keys
  are strings is \<open>PDict\<close>, an association list in insertion order; \<open>AList.update\<close> is the
  store \<open>d[k] = v\<close> (an existing key keeps its place, a new key is appended).  \<open>PKeyed\<close> is
  a \<open>dict\<close> with a key that is not a string; its keys are \<open>None\<close>, booleans, integers and
  strings (a float key is left out).  A float is a finite double \<open>m * 2 ^ e\<close>, an infinity or
  NaN.
\<close>

datatype pyfloat = Finite int int | PosInf | NegInf | NaN

datatype pykey = KNone | KBool bool | KInt int | KStr string

datatype pyval =
    PNone
  | PBool bool
  | PInt int
  | PFloat pyfloat
  | PStr string
  | PList "pyval list"
  | PTuple "pyval list"
  | PDict "(string \<times> pyval) list"
  | PKeyed "(pykey \<times> pyval) list"

type_synonym pydict = "(string \<times> pyval) list"

text \<open>An exception object, by the text \<open>str(e)\<close> gives.\<close>

datatype exn = Exn string

fun str_exn :: "exn \<Rightarrow> string" where
  "str_exn (Exn msg) = msg"

text \<open>\<open>str(n)\<close> for an integer, as the f-strings of the source format counts.\<close>

fun str_nat :: "nat \<Rightarrow> string" where
  "str_nat n =
     (if n < 10 then [''0123456789'' ! n]
      else str_nat (n div 10) @ [''0123456789'' ! (n mod 10)])"

definition str_int :: "int \<Rightarrow> string" where
  "str_int i = (if i < 0 then CHR ''-'' # str_nat (nat (- i)) else str_nat (nat i))"

text \<open>\<open>sep.join(xs)\<close>.\<close>

fun join :: "string \<Rightarrow> string list \<Rightarrow> string" where
  "join sep [] = []"
| "join sep [x] = x"
| "join sep (x # y # ys) = x @ sep @ join sep (y # ys)"

text \<open>\<open>s.startswith(p)\<close> and \<open>s.endswith(p)\<close>.\<close>

definition startswith :: "string \<Rightarrow> string \<Rightarrow> bool" where
  "startswith s p = (take (length p) s = p)"

definition endswith :: "string \<Rightarrow> string \<Rightarrow> bool" where
  "endswith s p = (length p \<le> length s \<and> drop (length s - length p) s = p)"

text \<open>
  A character is a code point below 256.  Character classes of \<open>str\<close> on these code
  points: \<open>isupper\<close> and \<open>islower\<close> of a character, \<open>str.isupper\<close> (no lowercase cased
  character and at least one uppercase one), \<open>str.lower\<close>.
\<close>

definition c_isupper :: "char \<Rightarrow> bool" where
  "c_isupper c =
     (let n = (of_char c :: nat)
      in (65 \<le> n \<and> n \<le> 90) \<or> (192 \<le> n \<and> n \<le> 214) \<or> (216 \<le> n \<and> n \<le> 222))"

definition c_islower :: "char \<Rightarrow> bool" where
  "c_islower c =
     (let n = (of_char c :: nat)
      in (97 \<le> n \<and> n \<le> 122) \<or> n = 170 \<or> n = 181 \<or> n = 186
         \<or> (223 \<le> n \<and> n \<le> 246) \<or> (248 \<le> n \<and> n \<le> 255))"

definition isupper :: "string \<Rightarrow> bool" where
  "isupper s = (list_ex c_isupper s \<and> \<not> list_ex c_islower s)"

definition c_lower :: "char \<Rightarrow> char" where
  "c_lower c = (if c_isupper c then char_of ((of_char c :: nat) + 32) else c)"

definition lower :: "string \<Rightarrow> string" where
  "lower s = map c_lower s"

text \<open>
  \<open>source.splitlines()\<close>: a line ends at \<open>\n\<close>, \<open>\r\<close>, \<open>\r\n\<close>, \<open>\v\<close>, \<open>\f\<close>, the
  separators \<open>0x1C\<close> to \<open>0x1E\<close> and \<open>0x85\<close>.  \<open>s.strip()\<close> removes white space: \<open>0x09\<close> to
  \<open>0x0D\<close>, \<open>0x1C\<close> to \<open>0x20\<close>, \<open>0x85\<close> and \<open>0xA0\<close>.
\<close>

definition c_islinebreak :: "char \<Rightarrow> bool" where
  "c_islinebreak c =
     (let n = (of_char c :: nat)
      in (10 \<le> n \<and> n \<le> 13) \<or> (28 \<le> n \<and> n \<le> 30) \<or> n = 133)"

fun splitlines_acc :: "string \<Rightarrow> string \<Rightarrow> string list" where
  "splitlines_acc cur [] = (if cur = [] then [] else [rev cur])"
| "splitlines_acc cur (c # cs) =
     (if c = CHR 0x0D then
        (case cs of
           d # ds \<Rightarrow> if d = CHR 0x0A then rev cur # splitlines_acc [] ds
                     else rev cur # splitlines_acc [] cs
         | [] \<Rightarrow> rev cur # splitlines_acc [] cs)
      else if c_islinebreak c then rev cur # splitlines_acc [] cs
      else splitlines_acc (c # cur) cs)"

definition splitlines :: "string \<Rightarrow> string list" where
  "splitlines s = splitlines_acc [] s"

definition c_isspace :: "char \<Rightarrow> bool" where
  "c_isspace c =
     (let n = (of_char c :: nat)
      in (9 \<le> n \<and> n \<le> 13) \<or> (28 \<le> n \<and> n \<le> 32) \<or> n = 133 \<or> n = 160)"

definition strip :: "string \<Rightarrow> string" where
  "strip s = rev (dropWhile c_isspace (rev (dropWhile c_isspace s)))"

section \<open>The syntax tree\<close>

text \<open>
  The rules work on the tree that \<open>ast.parse\<close> returns.  The embedding covers the node
  classes below (no comprehension, lambda, \<open>try\<close>, \<open>with\<close>, starred or formatted-string
  node); operator and expression-context nodes, which no rule looks at, are plain
  enumerations or left out.  Every node carries an annotation: \<open>nid\<close> stands for the
  identity of the node object (\<open>id(node)\<close>, and \<open>==\<close> on nodes, which is identity), and
  \<open>lineno\<close>, \<open>col_offset\<close> are the position attributes.
\<close>

record ann =
  nid :: nat
  lineno :: int
  col_offset :: int

datatype literal = CNone | CBool bool | CInt int | CStr string | COther string

datatype boolop = And | Or
datatype unaryop = Invert | Not | UAdd | USub
datatype cmpop = Eq | NotEq | Lt | LtE | Gt | GtE | Is | IsNot | In | NotIn
datatype operator = Add | Sub | Mult | MatMult | Div | Mod | Pow | LShift | RShift
  | BitOr | BitXor | BitAnd | FloorDiv

datatype expr =
    BoolOp ann boolop "expr list"
  | BinOp ann expr operator expr
  | UnaryOp ann unaryop expr
  | IfExp ann expr expr expr
  | Dict ann "expr option list" "expr list"
  | Compare ann expr "cmpop list" "expr list"
  | Call ann expr "expr list" "keyword list"
  | Constant ann literal
  | Attribute ann expr string
  | Subscript ann expr expr
  | Name ann string
  | ListExpr ann "expr list"
  | Tuple ann "expr list"
and keyword = Keyword ann "string option" expr

datatype arg = Arg (arg_ann: ann) (arg: string) (annotation: "expr option")

record arguments =
  posonlyargs :: "arg list"
  args :: "arg list"
  vararg :: "arg option"
  kwonlyargs :: "arg list"
  kw_defaults :: "expr option list"
  kwarg :: "arg option"
  defaults :: "expr list"

datatype import_alias = Alias ann (name: string) (asname: "string option")

datatype pattern =
    MatchValue ann expr
  | MatchSingleton ann literal
  | MatchSequence ann "pattern list"
  | MatchMapping ann "expr list" "pattern list" "string option"
  | MatchClass ann expr "pattern list" "string list" "pattern list"
  | MatchStar ann "string option"
  | MatchAs ann "pattern option" "string option"
  | MatchOr ann "pattern list"

datatype stmt =
    FunctionDef ann string arguments "stmt list" "expr list" "expr option"
  | AsyncFunctionDef ann string arguments "stmt list" "expr list" "expr option"
  | ClassDef ann string "expr list" "keyword list" "stmt list" "expr list"
  | Return ann "expr option"
  | Assign ann "expr list" expr
  | AugAssign ann expr operator expr
  | AnnAssign ann expr expr "expr option"
  | For ann expr expr "stmt list" "stmt list"
  | While ann expr "stmt list" "stmt list"
  | If ann expr "stmt list" "stmt list"
  | Match ann expr "match_case list"
  | Raise ann "expr option" "expr option"
  | Import ann "import_alias list"
  | ImportFrom ann "string option" "import_alias list" int
  | Expr ann expr
  | Pass ann
and match_case = MatchCase pattern "expr option" "stmt list"

datatype module = Module "stmt list"

datatype node =
    NMod module
  | NStmt stmt
  | NExpr expr
  | NKeyword keyword
  | NArguments arguments
  | NArg arg
  | NAlias import_alias
  | NCase match_case
  | NPattern pattern

definition opt_nodes :: "('a \<Rightarrow> node) \<Rightarrow> 'a option \<Rightarrow> node list" where
  "opt_nodes f x = (case x of None \<Rightarrow> [] | Some y \<Rightarrow> [f y])"

fun expr_children :: "expr \<Rightarrow> node list" where
  "expr_children (BoolOp a op vals) = map NExpr vals"
| "expr_children (BinOp a l op r) = [NExpr l, NExpr r]"
| "expr_children (UnaryOp a op operand) = [NExpr operand]"
| "expr_children (IfExp a test body orelse) = [NExpr test, NExpr body, NExpr orelse]"
| "expr_children (Dict a keys vals) = concat (map (opt_nodes NExpr) keys) @ map NExpr vals"
| "expr_children (Compare a l ops comparators) = NExpr l # map NExpr comparators"
| "expr_children (Call a func as kws) = NExpr func # map NExpr as @ map NKeyword kws"
| "expr_children (Constant a v) = []"
| "expr_children (Attribute a v attr) = [NExpr v]"
| "expr_children (Subscript a v slice) = [NExpr v, NExpr slice]"
| "expr_children (Name a i) = []"
| "expr_children (ListExpr a elts) = map NExpr elts"
| "expr_children (Tuple a elts) = map NExpr elts"

fun pattern_children :: "pattern \<Rightarrow> node list" where
  "pattern_children (MatchValue a v) = [NExpr v]"
| "pattern_children (MatchSingleton a c) = []"
| "pattern_children (MatchSequence a ps) = map NPattern ps"
| "pattern_children (MatchMapping a keys ps rest) = map NExpr keys @ map NPattern ps"
| "pattern_children (MatchClass a cls ps kwd_attrs kwd_ps) =
     NExpr cls # map NPattern ps @ map NPattern kwd_ps"
| "pattern_children (MatchStar a n) = []"
| "pattern_children (MatchAs a p n) = opt_nodes NPattern p"
| "pattern_children (MatchOr a ps) = map NPattern ps"

fun stmt_children :: "stmt \<Rightarrow> node list" where
  "stmt_children (FunctionDef a n as body decorator_list returns) =
     NArguments as # map NStmt body @ map NExpr decorator_list @ opt_nodes NExpr returns"
| "stmt_children (AsyncFunctionDef a n as body decorator_list returns) =
     NArguments as # map NStmt body @ map NExpr decorator_list @ opt_nodes NExpr returns"
| "stmt_children (ClassDef a n bases kws body decorator_list) =
     map NExpr bases @ map NKeyword kws @ map NStmt body @ map NExpr decorator_list"
| "stmt_children (Return a v) = opt_nodes NExpr v"
| "stmt_children (Assign a targets v) = map NExpr targets @ [NExpr v]"
| "stmt_children (AugAssign a target op v) = [NExpr target, NExpr v]"
| "stmt_children (AnnAssign a target anno v) = NExpr target # NExpr anno # opt_nodes NExpr v"
| "stmt_children (For a target iter body orelse) =
     NExpr target # NExpr iter # map NStmt body @ map NStmt orelse"
| "stmt_children (While a test body orelse) = NExpr test # map NStmt body @ map NStmt orelse"
| "stmt_children (If a test body orelse) = NExpr test # map NStmt body @ map NStmt orelse"
| "stmt_children (Match a subject cases) = NExpr subject # map NCase cases"
| "stmt_children (Raise a exc cause) = opt_nodes NExpr exc @ opt_nodes NExpr cause"
| "stmt_children (Import a names) = map NAlias names"
| "stmt_children (ImportFrom a m names level) = map NAlias names"
| "stmt_children (Expr a v) = [NExpr v]"
| "stmt_children (Pass a) = []"

fun iter_child_nodes :: "node \<Rightarrow> node list" where
  "iter_child_nodes (NMod (Module body)) = map NStmt body"
| "iter_child_nodes (NStmt s) = stmt_children s"
| "iter_child_nodes (NExpr e) = expr_children e"
| "iter_child_nodes (NKeyword (Keyword a k v)) = [NExpr v]"
| "iter_child_nodes (NArguments as) =
     map NArg (posonlyargs as) @ map NArg (args as) @ opt_nodes NArg (vararg as)
     @ map NArg (kwonlyargs as) @ concat (map (opt_nodes NExpr) (kw_defaults as))
     @ opt_nodes NArg (kwarg as) @ map NExpr (defaults as)"
| "iter_child_nodes (NArg (Arg a n anno)) = opt_nodes NExpr anno"
| "iter_child_nodes (NAlias al) = []"
| "iter_child_nodes (NCase (MatchCase p guard body)) =
     NPattern p # opt_nodes NExpr guard @ map NStmt body"
| "iter_child_nodes (NPattern p) = pattern_children p"

primrec expr_size :: "expr \<Rightarrow> nat" and keyword_size :: "keyword \<Rightarrow> nat" where
  "expr_size (BoolOp a op vals) = Suc (sum_list (map expr_size vals))"
| "expr_size (BinOp a l op r) = Suc (expr_size l + expr_size r)"
| "expr_size (UnaryOp a op operand) = Suc (expr_size operand)"
| "expr_size (IfExp a test body orelse) = Suc (expr_size test + expr_size body + expr_size orelse)"
| "expr_size (Dict a keys vals) =
     Suc (sum_list (map (case_option 0 id) (map (map_option expr_size) keys))
          + sum_list (map expr_size vals))"
| "expr_size (Compare a l ops comparators) = Suc (expr_size l + sum_list (map expr_size comparators))"
| "expr_size (Call a func as kws) =
     Suc (expr_size func + sum_list (map expr_size as) + sum_list (map keyword_size kws))"
| "expr_size (Constant a v) = 1"
| "expr_size (Attribute a v attr) = Suc (expr_size v)"
| "expr_size (Subscript a v slice) = Suc (expr_size v + expr_size slice)"
| "expr_size (Name a i) = 1"
| "expr_size (ListExpr a elts) = Suc (sum_list (map expr_size elts))"
| "expr_size (Tuple a elts) = Suc (sum_list (map expr_size elts))"
| "keyword_size (Keyword a k v) = Suc (expr_size v)"

definition opt_size :: "('a \<Rightarrow> nat) \<Rightarrow> 'a option \<Rightarrow> nat" where
  "opt_size f x = (case x of None \<Rightarrow> 0 | Some y \<Rightarrow> f y)"

fun arg_size :: "arg \<Rightarrow> nat" where
  "arg_size (Arg a n anno) = Suc (opt_size expr_size anno)"

definition arguments_size :: "arguments \<Rightarrow> nat" where
  "arguments_size as =
     Suc (sum_list (map arg_size (posonlyargs as)) + sum_list (map arg_size (args as))
          + opt_size arg_size (vararg as) + sum_list (map arg_size (kwonlyargs as))
          + sum_list (map (opt_size expr_size) (kw_defaults as))
          + opt_size arg_size (kwarg as) + sum_list (map expr_size (defaults as)))"

primrec pattern_size :: "pattern \<Rightarrow> nat" where
  "pattern_size (MatchValue a v) = Suc (expr_size v)"
| "pattern_size (MatchSingleton a c) = 1"
| "pattern_size (MatchSequence a ps) = Suc (sum_list (map pattern_size ps))"
| "pattern_size (MatchMapping a keys ps rest) =
     Suc (sum_list (map expr_size keys) + sum_list (map pattern_size ps))"
| "pattern_size (MatchClass a cls ps kwd_attrs kwd_ps) =
     Suc (expr_size cls + sum_list (map pattern_size ps) + sum_list (map pattern_size kwd_ps))"
| "pattern_size (MatchStar a n) = 1"
| "pattern_size (MatchAs a p n) = Suc (case_option 0 id (map_option pattern_size p))"
| "pattern_size (MatchOr a ps) = Suc (sum_list (map pattern_size ps))"

primrec stmt_size :: "stmt \<Rightarrow> nat" and case_size :: "match_case \<Rightarrow> nat" where
  "stmt_size (FunctionDef a n as body decorator_list returns) =
     Suc (arguments_size as + sum_list (map stmt_size body)
          + sum_list (map expr_size decorator_list) + opt_size expr_size returns)"
| "stmt_size (AsyncFunctionDef a n as body decorator_list returns) =
     Suc (arguments_size as + sum_list (map stmt_size body)
          + sum_list (map expr_size decorator_list) + opt_size expr_size returns)"
| "stmt_size (ClassDef a n bases kws body decorator_list) =
     Suc (sum_list (map expr_size bases) + sum_list (map keyword_size kws)
          + sum_list (map stmt_size body) + sum_list (map expr_size decorator_list))"
| "stmt_size (Return a v) = Suc (opt_size expr_size v)"
| "stmt_size (Assign a targets v) = Suc (sum_list (map expr_size targets) + expr_size v)"
| "stmt_size (AugAssign a target op v) = Suc (expr_size target + expr_size v)"
| "stmt_size (AnnAssign a target anno v) =
     Suc (expr_size target + expr_size anno + opt_size expr_size v)"
| "stmt_size (For a target iter body orelse) =
     Suc (expr_size target + expr_size iter + sum_list (map stmt_size body)
          + sum_list (map stmt_size orelse))"
| "stmt_size (While a test body orelse) =
     Suc (expr_size test + sum_list (map stmt_size body) + sum_list (map stmt_size orelse))"
| "stmt_size (If a test body orelse) =
     Suc (expr_size test + sum_list (map stmt_size body) + sum_list (map stmt_size orelse))"
| "stmt_size (Match a subject cases) = Suc (expr_size subject + sum_list (map case_size cases))"
| "stmt_size (Raise a exc cause) = Suc (opt_size expr_size exc + opt_size expr_size cause)"
| "stmt_size (Import a names) = Suc (length names)"
| "stmt_size (ImportFrom a m names level) = Suc (length names)"
| "stmt_size (Expr a v) = Suc (expr_size v)"
| "stmt_size (Pass a) = 1"
| "case_size (MatchCase p guard body) =
     Suc (pattern_size p + opt_size expr_size guard + sum_list (map stmt_size body))"

fun node_size :: "node \<Rightarrow> nat" where
  "node_size (NMod (Module body)) = Suc (sum_list (map stmt_size body))"
| "node_size (NStmt s) = stmt_size s"
| "node_size (NExpr e) = expr_size e"
| "node_size (NKeyword k) = keyword_size k"
| "node_size (NArguments as) = arguments_size as"
| "node_size (NArg a) = arg_size a"
| "node_size (NAlias al) = 1"
| "node_size (NCase c) = case_size c"
| "node_size (NPattern p) = pattern_size p"

definition nodes_size :: "node list \<Rightarrow> nat" where
  "nodes_size ns = sum_list (map node_size ns)"

lemma nodes_size_simps [simp]:
  "nodes_size [] = 0"
  "nodes_size (n # ns) = node_size n + nodes_size ns"
  "nodes_size (xs @ ys) = nodes_size xs + nodes_size ys"
  by (simp_all add: nodes_size_def)

lemma nodes_size_map [simp]:
  "nodes_size (map NExpr es) = sum_list (map expr_size es)"
  "nodes_size (map NStmt ss) = sum_list (map stmt_size ss)"
  "nodes_size (map NKeyword ks) = sum_list (map keyword_size ks)"
  "nodes_size (map NArg as) = sum_list (map arg_size as)"
  "nodes_size (map NAlias als) = length als"
  "nodes_size (map NCase cs) = sum_list (map case_size cs)"
  "nodes_size (map NPattern ps) = sum_list (map pattern_size ps)"
  by (induction es, simp_all add: nodes_size_def comp_def)
     (induction als, simp_all)

lemma nodes_size_opt [simp]:
  "nodes_size (opt_nodes NExpr x) = opt_size expr_size x"
  "nodes_size (opt_nodes NArg y) = opt_size arg_size y"
  "nodes_size (opt_nodes NPattern z) = opt_size pattern_size z"
  by (simp_all add: opt_nodes_def opt_size_def split: option.splits)

lemma nodes_size_concat_opt [simp]:
  "nodes_size (concat (map (opt_nodes NExpr) xs)) = sum_list (map (opt_size expr_size) xs)"
  by (induction xs) simp_all

lemma sum_opt_keys [simp]:
  "sum_list (map (case_option 0 id \<circ> map_option expr_size) keys)
   = sum_list (map (opt_size expr_size) keys)"
  by (induction keys) (simp_all add: opt_size_def split: option.splits)

lemma expr_children_smaller: "nodes_size (expr_children e) < expr_size e"
  by (cases e) simp_all

lemma pattern_children_smaller: "nodes_size (pattern_children p) < pattern_size p"
  by (cases p) (simp_all add: opt_size_def split: option.splits)

lemma stmt_children_smaller: "nodes_size (stmt_children s) < stmt_size s"
  by (cases s) simp_all

lemma children_smaller: "nodes_size (iter_child_nodes n) < node_size n"
proof (cases n)
  case (NMod m)
  then show ?thesis by (cases m) simp
next
  case (NKeyword k)
  then show ?thesis by (cases k) simp
next
  case (NArg a)
  then show ?thesis by (cases a) simp
next
  case (NCase c)
  then show ?thesis by (cases c) simp
qed (simp_all add: expr_children_smaller pattern_children_smaller stmt_children_smaller
       arguments_size_def)

lemma node_size_pos [simp]: "0 < node_size n"
  using children_smaller [of n] by simp

function visit :: "('s \<Rightarrow> node \<Rightarrow> 's) \<Rightarrow> ('s \<Rightarrow> 's \<Rightarrow> node \<Rightarrow> 's) \<Rightarrow> 's \<Rightarrow> node \<Rightarrow> 's"
  and visit_nodes :: "('s \<Rightarrow> node \<Rightarrow> 's) \<Rightarrow> ('s \<Rightarrow> 's \<Rightarrow> node \<Rightarrow> 's) \<Rightarrow> 's \<Rightarrow> node list \<Rightarrow> 's"
where
  "visit enter leave s n = leave s (visit_nodes enter leave (enter s n) (iter_child_nodes n)) n"
| "visit_nodes enter leave s [] = s"
| "visit_nodes enter leave s (c # cs) = visit_nodes enter leave (visit enter leave s c) cs"
  by pat_completeness auto
termination
proof (relation "measure (\<lambda>x. case x of
           Inl (enter, leave, s, n) \<Rightarrow> 2 * node_size n
         | Inr (enter, leave, s, ns) \<Rightarrow> 2 * nodes_size ns + 1)", goal_cases)
  case 1
  show ?case by simp
next
  case (2 enter leave s n)
  show ?case using children_smaller [of n] by simp
next
  case (3 enter leave s c cs)
  show ?case by simp
next
  case (4 enter leave s c cs)
  show ?case by simp
qed


section \<open>Violations, rule results and the analysis report\<close>

text \<open>
  \<open>rules/base.py\<close>: the dataclasses \<open>RuleViolation\<close> and \<open>RuleResult\<close>.  The fields of
  \<open>RuleResult\<close> that share a name with one of \<open>RuleViolation\<close> carry the prefix
  \<open>result_\<close>.
\<close>

record RuleViolation =
  rule_name :: string
  message :: string
  file_path :: string
  line :: int
  column :: int
  severity :: string
  suggestion :: "string option"
  code_snippet :: "string option"
  metadata :: pydict

record RuleResult =
  result_rule_name :: string
  violations :: "RuleViolation list"
  summary :: pydict
  result_metadata :: pydict

definition violation_count :: "RuleResult \<Rightarrow> nat" where
  "violation_count r = length (violations r)"

definition has_violations :: "RuleResult \<Rightarrow> bool" where
  "has_violations r = (length (violations r) > 0)"

text \<open>
  \<open>formatters/base.py\<close>: \<open>AnalysisReport\<close>.  \<open>results\<close> is the dict from rule name to
  \<open>RuleResult\<close>; the timestamp is the clock reading taken at construction.
\<close>

record AnalysisReport =
  files_analyzed :: "string list"
  results :: "(string \<times> RuleResult) list"
  timestamp :: nat
  config :: pydict
  errors :: "pydict list"

definition dict_values :: "('k \<times> 'v) list \<Rightarrow> 'v list" where
  "dict_values d = map snd d"

definition dict_keys :: "('k \<times> 'v) list \<Rightarrow> 'k list" where
  "dict_keys d = map fst d"

definition total_violations :: "AnalysisReport \<Rightarrow> nat" where
  "total_violations rep = sum_list (map violation_count (dict_values (results rep)))"

definition count_severity :: "(string \<times> nat) list \<Rightarrow> RuleViolation \<Rightarrow> (string \<times> nat) list" where
  "count_severity counts v =
     AList.update (severity v)
       ((case map_of counts (severity v) of None \<Rightarrow> 0 | Some n \<Rightarrow> n) + 1) counts"

definition violations_by_severity :: "AnalysisReport \<Rightarrow> (string \<times> nat) list" where
  "violations_by_severity rep =
     foldl (\<lambda>counts result. foldl count_severity counts (violations result))
       [(''error'', 0), (''warning'', 0), (''info'', 0)]
       (dict_values (results rep))"

definition rules_with_violations :: "AnalysisReport \<Rightarrow> string list" where
  "rules_with_violations rep = map fst (filter (\<lambda>(name, result). has_violations result) (results rep))"

section \<open>The safety gate\<close>

text \<open>
  \<open>safety.py\<close>.  What the validator asks of the file system is an environment function
  from a path to what \<open>pathlib\<close> reports for it; \<open>stat_size\<close> is the \<open>st_size\<close> of
  \<open>path.stat()\<close>, or the text of the \<open>OSError\<close> it raises.
\<close>

record SafetyReport =
  is_safe :: bool
  report_file_path :: string
  issues :: "string list"

record path_info =
  path_exists :: bool
  is_file :: bool
  is_dir :: bool
  suffix :: string
  stat_size :: "string + int"

record SafetyValidator =
  max_file_size :: int

definition MAX_FILE_SIZE_BYTES :: int where
  "MAX_FILE_SIZE_BYTES = 10 * 1024 * 1024"

text \<open>
  \<open>self.max_file_size = max_file_size or self.MAX_FILE_SIZE_BYTES\<close>: Python's \<open>or\<close>
  takes the right operand when the left one is falsy, which \<open>None\<close> and \<open>0\<close> both are.
\<close>

definition SafetyValidator_init :: "int option \<Rightarrow> SafetyValidator" where
  "SafetyValidator_init given =
     \<lparr>max_file_size =
        (case given of
           None \<Rightarrow> MAX_FILE_SIZE_BYTES
         | Some n \<Rightarrow> if n = 0 then MAX_FILE_SIZE_BYTES else n)\<rparr>"

definition validate_file_path ::
  "SafetyValidator \<Rightarrow> (string \<Rightarrow> path_info) \<Rightarrow> string \<Rightarrow> SafetyReport" where
  "validate_file_path self fs path =
     (if \<not> path_exists (fs path) then
        \<lparr>is_safe = False, report_file_path = path,
         issues = [''File does not exist: '' @ path]\<rparr>
      else if \<not> is_file (fs path) then
        \<lparr>is_safe = False, report_file_path = path,
         issues = [''Path is not a file: '' @ path]\<rparr>
      else if suffix (fs path) \<noteq> ''.py'' then
        \<lparr>is_safe = False, report_file_path = path,
         issues = [''File is not a Python file: '' @ path]\<rparr>
      else
        (case stat_size (fs path) of
           Inl e \<Rightarrow>
             \<lparr>is_safe = False, report_file_path = path,
              issues = [''Cannot access file: '' @ e]\<rparr>
         | Inr file_size \<Rightarrow>
             if file_size > max_file_size self then
               \<lparr>is_safe = False, report_file_path = path,
                issues = [''File too large: '' @ str_int file_size @ '' bytes (max: ''
                          @ str_int (max_file_size self) @ '' bytes)'']\<rparr>
             else \<lparr>is_safe = True, report_file_path = path, issues = []\<rparr>))"

definition validate_directory :: "(string \<Rightarrow> path_info) \<Rightarrow> string \<Rightarrow> SafetyReport" where
  "validate_directory fs path =
     (if \<not> path_exists (fs path) then
        \<lparr>is_safe = False, report_file_path = path,
         issues = [''Directory does not exist: '' @ path]\<rparr>
      else if \<not> is_dir (fs path) then
        \<lparr>is_safe = False, report_file_path = path,
         issues = [''Path is not a directory: '' @ path]\<rparr>
      else \<lparr>is_safe = True, report_file_path = path, issues = []\<rparr>)"

section \<open>Shared helpers of the rule visitors\<close>

fun expr_ann :: "expr \<Rightarrow> ann" where
  "expr_ann (BoolOp a op vals) = a"
| "expr_ann (BinOp a l op r) = a"
| "expr_ann (UnaryOp a op operand) = a"
| "expr_ann (IfExp a test body orelse) = a"
| "expr_ann (Dict a keys vals) = a"
| "expr_ann (Compare a l ops comparators) = a"
| "expr_ann (Call a func as kws) = a"
| "expr_ann (Constant a v) = a"
| "expr_ann (Attribute a v attr) = a"
| "expr_ann (Subscript a v slice) = a"
| "expr_ann (Name a i) = a"
| "expr_ann (ListExpr a elts) = a"
| "expr_ann (Tuple a elts) = a"

text \<open>\<open>_get_source_line\<close>, the same method in every visitor.\<close>

definition get_source_line :: "string \<Rightarrow> int \<Rightarrow> string" where
  "get_source_line source line_number =
     (let lines = splitlines source in
      if 1 \<le> line_number \<and> line_number \<le> int (length lines)
      then strip (lines ! nat (line_number - 1)) else [])"

text \<open>\<open>str(x)\<close> of an optional string, as an f-string prints \<open>None\<close>.\<close>

definition str_opt :: "string option \<Rightarrow> string" where
  "str_opt x = (case x of None \<Rightarrow> ''None'' | Some s \<Rightarrow> s)"

definition pystr_opt :: "string option \<Rightarrow> pyval" where
  "pystr_opt x = (case x of None \<Rightarrow> PNone | Some s \<Rightarrow> PStr s)"

text \<open>Truthiness of a value, and the reading of a rule option with its default.\<close>

fun truthy :: "pyval \<Rightarrow> bool" where
  "truthy PNone = False"
| "truthy (PBool b) = b"
| "truthy (PInt i) = (i \<noteq> 0)"
| "truthy (PFloat (Finite m e)) = (m \<noteq> 0)"
| "truthy (PFloat f) = True"
| "truthy (PStr s) = (s \<noteq> [])"
| "truthy (PList xs) = (xs \<noteq> [])"
| "truthy (PTuple xs) = (xs \<noteq> [])"
| "truthy (PDict kvs) = (kvs \<noteq> [])"
| "truthy (PKeyed kvs) = (kvs \<noteq> [])"

definition option_flag :: "pydict \<Rightarrow> string \<Rightarrow> bool \<Rightarrow> bool" where
  "option_flag options key dflt =
     (case map_of options key of None \<Rightarrow> dflt | Some v \<Rightarrow> truthy v)"

text \<open>
  A threshold option is compared with a count; the embedding covers integer values
  (\<open>bool\<close> is a subclass of \<open>int\<close>) and gives \<open>None\<close> for any other value: a float, which
  the source compares with the count, is left out, and on the others the comparison in the
  source raises \<open>TypeError\<close>.
\<close>

definition option_int :: "pydict \<Rightarrow> string \<Rightarrow> int \<Rightarrow> int option" where
  "option_int options key dflt =
     (case map_of options key of
        None \<Rightarrow> Some dflt
      | Some (PInt i) \<Rightarrow> Some i
      | Some (PBool b) \<Rightarrow> Some (if b then 1 else 0)
      | Some _ \<Rightarrow> None)"

text \<open>\<open>xs.index(x)\<close>: the first position of \<open>x\<close>, \<open>None\<close> where Python raises \<open>ValueError\<close>.\<close>

fun index_of :: "'a list \<Rightarrow> 'a \<Rightarrow> nat option" where
  "index_of [] x = None"
| "index_of (y # ys) x = (if y = x then Some 0 else map_option Suc (index_of ys x))"

section \<open>The boolean-flag rule\<close>

record BooleanFlagRule =
  check_constructors :: bool
  check_methods :: bool
  check_functions :: bool
  min_flag_usages :: int

definition BooleanFlagRule_init :: "pydict \<Rightarrow> BooleanFlagRule option" where
  "BooleanFlagRule_init options =
     map_option (\<lambda>m.
       \<lparr>check_constructors = option_flag options ''check_constructors'' True,
        check_methods = option_flag options ''check_methods'' True,
        check_functions = option_flag options ''check_functions'' True,
        min_flag_usages = m\<rparr>)
       (option_int options ''min_flag_usages'' 1)"

record BooleanFlagVisitor =
  bf_file_path :: string
  bf_source :: string
  bf_rule :: BooleanFlagRule
  bf_violations :: "RuleViolation list"
  flag_patterns :: "pydict list"
  constructor_flag_count :: nat
  method_flag_count :: nat
  function_flag_count :: nat
  bf_current_class :: "string option"

definition BooleanFlagVisitor_init :: "string \<Rightarrow> string \<Rightarrow> BooleanFlagRule \<Rightarrow> BooleanFlagVisitor" where
  "BooleanFlagVisitor_init path source rule =
     \<lparr>bf_file_path = path, bf_source = source, bf_rule = rule, bf_violations = [],
      flag_patterns = [], constructor_flag_count = 0, method_flag_count = 0,
      function_flag_count = 0, bf_current_class = None\<rparr>"

definition is_bool_type :: "expr \<Rightarrow> bool" where
  "is_bool_type node = (case node of Name a i \<Rightarrow> i = ''bool'' | _ \<Rightarrow> False)"

definition boolean_prefixes :: "string list" where
  "boolean_prefixes =
     [''is_'', ''has_'', ''can_'', ''should_'', ''will_'', ''did_'', ''enable_'', ''disable_'',
      ''use_'', ''allow_'', ''include_'', ''exclude_'', ''force_'', ''skip_'', ''ignore_'',
      ''check_'']"

definition boolean_names :: "string list" where
  "boolean_names =
     [''enabled'', ''disabled'', ''active'', ''inactive'', ''visible'', ''hidden'', ''readonly'',
      ''required'', ''optional'', ''recursive'', ''verbose'', ''quiet'', ''debug'', ''dry_run'',
      ''force'']"

definition is_boolean_name :: "string \<Rightarrow> bool" where
  "is_boolean_name n =
     (let name_lower = lower n in
      if list_ex (startswith name_lower) boolean_prefixes then True
      else name_lower \<in> set boolean_names)"

text \<open>
  \<open>_get_default_for_arg\<close>: the defaults are right-aligned on \<open>args.args\<close>; a keyword-only
  parameter has its default, or \<open>None\<close>, at its own index of \<open>kw_defaults\<close>.
\<close>

definition get_default_for_arg :: "arguments \<Rightarrow> arg \<Rightarrow> expr option" where
  "get_default_for_arg as a =
     (let num_defaults = int (length (defaults as));
          num_args = int (length (args as));
          regular =
            (case index_of (args as) a of
               None \<Rightarrow> None
             | Some arg_index \<Rightarrow>
                 (let default_index = int arg_index - (num_args - num_defaults) in
                  if default_index \<ge> 0 then Some (defaults as ! nat default_index) else None))
      in case regular of
           Some d \<Rightarrow> Some d
         | None \<Rightarrow>
             (case index_of (kwonlyargs as) a of
                None \<Rightarrow> None
              | Some kw_index \<Rightarrow>
                  if kw_index < length (kw_defaults as) then kw_defaults as ! kw_index
                  else None))"

definition is_bool_default :: "expr option \<Rightarrow> bool" where
  "is_bool_default d = (case d of Some (Constant a (CBool b)) \<Rightarrow> True | _ \<Rightarrow> False)"

definition is_boolean_param :: "arguments \<Rightarrow> arg \<Rightarrow> bool" where
  "is_boolean_param as a =
     (if arg a = ''self'' \<or> arg a = ''cls'' then False
      else if (case annotation a of None \<Rightarrow> False | Some t \<Rightarrow> is_bool_type t) then True
      else if is_bool_default (get_default_for_arg as a) then True
      else is_boolean_name (arg a))"

definition find_boolean_params :: "arguments \<Rightarrow> string list" where
  "find_boolean_params as = map arg (filter (is_boolean_param as) (args as @ kwonlyargs as))"

text \<open>\<open>ConditionalUsageCounter\<close>.\<close>

fun uses_variable :: "string \<Rightarrow> expr \<Rightarrow> bool" where
  "uses_variable var (Name a i) = (i = var)"
| "uses_variable var (UnaryOp a op operand) = uses_variable var operand"
| "uses_variable var (BoolOp a op vals) = list_ex (uses_variable var) vals"
| "uses_variable var (Compare a l ops comparators) =
     (if uses_variable var l then True else list_ex (uses_variable var) comparators)"
| "uses_variable var _ = False"

definition counter_enter :: "string \<Rightarrow> nat \<Rightarrow> node \<Rightarrow> nat" where
  "counter_enter var count n =
     (case n of
        NStmt (If a test body orelse) \<Rightarrow> if uses_variable var test then count + 1 else count
      | NStmt (While a test body orelse) \<Rightarrow> if uses_variable var test then count + 1 else count
      | NExpr (IfExp a test body orelse) \<Rightarrow> if uses_variable var test then count + 1 else count
      | NExpr (BoolOp a op vals) \<Rightarrow> if list_ex (uses_variable var) vals then count + 1 else count
      | _ \<Rightarrow> count)"

definition count_conditional_usages :: "stmt \<Rightarrow> string \<Rightarrow> nat" where
  "count_conditional_usages node param_name =
     visit (counter_enter param_name) (\<lambda>before after n. after) 0 (NStmt node)"

definition bf_add_violation ::
  "BooleanFlagVisitor \<Rightarrow> ann \<Rightarrow> string \<Rightarrow> string \<Rightarrow> nat \<Rightarrow> bool \<Rightarrow> bool \<Rightarrow> BooleanFlagVisitor" where
  "bf_add_violation self a fname param_name usages is_constructor is_method =
     (let counted =
            (if is_constructor then self\<lparr>constructor_flag_count := constructor_flag_count self + 1\<rparr>
             else if is_method then self\<lparr>method_flag_count := method_flag_count self + 1\<rparr>
             else self\<lparr>function_flag_count := function_flag_count self + 1\<rparr>);
          ctx =
            (if is_constructor then ''Constructor of '' @ [CHR 0x27] @ str_opt (bf_current_class self) @ [CHR 0x27]
             else if is_method then
               ''Method '' @ [CHR 0x27] @ fname @ [CHR 0x27] @ '' in class '' @ [CHR 0x27]
               @ str_opt (bf_current_class self) @ [CHR 0x27]
             else ''Function '' @ [CHR 0x27] @ fname @ [CHR 0x27]);
          sugg =
            (if is_constructor then
               ''Consider splitting into separate classes or using a factory method ''
               @ ''instead of a boolean flag in the constructor.''
             else if is_method then
               ''Consider splitting '' @ [CHR 0x27] @ fname @ [CHR 0x27]
               @ '' into two methods with descriptive names ''
               @ ''instead of using a boolean flag to control behavior.''
             else
               ''Consider splitting '' @ [CHR 0x27] @ fname @ [CHR 0x27]
               @ '' into two functions with descriptive names ''
               @ ''instead of using a boolean flag to control behavior.'')
      in counted
          \<lparr>bf_violations := bf_violations self @
             [\<lparr>rule_name = ''boolean_flag'',
               message = ctx @ '' has boolean flag parameter '' @ [CHR 0x27] @ param_name
                 @ [CHR 0x27] @ '' used in '' @ str_nat usages
                 @ '' conditional(s). This causes behavior branching.'',
               file_path = bf_file_path self,
               line = lineno a,
               column = col_offset a,
               severity = ''warning'',
               suggestion = Some sugg,
               code_snippet = Some (get_source_line (bf_source self) (lineno a)),
               metadata =
                 [(''parameter'', PStr param_name),
                  (''function'', PStr fname),
                  (''class'', pystr_opt (bf_current_class self)),
                  (''is_constructor'', PBool is_constructor),
                  (''conditional_usages'', PInt (int usages))]\<rparr>],
           flag_patterns := flag_patterns self @
             [[(''type'', PStr ''boolean_flag''),
               (''line'', PInt (lineno a)),
               (''parameter'', PStr param_name),
               (''function'', PStr fname),
               (''class'', pystr_opt (bf_current_class self))]]\<rparr>)"

definition check_function :: "BooleanFlagVisitor \<Rightarrow> stmt \<Rightarrow> ann \<Rightarrow> string \<Rightarrow> arguments \<Rightarrow> BooleanFlagVisitor" where
  "check_function self node a fname as =
     (let is_constructor = (fname = ''__init__'');
          is_method = (bf_current_class self \<noteq> None);
          is_function = (bf_current_class self = None)
      in if is_constructor \<and> \<not> check_constructors (bf_rule self) then self
         else if is_method \<and> \<not> is_constructor \<and> \<not> check_methods (bf_rule self) then self
         else if is_function \<and> \<not> check_functions (bf_rule self) then self
         else
           foldl (\<lambda>s param_name.
                    let usages = count_conditional_usages node param_name in
                    if int usages \<ge> min_flag_usages (bf_rule self)
                    then bf_add_violation s a fname param_name usages is_constructor is_method
                    else s)
             self (find_boolean_params as))"

definition bf_enter :: "BooleanFlagVisitor \<Rightarrow> node \<Rightarrow> BooleanFlagVisitor" where
  "bf_enter self n =
     (case n of
        NStmt (ClassDef a cname bases kws body decorator_list) \<Rightarrow>
          self\<lparr>bf_current_class := Some cname\<rparr>
      | NStmt (FunctionDef a fname as body decorator_list returns) \<Rightarrow>
          check_function self (FunctionDef a fname as body decorator_list returns) a fname as
      | NStmt (AsyncFunctionDef a fname as body decorator_list returns) \<Rightarrow>
          check_function self (AsyncFunctionDef a fname as body decorator_list returns) a fname as
      | _ \<Rightarrow> self)"

definition bf_leave :: "BooleanFlagVisitor \<Rightarrow> BooleanFlagVisitor \<Rightarrow> node \<Rightarrow> BooleanFlagVisitor" where
  "bf_leave before after n =
     (case n of
        NStmt (ClassDef a cname bases kws body decorator_list) \<Rightarrow>
          after\<lparr>bf_current_class := bf_current_class before\<rparr>
      | _ \<Rightarrow> after)"

definition BooleanFlagRule_analyze :: "BooleanFlagRule \<Rightarrow> module \<Rightarrow> string \<Rightarrow> string \<Rightarrow> RuleResult" where
  "BooleanFlagRule_analyze self tree source path =
     (let visitor = visit bf_enter bf_leave (BooleanFlagVisitor_init path source self) (NMod tree)
      in \<lparr>result_rule_name = ''boolean_flag'',
          violations = bf_violations visitor,
          summary =
            [(''total_boolean_flags'', PInt (int (length (bf_violations visitor)))),
             (''constructor_flags'', PInt (int (constructor_flag_count visitor))),
             (''method_flags'', PInt (int (method_flag_count visitor))),
             (''function_flags'', PInt (int (function_flag_count visitor)))],
          result_metadata =
            [(''flag_patterns'', PList (map PDict (flag_patterns visitor)))]\<rparr>)"

subsection \<open>The boolean-flag scenario\<close>

text \<open>
  The source text of the scenario and the tree \<open>ast.parse\<close> gives for it.  \<open>at i l c\<close> is
  the annotation of node \<open>i\<close> at line \<open>l\<close>, column \<open>c\<close>.
\<close>

definition at :: "nat \<Rightarrow> int \<Rightarrow> int \<Rightarrow> ann" where
  "at i l c = \<lparr>nid = i, lineno = l, col_offset = c\<rparr>"

definition process_source :: string where
  "process_source =
     ''def process(data, verbose: bool = False):'' @ [CHR 0x0A]
     @ ''    if verbose:'' @ [CHR 0x0A]
     @ ''        print(data)''"

definition process_tree :: module where
  "process_tree =
     Module
       [FunctionDef (at 1 1 0) ''process''
          \<lparr>posonlyargs = [],
           args = [Arg (at 2 1 12) ''data'' None,
                   Arg (at 3 1 18) ''verbose'' (Some (Name (at 4 1 27) ''bool''))],
           vararg = None, kwonlyargs = [], kw_defaults = [], kwarg = None,
           defaults = [Constant (at 5 1 34) (CBool False)]\<rparr>
          [If (at 6 2 4) (Name (at 7 2 7) ''verbose'')
             [Expr (at 8 3 8)
                (Call (at 9 3 8) (Name (at 10 3 8) ''print'') [Name (at 11 3 14) ''data''] [])]
             []]
          [] None]"

section \<open>If/elif chains\<close>

text \<open>
  The type-code and polymorphism rules walk an \<open>if\<close>/\<open>elif\<close> chain with the loop
  \<^verbatim>\<open>if current.orelse and len(current.orelse) == 1:\<close>
  \<^verbatim>\<open>    if isinstance(current.orelse[0], ast.If): current = current.orelse[0]\<close>
  \<open>elif_branch\<close> is the next \<open>If\<close> node of that step, when there is one.
\<close>

fun elif_branch :: "stmt \<Rightarrow> stmt option" where
  "elif_branch (If a test body [If a' test' body' orelse']) = Some (If a' test' body' orelse')"
| "elif_branch _ = None"

fun stmt_ann :: "stmt \<Rightarrow> ann" where
  "stmt_ann (FunctionDef a n as body decorator_list returns) = a"
| "stmt_ann (AsyncFunctionDef a n as body decorator_list returns) = a"
| "stmt_ann (ClassDef a n bases kws body decorator_list) = a"
| "stmt_ann (Return a v) = a"
| "stmt_ann (Assign a targets v) = a"
| "stmt_ann (AugAssign a target op v) = a"
| "stmt_ann (AnnAssign a target anno v) = a"
| "stmt_ann (For a target iter body orelse) = a"
| "stmt_ann (While a test body orelse) = a"
| "stmt_ann (If a test body orelse) = a"
| "stmt_ann (Match a subject cases) = a"
| "stmt_ann (Raise a exc cause) = a"
| "stmt_ann (Import a names) = a"
| "stmt_ann (ImportFrom a m names level) = a"
| "stmt_ann (Expr a v) = a"
| "stmt_ann (Pass a) = a"

lemma elif_branch_smaller: "elif_branch s = Some nxt \<Longrightarrow> stmt_size nxt < stmt_size s"
  by (induction s rule: elif_branch.induct) auto

text \<open>
  \<open>_get_full_attribute\<close> (type-code rule) and \<open>_get_attribute_name\<close> (polymorphism rule)
  are the same function: the attribute names from the base outwards, with the base's
  name in front when the base is a \<open>Name\<close>, joined by dots.
\<close>

fun attribute_parts :: "expr \<Rightarrow> string list" where
  "attribute_parts (Attribute a v attr) = attribute_parts v @ [attr]"
| "attribute_parts (Name a i) = [i]"
| "attribute_parts _ = []"

definition get_full_attribute :: "expr \<Rightarrow> string" where
  "get_full_attribute node = join ''.'' (attribute_parts node)"

text \<open>
  \<open>repr\<close> of a literal.  A string is quoted with single quotes unless it holds a single
  quote and no double quote; backslash, the quote, \<open>\n\<close>, \<open>\r\<close>, \<open>\t\<close> and the other ASCII
  control characters are escaped.  A literal of another type carries its \<open>repr\<close>.
\<close>

definition hex2 :: "nat \<Rightarrow> string" where
  "hex2 n = [''0123456789abcdef'' ! (n div 16 mod 16), ''0123456789abcdef'' ! (n mod 16)]"

definition repr_char :: "char \<Rightarrow> char \<Rightarrow> string" where
  "repr_char q c =
     (if c = CHR 0x5C then [CHR 0x5C, CHR 0x5C]
      else if c = q then [CHR 0x5C, q]
      else if c = CHR 0x0A then [CHR 0x5C, CHR ''n'']
      else if c = CHR 0x0D then [CHR 0x5C, CHR ''r'']
      else if c = CHR 0x09 then [CHR 0x5C, CHR ''t'']
      else if (of_char c :: nat) < 32 \<or> (of_char c :: nat) = 127
        then [CHR 0x5C, CHR ''x''] @ hex2 (of_char c)
      else [c])"

definition repr_str :: "string \<Rightarrow> string" where
  "repr_str s =
     (let q = (if CHR 0x27 \<in> set s \<and> CHR 0x22 \<notin> set s then CHR 0x22 else CHR 0x27)
      in [q] @ concat (map (repr_char q) s) @ [q])"

fun repr_literal :: "literal \<Rightarrow> string" where
  "repr_literal CNone = ''None''"
| "repr_literal (CBool b) = (if b then ''True'' else ''False'')"
| "repr_literal (CInt i) = str_int i"
| "repr_literal (CStr s) = repr_str s"
| "repr_literal (COther r) = r"

section \<open>The type-code rule\<close>

definition TYPE_CODE_ATTRIBUTES :: "string list" where
  "TYPE_CODE_ATTRIBUTES =
     [''type'', ''kind'', ''category'', ''status'', ''state'', ''mode'', ''variant'', ''style'',
      ''format'', ''action'', ''operation'']"

record TypeCodeRule =
  tc_min_branches :: int
  check_constants :: bool
  check_enums :: bool

definition TypeCodeRule_init :: "pydict \<Rightarrow> TypeCodeRule option" where
  "TypeCodeRule_init options =
     map_option (\<lambda>m.
       \<lparr>tc_min_branches = m,
        check_constants = option_flag options ''check_constants'' True,
        check_enums = option_flag options ''check_enums'' True\<rparr>)
       (option_int options ''min_branches'' 2)"

record TypeCodeVisitor =
  tc_file_path :: string
  tc_source :: string
  tc_rule :: TypeCodeRule
  type_code_attributes :: "string list"
  tc_violations :: "RuleViolation list"
  tc_patterns :: "pydict list"
  constant_comparison_count :: nat
  enum_comparison_count :: nat
  tc_type_attr_count :: nat
  tc_current_function :: "string option"
  tc_current_class :: "string option"

definition TypeCodeVisitor_init :: "string \<Rightarrow> string \<Rightarrow> TypeCodeRule \<Rightarrow> string list \<Rightarrow> TypeCodeVisitor" where
  "TypeCodeVisitor_init path source rule attrs =
     \<lparr>tc_file_path = path, tc_source = source, tc_rule = rule, type_code_attributes = attrs,
      tc_violations = [], tc_patterns = [], constant_comparison_count = 0,
      enum_comparison_count = 0, tc_type_attr_count = 0, tc_current_function = None,
      tc_current_class = None\<rparr>"

text \<open>The dictionary \<open>_analyze_compare\<close> returns for a branch (\<open>is_type_code\<close> is always true).\<close>

record branch_info =
  is_type_code :: bool
  checked_attribute :: string
  compared_to :: string
  pattern_type :: string

definition is_constant :: "expr \<Rightarrow> bool" where
  "is_constant node = (case node of Name a i \<Rightarrow> isupper i \<and> length i > 1 | _ \<Rightarrow> False)"

text \<open>
  \<open>_is_enum_value\<close>: \<open>node.attr.isupper() or node.attr[0].isupper()\<close>; an attribute name
  is a non-empty identifier.
\<close>

definition is_enum_value :: "expr \<Rightarrow> bool" where
  "is_enum_value node =
     (case node of
        Attribute a (Name a' i) attr \<Rightarrow>
          isupper attr \<or> (case attr of [] \<Rightarrow> False | c # cs \<Rightarrow> c_isupper c)
      | _ \<Rightarrow> False)"

definition get_left_name :: "expr \<Rightarrow> string" where
  "get_left_name node =
     (case node of
        Name a i \<Rightarrow> i
      | Attribute a v attr \<Rightarrow> get_full_attribute node
      | _ \<Rightarrow> ''<expression>'')"

definition get_comparison_value :: "expr list \<Rightarrow> string" where
  "get_comparison_value comparators =
     (case comparators of
        [] \<Rightarrow> ''<value>''
      | c0 # rest \<Rightarrow>
          (case c0 of
             Name a i \<Rightarrow> i
           | Attribute a v attr \<Rightarrow> get_full_attribute c0
           | Constant a v \<Rightarrow> repr_literal v
           | _ \<Rightarrow> ''<value>''))"

definition get_constant_name :: "expr \<Rightarrow> string" where
  "get_constant_name node = (case node of Name a i \<Rightarrow> i | _ \<Rightarrow> ''<constant>'')"

definition get_enum_name :: "expr \<Rightarrow> string" where
  "get_enum_name node =
     (case node of Attribute a v attr \<Rightarrow> get_full_attribute node | _ \<Rightarrow> ''<enum>'')"

definition classify_comparison_value :: "expr list \<Rightarrow> string" where
  "classify_comparison_value comparators =
     (case comparators of
        [] \<Rightarrow> ''unknown''
      | c0 # rest \<Rightarrow>
          (case c0 of
             Name a i \<Rightarrow> if isupper i then ''constant'' else ''unknown''
           | Attribute a v attr \<Rightarrow> ''enum''
           | Constant a v \<Rightarrow> (case v of CStr s \<Rightarrow> ''string_literal'' | _ \<Rightarrow> ''literal'')
           | _ \<Rightarrow> ''unknown''))"

text \<open>
  \<open>_analyze_compare\<close> advances one of the three counters of the visitor and returns the
  branch dictionary, or returns \<open>None\<close>.
\<close>

definition is_type_attribute :: "TypeCodeVisitor \<Rightarrow> expr \<Rightarrow> bool" where
  "is_type_attribute self left =
     (case left of
        Attribute a v attr \<Rightarrow> lower attr \<in> set (type_code_attributes self)
      | _ \<Rightarrow> False)"

definition analyze_compare ::
  "TypeCodeVisitor \<Rightarrow> expr \<Rightarrow> expr list \<Rightarrow> TypeCodeVisitor \<times> branch_info option" where
  "analyze_compare self left comparators =
     (if is_type_attribute self left then
        (self\<lparr>tc_type_attr_count := tc_type_attr_count self + 1\<rparr>,
         Some \<lparr>is_type_code = True,
               checked_attribute = get_full_attribute left,
               compared_to = get_comparison_value comparators,
               pattern_type = classify_comparison_value comparators\<rparr>)
      else
        (case (if check_constants (tc_rule self) then find is_constant comparators else None) of
           Some comparator \<Rightarrow>
             (self\<lparr>constant_comparison_count := constant_comparison_count self + 1\<rparr>,
              Some \<lparr>is_type_code = True,
                    checked_attribute = get_left_name left,
                    compared_to = get_constant_name comparator,
                    pattern_type = ''constant''\<rparr>)
         | None \<Rightarrow>
             (case (if check_enums (tc_rule self) then find is_enum_value comparators else None) of
                Some comparator \<Rightarrow>
                  (self\<lparr>enum_comparison_count := enum_comparison_count self + 1\<rparr>,
                   Some \<lparr>is_type_code = True,
                         checked_attribute = get_left_name left,
                         compared_to = get_enum_name comparator,
                         pattern_type = ''enum''\<rparr>)
              | None \<Rightarrow> (self, None))))"

fun analyze_condition :: "TypeCodeVisitor \<Rightarrow> expr \<Rightarrow> TypeCodeVisitor \<times> branch_info option" where
  "analyze_condition self (Compare a left ops comparators) = analyze_compare self left comparators"
| "analyze_condition self (BoolOp a op []) = (self, None)"
| "analyze_condition self (BoolOp a op (v # vs)) = analyze_condition self v"
| "analyze_condition self _ = (self, None)"

text \<open>
  The loop of \<open>_analyze_if_chain\<close>: the branch dictionaries of the chain that starts at
  \<open>current\<close>, in order, with the visitor's counters advanced.
\<close>

function chain_branches ::
  "TypeCodeVisitor \<Rightarrow> stmt \<Rightarrow> branch_info list \<Rightarrow> TypeCodeVisitor \<times> branch_info list" where
  "chain_branches self current branches =
     (case current of
        If a test body orelse \<Rightarrow>
          (let (self', branch) = analyze_condition self test;
               branches' = (case branch of Some b \<Rightarrow> branches @ [b] | None \<Rightarrow> branches)
           in case elif_branch current of
                Some nxt \<Rightarrow> chain_branches self' nxt branches'
              | None \<Rightarrow> (self', branches'))
      | _ \<Rightarrow> (self, branches))"
  by pat_completeness auto
termination
  by (relation "measure (\<lambda>(self, current, branches). stmt_size current)")
     (auto dest: elif_branch_smaller)

record chain_info =
  is_type_code_pattern :: bool
  ci_checked_attribute :: string
  branch_count :: nat
  type_code_branches :: nat
  comparison_values :: "string list"
  ci_pattern_type :: string

definition analyze_if_chain :: "TypeCodeVisitor \<Rightarrow> stmt \<Rightarrow> TypeCodeVisitor \<times> chain_info option" where
  "analyze_if_chain self node =
     (let (self', branches) = chain_branches self node [] in
      if int (length branches) < tc_min_branches (tc_rule self) then (self', None)
      else
        (let tcb = filter is_type_code branches;
             checked_attrs = map checked_attribute tcb
         in if int (length tcb) \<ge> tc_min_branches (tc_rule self)
               \<and> checked_attrs \<noteq> [] \<and> length (remdups checked_attrs) = 1
            then (self',
                  Some \<lparr>is_type_code_pattern = True,
                        ci_checked_attribute = hd checked_attrs,
                        branch_count = length branches,
                        type_code_branches = length tcb,
                        comparison_values = map compared_to tcb,
                        ci_pattern_type = pattern_type (hd tcb)\<rparr>)
            else (self', None)))"

definition quoted :: "string \<Rightarrow> string" where
  "quoted s = [CHR 0x27] @ s @ [CHR 0x27]"

definition tc_add_violation :: "TypeCodeVisitor \<Rightarrow> ann \<Rightarrow> chain_info \<Rightarrow> TypeCodeVisitor" where
  "tc_add_violation self a info =
     (let checked_attr = ci_checked_attribute info;
          bc = branch_count info;
          ptype = ci_pattern_type info;
          vals = comparison_values info;
          refactoring =
            (if ptype = ''constant'' then ''Replace Type Code with State/Strategy or Subclasses''
             else if ptype = ''enum'' then ''Replace Type Code with State/Strategy''
             else ''Replace Conditional with Polymorphism'');
          sugg =
            (if ptype = ''constant'' then
               ''The conditional checks '' @ quoted checked_attr @ '' against constants (''
               @ join '', '' (take 3 vals) @ (if length vals > 3 then ''...'' else [])
               @ ''). Consider replacing with polymorphism: create a class hierarchy where ''
               @ ''each constant becomes a subclass with its own behavior.''
             else if ptype = ''enum'' then
               ''The conditional checks '' @ quoted checked_attr @ '' against enum values. ''
               @ ''Consider using the State or Strategy pattern where each enum value ''
               @ ''corresponds to a class that implements the varying behavior.''
             else
               ''The conditional on '' @ quoted checked_attr @ '' with '' @ str_nat bc
               @ '' branches suggests a type code pattern. Consider using polymorphism.'')
      in self
          \<lparr>tc_violations := tc_violations self @
             [\<lparr>rule_name = ''type_code'',
               message = ''Type code conditional detected: '' @ quoted checked_attr
                 @ '' checked against '' @ str_nat bc @ '' different values. ''
                 @ refactoring @ ''.'',
               file_path = tc_file_path self,
               line = lineno a,
               column = col_offset a,
               severity = ''warning'',
               suggestion = Some sugg,
               code_snippet = Some (get_source_line (tc_source self) (lineno a)),
               metadata =
                 [(''pattern'', PStr ''type_code_conditional''),
                  (''checked_attribute'', PStr checked_attr),
                  (''branch_count'', PInt (int bc)),
                  (''pattern_type'', PStr ptype),
                  (''comparison_values'', PList (map PStr vals)),
                  (''function'', pystr_opt (tc_current_function self)),
                  (''class'', pystr_opt (tc_current_class self))]\<rparr>],
           tc_patterns := tc_patterns self @
             [[(''type'', PStr ''if_chain''),
               (''line'', PInt (lineno a)),
               (''checked_attribute'', PStr checked_attr),
               (''branch_count'', PInt (int bc)),
               (''pattern_type'', PStr ptype)]]\<rparr>)"

definition is_type_code_subject :: "TypeCodeVisitor \<Rightarrow> expr \<Rightarrow> bool" where
  "is_type_code_subject self node = is_type_attribute self node"

definition tc_add_match_violation :: "TypeCodeVisitor \<Rightarrow> ann \<Rightarrow> expr \<Rightarrow> nat \<Rightarrow> TypeCodeVisitor" where
  "tc_add_match_violation self a subject num_cases =
     (let subject_str = get_left_name subject in
      self
        \<lparr>tc_violations := tc_violations self @
           [\<lparr>rule_name = ''type_code'',
             message = ''Match statement on type code '' @ quoted subject_str @ '' with ''
               @ str_nat num_cases @ '' cases. Consider replacing with polymorphism.'',
             file_path = tc_file_path self,
             line = lineno a,
             column = col_offset a,
             severity = ''warning'',
             suggestion = Some
               (''Match statements on type codes can be replaced with polymorphism. ''
                @ ''Each case can become a subclass or strategy that implements the behavior.''),
             code_snippet = Some (get_source_line (tc_source self) (lineno a)),
             metadata =
               [(''pattern'', PStr ''match_type_code''),
                (''subject'', PStr subject_str),
                (''case_count'', PInt (int num_cases)),
                (''function'', pystr_opt (tc_current_function self)),
                (''class'', pystr_opt (tc_current_class self))]\<rparr>],
         tc_patterns := tc_patterns self @
           [[(''type'', PStr ''match''),
             (''line'', PInt (lineno a)),
             (''subject'', PStr subject_str),
             (''case_count'', PInt (int num_cases))]]\<rparr>)"

definition tc_visit_If :: "TypeCodeVisitor \<Rightarrow> stmt \<Rightarrow> TypeCodeVisitor" where
  "tc_visit_If self node =
     (let (self', info) = analyze_if_chain self node in
      case info of
        Some ci \<Rightarrow> if is_type_code_pattern ci then tc_add_violation self' (stmt_ann node) ci else self'
      | None \<Rightarrow> self')"

definition tc_enter :: "TypeCodeVisitor \<Rightarrow> node \<Rightarrow> TypeCodeVisitor" where
  "tc_enter self n =
     (case n of
        NStmt (ClassDef a cname bases kws body decorator_list) \<Rightarrow>
          self\<lparr>tc_current_class := Some cname\<rparr>
      | NStmt (FunctionDef a fname as body decorator_list returns) \<Rightarrow>
          self\<lparr>tc_current_function := Some fname\<rparr>
      | NStmt (AsyncFunctionDef a fname as body decorator_list returns) \<Rightarrow>
          self\<lparr>tc_current_function := Some fname\<rparr>
      | NStmt (If a test body orelse) \<Rightarrow> tc_visit_If self (If a test body orelse)
      | NStmt (Match a subject cases) \<Rightarrow>
          if is_type_code_subject self subject
             \<and> int (length cases) \<ge> tc_min_branches (tc_rule self)
          then tc_add_match_violation self a subject (length cases) else self
      | _ \<Rightarrow> self)"

definition tc_leave :: "TypeCodeVisitor \<Rightarrow> TypeCodeVisitor \<Rightarrow> node \<Rightarrow> TypeCodeVisitor" where
  "tc_leave before after n =
     (case n of
        NStmt (ClassDef a cname bases kws body decorator_list) \<Rightarrow>
          after\<lparr>tc_current_class := tc_current_class before\<rparr>
      | NStmt (FunctionDef a fname as body decorator_list returns) \<Rightarrow>
          after\<lparr>tc_current_function := tc_current_function before\<rparr>
      | NStmt (AsyncFunctionDef a fname as body decorator_list returns) \<Rightarrow>
          after\<lparr>tc_current_function := tc_current_function before\<rparr>
      | _ \<Rightarrow> after)"

definition TypeCodeRule_analyze :: "TypeCodeRule \<Rightarrow> module \<Rightarrow> string \<Rightarrow> string \<Rightarrow> RuleResult" where
  "TypeCodeRule_analyze self tree source path =
     (let visitor = visit tc_enter tc_leave
                      (TypeCodeVisitor_init path source self TYPE_CODE_ATTRIBUTES) (NMod tree)
      in \<lparr>result_rule_name = ''type_code'',
          violations = tc_violations visitor,
          summary =
            [(''total_type_code_conditionals'', PInt (int (length (tc_violations visitor)))),
             (''constant_comparisons'', PInt (int (constant_comparison_count visitor))),
             (''enum_comparisons'', PInt (int (enum_comparison_count visitor))),
             (''type_attribute_checks'', PInt (int (tc_type_attr_count visitor)))],
          result_metadata = [(''patterns'', PList (map PDict (tc_patterns visitor)))]\<rparr>)"

subsection \<open>Quiet nodes and the type-code scenario\<close>

text \<open>
  Nodes below the statement level, and the statements that hold no other statement: no
  rule of the chain family (\<open>visit_If\<close>, \<open>visit_Match\<close>, \<open>visit_ClassDef\<close>,
  \<open>visit_FunctionDef\<close>) has a method for them.
\<close>

definition simple_stmt :: "stmt \<Rightarrow> bool" where
  "simple_stmt s =
     (case s of
        Return a v \<Rightarrow> True
      | Assign a targets v \<Rightarrow> True
      | AugAssign a target op v \<Rightarrow> True
      | AnnAssign a target anno v \<Rightarrow> True
      | Raise a exc cause \<Rightarrow> True
      | Import a names \<Rightarrow> True
      | ImportFrom a m names level \<Rightarrow> True
      | Expr a v \<Rightarrow> True
      | Pass a \<Rightarrow> True
      | _ \<Rightarrow> False)"

definition quiet_node :: "node \<Rightarrow> bool" where
  "quiet_node n =
     (case n of
        NStmt s \<Rightarrow> simple_stmt s
      | NExpr e \<Rightarrow> True
      | NKeyword k \<Rightarrow> True
      | NAlias al \<Rightarrow> True
      | _ \<Rightarrow> False)"

text \<open>
  An \<open>if\<close>/\<open>elif\<close>/\<open>elif\<close> chain whose three tests compare \<open>self.type\<close> with a name.
  The annotations, the comparison operators, the compared names and the bodies are
  parameters.
\<close>

definition self_type_test :: "ann \<Rightarrow> ann \<Rightarrow> ann \<Rightarrow> cmpop list \<Rightarrow> ann \<Rightarrow> string \<Rightarrow> expr" where
  "self_type_test a1 a2 a3 ops a4 const_name =
     Compare a1 (Attribute a2 (Name a3 ''self'') ''type'') ops [Name a4 const_name]"

definition type_chain3 ::
  "ann \<Rightarrow> expr \<Rightarrow> stmt list \<Rightarrow> ann \<Rightarrow> expr \<Rightarrow> stmt list \<Rightarrow> ann \<Rightarrow> expr \<Rightarrow> stmt list \<Rightarrow> stmt" where
  "type_chain3 i1 t1 b1 i2 t2 b2 i3 t3 b3 = If i1 t1 b1 [If i2 t2 b2 [If i3 t3 b3 []]]"

text \<open>The branch dictionary \<open>_analyze_compare\<close> builds for such a test.\<close>

definition self_type_branch :: "ann \<Rightarrow> string \<Rightarrow> branch_info" where
  "self_type_branch n c =
     \<lparr>is_type_code = True, checked_attribute = ''self.type'', compared_to = c,
      pattern_type = classify_comparison_value [Name n c]\<rparr>"

text \<open>
  The instance
  \<^verbatim>\<open>if self.type == EUROPEAN: pass\<close> /
  \<^verbatim>\<open>elif self.type == AFRICAN: pass\<close> /
  \<^verbatim>\<open>elif self.type == NORWEGIAN_BLUE: pass\<close>
\<close>

definition bird_source :: string where
  "bird_source =
     ''if self.type == EUROPEAN:'' @ [CHR 0x0A] @ ''    pass'' @ [CHR 0x0A]
     @ ''elif self.type == AFRICAN:'' @ [CHR 0x0A] @ ''    pass'' @ [CHR 0x0A]
     @ ''elif self.type == NORWEGIAN_BLUE:'' @ [CHR 0x0A] @ ''    pass''"

definition bird_tree :: module where
  "bird_tree =
     Module
       [type_chain3
          (at 1 1 0) (self_type_test (at 2 1 3) (at 3 1 3) (at 4 1 3) [Eq] (at 5 1 16) ''EUROPEAN'')
          [Pass (at 6 2 4)]
          (at 7 3 0) (self_type_test (at 8 3 5) (at 9 3 5) (at 10 3 5) [Eq] (at 11 3 18) ''AFRICAN'')
          [Pass (at 12 4 4)]
          (at 13 5 0)
          (self_type_test (at 14 5 5) (at 15 5 5) (at 16 5 5) [Eq] (at 17 5 18) ''NORWEGIAN_BLUE'')
          [Pass (at 18 6 4)]]"

section \<open>The polymorphism rule\<close>

record PolymorphismRule =
  pm_min_branches :: int
  check_isinstance :: bool
  check_type_attributes :: bool

definition PolymorphismRule_init :: "pydict \<Rightarrow> PolymorphismRule option" where
  "PolymorphismRule_init options =
     map_option (\<lambda>m.
       \<lparr>pm_min_branches = m,
        check_isinstance = option_flag options ''check_isinstance'' True,
        check_type_attributes = option_flag options ''check_type_attributes'' True\<rparr>)
       (option_int options ''min_branches'' 3)"

definition TYPE_ATTRIBUTES :: "string list" where
  "TYPE_ATTRIBUTES = [''type'', ''kind'', ''category'', ''variant'', ''mode'', ''status'']"

record PolymorphismVisitor =
  pm_file_path :: string
  pm_source :: string
  pm_rule :: PolymorphismRule
  pm_violations :: "RuleViolation list"
  pm_patterns :: "pydict list"
  isinstance_count :: nat
  pm_type_attr_count :: nat
  long_chain_count :: nat
  pm_current_function :: "string option"
  pm_current_class :: "string option"

definition PolymorphismVisitor_init :: "string \<Rightarrow> string \<Rightarrow> PolymorphismRule \<Rightarrow> PolymorphismVisitor" where
  "PolymorphismVisitor_init path source rule =
     \<lparr>pm_file_path = path, pm_source = source, pm_rule = rule, pm_violations = [],
      pm_patterns = [], isinstance_count = 0, pm_type_attr_count = 0, long_chain_count = 0,
      pm_current_function = None, pm_current_class = None\<rparr>"

text \<open>
  \<open>_count_branches\<close>: one for the \<open>if\<close>, one for each \<open>elif\<close>, and one for an \<open>else\<close>
  clause (any non-empty \<open>orelse\<close> that is not a single \<open>If\<close>).
\<close>

function count_branches_loop :: "stmt \<Rightarrow> nat \<Rightarrow> nat" where
  "count_branches_loop current count =
     (case current of
        If a test body orelse \<Rightarrow>
          (if orelse = [] then count
           else case elif_branch current of
                  Some nxt \<Rightarrow> count_branches_loop nxt (count + 1)
                | None \<Rightarrow> count + 1)
      | _ \<Rightarrow> count)"
  by pat_completeness auto
termination
  by (relation "measure (\<lambda>(current, count). stmt_size current)")
     (auto dest: elif_branch_smaller)

definition count_branches :: "stmt \<Rightarrow> nat" where
  "count_branches node = count_branches_loop node 1"

text \<open>\<open>_get_checked_variable\<close>: the variable or attribute a condition examines.\<close>

fun get_checked_variable :: "expr \<Rightarrow> string option" where
  "get_checked_variable (Compare a left ops comparators) =
     (case left of
        Attribute a' v attr \<Rightarrow> Some (get_full_attribute left)
      | Name a' i \<Rightarrow> Some i
      | _ \<Rightarrow> None)"
| "get_checked_variable (Call a func as kws) =
     (case func of
        Name a' f \<Rightarrow>
          if f = ''isinstance'' then
            (case as of
               [] \<Rightarrow> None
             | first # rest \<Rightarrow> (case first of Name a'' i \<Rightarrow> Some i | _ \<Rightarrow> None))
          else None
      | _ \<Rightarrow> None)"
| "get_checked_variable (BoolOp a op []) = None"
| "get_checked_variable (BoolOp a op (v # vs)) = get_checked_variable v"
| "get_checked_variable _ = None"

text \<open>
  The loop of \<open>_analyze_if_pattern\<close>: \<open>if var: checked_vars.append(var)\<close> for the test of
  every branch of the chain; a branch whose test gives no variable adds nothing.
\<close>

definition truthy_str :: "string option \<Rightarrow> bool" where
  "truthy_str x = (case x of None \<Rightarrow> False | Some s \<Rightarrow> s \<noteq> [])"

function collect_checked_vars :: "stmt \<Rightarrow> string list \<Rightarrow> string list" where
  "collect_checked_vars current checked_vars =
     (case current of
        If a test body orelse \<Rightarrow>
          (let var = get_checked_variable test;
               checked_vars' = (if truthy_str var then checked_vars @ [the var] else checked_vars)
           in case elif_branch current of
                Some nxt \<Rightarrow> collect_checked_vars nxt checked_vars'
              | None \<Rightarrow> checked_vars')
      | _ \<Rightarrow> checked_vars)"
  by pat_completeness auto
termination
  by (relation "measure (\<lambda>(current, checked_vars). stmt_size current)")
     (auto dest: elif_branch_smaller)

text \<open>
  \<open>Counter(checked_vars).most_common(1)[0]\<close>: the elements in order of first occurrence
  with their counts, and of those the first with the greatest count.
\<close>

definition first_occurrences :: "'a list \<Rightarrow> 'a list" where
  "first_occurrences xs = rev (remdups (rev xs))"

fun pick_max :: "('a \<times> nat) list \<Rightarrow> 'a \<times> nat \<Rightarrow> 'a \<times> nat" where
  "pick_max [] best = best"
| "pick_max (p # ps) best = pick_max ps (if snd p > snd best then p else best)"

definition most_common1 :: "'a list \<Rightarrow> ('a \<times> nat) option" where
  "most_common1 xs =
     (case map (\<lambda>x. (x, count_list xs x)) (first_occurrences xs) of
        [] \<Rightarrow> None
      | p # ps \<Rightarrow> Some (pick_max ps p))"

text \<open>
  The dictionary \<open>_analyze_if_pattern\<close> returns.  \<open>consistency\<close> is the quotient
  \<open>most_common[1] / len(checked_vars)\<close>, kept as the pair of its operands.  The test
  \<open>most_common[1] >= len(checked_vars) * 0.7\<close> is taken over the rationals:
  \<open>10 * count \<ge> 7 * len\<close> (the double nearest to 0.7 is below 0.7 by less than \<open>10\<^sup>-\<^sup>1\<^sup>6\<close>, so
  for any list that fits in memory the floating-point test gives the same answer).
\<close>

record pattern_info =
  pi_type :: string
  pi_variable :: string
  consistency :: "(nat \<times> nat) option"

definition analyze_if_pattern :: "stmt \<Rightarrow> pattern_info option" where
  "analyze_if_pattern node =
     (let checked_vars = collect_checked_vars node [] in
      if checked_vars = [] then None
      else if length (remdups checked_vars) = 1 then
        Some \<lparr>pi_type = ''same_variable'', pi_variable = hd checked_vars, consistency = None\<rparr>
      else
        (case most_common1 checked_vars of
           None \<Rightarrow> None
         | Some (v, c) \<Rightarrow>
             if 10 * c \<ge> 7 * length checked_vars then
               Some \<lparr>pi_type = ''mostly_same_variable'', pi_variable = v,
                     consistency = Some (c, length checked_vars)\<rparr>
             else None))"

definition pm_add_violation ::
  "PolymorphismVisitor \<Rightarrow> ann \<Rightarrow> nat \<Rightarrow> pattern_info \<Rightarrow> PolymorphismVisitor" where
  "pm_add_violation self a branches info =
     (let var = pi_variable info in
      self
        \<lparr>long_chain_count := long_chain_count self + 1,
         pm_violations := pm_violations self @
           [\<lparr>rule_name = ''polymorphism'',
             message = ''Long if/elif chain with '' @ str_nat branches @ '' branches checking ''
               @ quoted var @ ''. Consider replacing with polymorphism.'',
             file_path = pm_file_path self,
             line = lineno a,
             column = col_offset a,
             severity = ''warning'',
             suggestion = Some
               (''This if/elif chain could be replaced with polymorphism. ''
                @ ''Consider using Strategy pattern, State pattern, or simple ''
                @ ''method dispatch based on the value of '' @ quoted var @ ''.''),
             code_snippet = Some (get_source_line (pm_source self) (lineno a)),
             metadata =
               [(''pattern'', PStr ''long_if_chain''),
                (''branches'', PInt (int branches)),
                (''checked_variable'', PStr var),
                (''function'', pystr_opt (pm_current_function self)),
                (''class'', pystr_opt (pm_current_class self))]\<rparr>],
         pm_patterns := pm_patterns self @
           [[(''type'', PStr ''long_if_chain''),
             (''branches'', PInt (int branches)),
             (''variable'', PStr var),
             (''line'', PInt (lineno a))]]\<rparr>)"

fun contains_isinstance :: "expr \<Rightarrow> bool" where
  "contains_isinstance (Call a func as kws) =
     (case func of Name a' f \<Rightarrow> f = ''isinstance'' | _ \<Rightarrow> False)"
| "contains_isinstance (BoolOp a op vals) = list_ex contains_isinstance vals"
| "contains_isinstance (UnaryOp a op operand) = contains_isinstance operand"
| "contains_isinstance _ = False"

definition check_isinstance_pattern :: "PolymorphismVisitor \<Rightarrow> ann \<Rightarrow> expr \<Rightarrow> PolymorphismVisitor" where
  "check_isinstance_pattern self a test =
     (if contains_isinstance test then
        self
          \<lparr>isinstance_count := isinstance_count self + 1,
           pm_violations := pm_violations self @
             [\<lparr>rule_name = ''polymorphism'',
               message =
                 ''isinstance() check detected. This often indicates a need for polymorphism.'',
               file_path = pm_file_path self,
               line = lineno a,
               column = col_offset a,
               severity = ''warning'',
               suggestion = Some
                 (''Instead of checking types with isinstance(), consider ''
                  @ ''using polymorphism. Define a common interface/base class ''
                  @ ''and let each type implement its own behavior.''),
               code_snippet = Some (get_source_line (pm_source self) (lineno a)),
               metadata =
                 [(''pattern'', PStr ''isinstance_check''),
                  (''function'', pystr_opt (pm_current_function self)),
                  (''class'', pystr_opt (pm_current_class self))]\<rparr>],
           pm_patterns := pm_patterns self @
             [[(''type'', PStr ''isinstance''), (''line'', PInt (lineno a))]]\<rparr>
      else self)"

text \<open>\<open>_get_type_attribute_check\<close>; in a \<open>BoolOp\<close> the first operand with a result wins.\<close>

definition first_truthy :: "string option list \<Rightarrow> string option" where
  "first_truthy rs = (case filter truthy_str rs of [] \<Rightarrow> None | r # rest \<Rightarrow> r)"

fun get_type_attribute_check :: "expr \<Rightarrow> string option" where
  "get_type_attribute_check (Compare a left ops comparators) =
     (case left of
        Attribute a' v attr \<Rightarrow>
          if lower attr \<in> set TYPE_ATTRIBUTES then Some (get_full_attribute left) else None
      | _ \<Rightarrow> None)"
| "get_type_attribute_check (BoolOp a op vals) = first_truthy (map get_type_attribute_check vals)"
| "get_type_attribute_check _ = None"

text \<open>\<open>attr_name.split('.')[-1]\<close>.\<close>

definition after_last_dot :: "string \<Rightarrow> string" where
  "after_last_dot s = rev (takeWhile (\<lambda>c. c \<noteq> CHR ''.'') (rev s))"

definition check_type_attribute_pattern ::
  "PolymorphismVisitor \<Rightarrow> ann \<Rightarrow> expr \<Rightarrow> PolymorphismVisitor" where
  "check_type_attribute_pattern self a test =
     (let attr_name = get_type_attribute_check test in
      if truthy_str attr_name then
        self
          \<lparr>pm_type_attr_count := pm_type_attr_count self + 1,
           pm_violations := pm_violations self @
             [\<lparr>rule_name = ''polymorphism'',
               message = ''Checking '' @ quoted (the attr_name)
                 @ '' attribute suggests type-based branching. ''
                 @ ''Consider using polymorphism instead.'',
               file_path = pm_file_path self,
               line = lineno a,
               column = col_offset a,
               severity = ''warning'',
               suggestion = Some
                 (''Instead of checking the '' @ quoted (after_last_dot (the attr_name))
                  @ '' attribute, consider using polymorphism. Create subclasses that implement ''
                  @ ''the behavior directly.''),
               code_snippet = Some (get_source_line (pm_source self) (lineno a)),
               metadata =
                 [(''pattern'', PStr ''type_attribute''),
                  (''attribute'', PStr (the attr_name)),
                  (''function'', pystr_opt (pm_current_function self)),
                  (''class'', pystr_opt (pm_current_class self))]\<rparr>],
           pm_patterns := pm_patterns self @
             [[(''type'', PStr ''type_attribute''),
               (''attribute'', PStr (the attr_name)),
               (''line'', PInt (lineno a))]]\<rparr>
      else self)"

definition pm_add_match_violation :: "PolymorphismVisitor \<Rightarrow> ann \<Rightarrow> nat \<Rightarrow> PolymorphismVisitor" where
  "pm_add_match_violation self a num_cases =
     self
       \<lparr>pm_violations := pm_violations self @
          [\<lparr>rule_name = ''polymorphism'',
            message = ''Match statement with '' @ str_nat num_cases @ '' cases. ''
              @ ''Consider if polymorphism would be more appropriate.'',
            file_path = pm_file_path self,
            line = lineno a,
            column = col_offset a,
            severity = ''info'',
            suggestion = Some
              (''While match statements are useful, many cases might indicate ''
               @ ''an opportunity for polymorphism where each case becomes a class.''),
            code_snippet = Some (get_source_line (pm_source self) (lineno a)),
            metadata =
              [(''pattern'', PStr ''match_statement''),
               (''cases'', PInt (int num_cases)),
               (''function'', pystr_opt (pm_current_function self)),
               (''class'', pystr_opt (pm_current_class self))]\<rparr>],
        pm_patterns := pm_patterns self @
          [[(''type'', PStr ''match_statement''),
            (''cases'', PInt (int num_cases)),
            (''line'', PInt (lineno a))]]\<rparr>"

text \<open>\<open>visit_If\<close>, up to its call of \<open>generic_visit\<close>.\<close>

definition long_chain_step :: "PolymorphismVisitor \<Rightarrow> stmt \<Rightarrow> PolymorphismVisitor" where
  "long_chain_step self node =
     (let branches = count_branches node in
      if int branches \<ge> pm_min_branches (pm_rule self) then
        (case analyze_if_pattern node of
           Some info \<Rightarrow> pm_add_violation self (stmt_ann node) branches info
         | None \<Rightarrow> self)
      else self)"

definition pm_visit_If :: "PolymorphismVisitor \<Rightarrow> stmt \<Rightarrow> expr \<Rightarrow> PolymorphismVisitor" where
  "pm_visit_If self node test =
     (let s1 = long_chain_step self node;
          s2 = (if check_isinstance (pm_rule s1)
                then check_isinstance_pattern s1 (stmt_ann node) test else s1)
      in if check_type_attributes (pm_rule s2)
         then check_type_attribute_pattern s2 (stmt_ann node) test else s2)"

definition pm_enter :: "PolymorphismVisitor \<Rightarrow> node \<Rightarrow> PolymorphismVisitor" where
  "pm_enter self n =
     (case n of
        NStmt (ClassDef a cname bases kws body decorator_list) \<Rightarrow>
          self\<lparr>pm_current_class := Some cname\<rparr>
      | NStmt (FunctionDef a fname as body decorator_list returns) \<Rightarrow>
          self\<lparr>pm_current_function := Some fname\<rparr>
      | NStmt (AsyncFunctionDef a fname as body decorator_list returns) \<Rightarrow>
          self\<lparr>pm_current_function := Some fname\<rparr>
      | NStmt (If a test body orelse) \<Rightarrow> pm_visit_If self (If a test body orelse) test
      | NStmt (Match a subject cases) \<Rightarrow>
          if int (length cases) \<ge> pm_min_branches (pm_rule self)
          then pm_add_match_violation self a (length cases) else self
      | _ \<Rightarrow> self)"

definition pm_leave ::
  "PolymorphismVisitor \<Rightarrow> PolymorphismVisitor \<Rightarrow> node \<Rightarrow> PolymorphismVisitor" where
  "pm_leave before after n =
     (case n of
        NStmt (ClassDef a cname bases kws body decorator_list) \<Rightarrow>
          after\<lparr>pm_current_class := pm_current_class before\<rparr>
      | NStmt (FunctionDef a fname as body decorator_list returns) \<Rightarrow>
          after\<lparr>pm_current_function := pm_current_function before\<rparr>
      | NStmt (AsyncFunctionDef a fname as body decorator_list returns) \<Rightarrow>
          after\<lparr>pm_current_function := pm_current_function before\<rparr>
      | _ \<Rightarrow> after)"

definition PolymorphismRule_analyze ::
  "PolymorphismRule \<Rightarrow> module \<Rightarrow> string \<Rightarrow> string \<Rightarrow> RuleResult" where
  "PolymorphismRule_analyze self tree source path =
     (let visitor = visit pm_enter pm_leave (PolymorphismVisitor_init path source self) (NMod tree)
      in \<lparr>result_rule_name = ''polymorphism'',
          violations = pm_violations visitor,
          summary =
            [(''total_opportunities'', PInt (int (length (pm_violations visitor)))),
             (''isinstance_checks'', PInt (int (isinstance_count visitor))),
             (''type_attribute_checks'', PInt (int (pm_type_attr_count visitor))),
             (''long_if_chains'', PInt (int (long_chain_count visitor)))],
          result_metadata = [(''patterns'', PList (map PDict (pm_patterns visitor)))]\<rparr>)"

subsection \<open>Long chains: what is reported, and the reading of the specification\<close>

text \<open>The violations of a list that report a long \<open>if\<close>/\<open>elif\<close> chain.\<close>

definition long_chain_violations :: "RuleViolation list \<Rightarrow> RuleViolation list" where
  "long_chain_violations vs =
     filter (\<lambda>v. map_of (metadata v) ''pattern'' = Some (PStr ''long_if_chain'')) vs"

text \<open>
  The specification's wording, for comparison with the code: the checked variable is
  consistent across at least 70 percent of the chain's branches.  \<open>chain_tests\<close> are the
  conditions of the \<open>if\<close> and \<open>elif\<close> branches; \<open>branches_checking v\<close> counts the
  branches whose condition examines \<open>v\<close>; the share is taken of the chain's branch
  count.
\<close>

function chain_tests :: "stmt \<Rightarrow> expr list" where
  "chain_tests current =
     (case current of
        If a test body orelse \<Rightarrow>
          (case elif_branch current of
             Some nxt \<Rightarrow> test # chain_tests nxt
           | None \<Rightarrow> [test])
      | _ \<Rightarrow> [])"
  by pat_completeness auto
termination
  by (relation "measure stmt_size") (auto dest: elif_branch_smaller)

definition branches_checking :: "string \<Rightarrow> stmt \<Rightarrow> nat" where
  "branches_checking v node =
     length (filter (\<lambda>t. get_checked_variable t = Some v) (chain_tests node))"

definition consistent_across_branches :: "stmt \<Rightarrow> bool" where
  "consistent_across_branches node =
     list_ex (\<lambda>v. 10 * branches_checking v node \<ge> 7 * count_branches node)
       (collect_checked_vars node [])"

text \<open>
  A chain of three branches of which only the first examines a variable:
  \<^verbatim>\<open>if x == 1: pass\<close> /
  \<^verbatim>\<open>elif f(): pass\<close> /
  \<^verbatim>\<open>elif g(): pass\<close>
\<close>

definition mixed_source :: string where
  "mixed_source =
     ''if x == 1:'' @ [CHR 0x0A] @ ''    pass'' @ [CHR 0x0A]
     @ ''elif f():'' @ [CHR 0x0A] @ ''    pass'' @ [CHR 0x0A]
     @ ''elif g():'' @ [CHR 0x0A] @ ''    pass''"

definition mixed_chain :: stmt where
  "mixed_chain =
     If (at 1 1 0)
        (Compare (at 2 1 3) (Name (at 3 1 3) ''x'') [Eq] [Constant (at 4 1 8) (CInt 1)])
        [Pass (at 5 2 4)]
        [If (at 6 3 0) (Call (at 7 3 5) (Name (at 8 3 5) ''f'') [] [])
           [Pass (at 9 4 4)]
           [If (at 10 5 0) (Call (at 11 5 5) (Name (at 12 5 5) ''g'') [] [])
              [Pass (at 13 6 4)]
              []]]"

definition mixed_tree :: module where
  "mixed_tree = Module [mixed_chain]"

section \<open>The functions-to-objects rule\<close>

record FunctionsToObjectsRule =
  max_params :: int
  check_dict_returns :: bool
  check_related_functions :: bool

definition FunctionsToObjectsRule_init :: "pydict \<Rightarrow> FunctionsToObjectsRule option" where
  "FunctionsToObjectsRule_init options =
     map_option (\<lambda>m.
       \<lparr>max_params = m,
        check_dict_returns = option_flag options ''check_dict_returns'' True,
        check_related_functions = option_flag options ''check_related_functions'' True\<rparr>)
       (option_int options ''max_params'' 4)"

text \<open>
  An entry of \<open>function_info\<close>; the key \<open>is_async\<close> is present, and true, only in the
  entries \<open>visit_AsyncFunctionDef\<close> appends.
\<close>

record function_info =
  fi_name :: string
  fi_line :: int
  fi_params :: nat
  fi_returns_dict :: bool
  fi_is_private :: bool
  fi_is_async :: bool

definition function_info_dict :: "function_info \<Rightarrow> pydict" where
  "function_info_dict f =
     [(''name'', PStr (fi_name f)), (''line'', PInt (fi_line f)),
      (''params'', PInt (int (fi_params f))), (''returns_dict'', PBool (fi_returns_dict f)),
      (''is_private'', PBool (fi_is_private f))]
     @ (if fi_is_async f then [(''is_async'', PBool True)] else [])"

record FunctionVisitor =
  fo_file_path :: string
  fo_source :: string
  fo_max_params :: int
  fo_check_dict_returns :: bool
  fo_violations :: "RuleViolation list"
  fo_function_info :: "function_info list"
  many_params_count :: nat
  dict_return_count :: nat
  fo_in_class :: bool

definition FunctionVisitor_init :: "string \<Rightarrow> string \<Rightarrow> int \<Rightarrow> bool \<Rightarrow> FunctionVisitor" where
  "FunctionVisitor_init path source maxp check_dicts =
     \<lparr>fo_file_path = path, fo_source = source, fo_max_params = maxp,
      fo_check_dict_returns = check_dicts, fo_violations = [], fo_function_info = [],
      many_params_count = 0, dict_return_count = 0, fo_in_class = False\<rparr>"

text \<open>
  \<open>_count_params\<close>: \<open>len(args.args) + len(args.kwonlyargs)\<close>, plus one for \<open>*args\<close> and one
  for \<open>**kwargs\<close>.  \<open>args.posonlyargs\<close>, the parameters before a \<open>/\<close>, is not read.
\<close>

definition count_params :: "arguments \<Rightarrow> nat" where
  "count_params as =
     length (args as) + length (kwonlyargs as)
     + (if vararg as \<noteq> None then 1 else 0) + (if kwarg as \<noteq> None then 1 else 0)"

text \<open>
  \<open>ast.walk\<close>: the node and all its descendants (here in depth-first order; the source
  only searches the nodes for a match).
\<close>

definition walk :: "node \<Rightarrow> node list" where
  "walk n = visit (\<lambda>acc m. acc @ [m]) (\<lambda>before after m. after) [] n"

definition is_dict_return :: "node \<Rightarrow> bool" where
  "is_dict_return n =
     (case n of
        NStmt (Return a (Some v)) \<Rightarrow>
          (case v of
             Dict a' keys vals \<Rightarrow> True
           | Call a' func as kws \<Rightarrow> (case func of Name a'' f \<Rightarrow> f = ''dict'' | _ \<Rightarrow> False)
           | _ \<Rightarrow> False)
      | _ \<Rightarrow> False)"

definition returns_dict :: "stmt \<Rightarrow> bool" where
  "returns_dict node = list_ex is_dict_return (walk (NStmt node))"

definition add_many_params_violation ::
  "FunctionVisitor \<Rightarrow> ann \<Rightarrow> string \<Rightarrow> nat \<Rightarrow> FunctionVisitor" where
  "add_many_params_violation self a fname num_params =
     self
       \<lparr>fo_violations := fo_violations self @
          [\<lparr>rule_name = ''functions_to_objects'',
            message = ''Function '' @ quoted fname @ '' has '' @ str_nat num_params
              @ '' parameters. Consider converting to a class.'',
            file_path = fo_file_path self,
            line = lineno a,
            column = col_offset a,
            severity = ''info'',
            suggestion = Some
              (''Functions with many parameters often indicate the need for an object. ''
               @ ''Consider creating a class where parameters become attributes, ''
               @ ''and the function becomes a method.''),
            code_snippet = Some (get_source_line (fo_source self) (lineno a)),
            metadata =
              [(''pattern'', PStr ''many_parameters''),
               (''function'', PStr fname),
               (''param_count'', PInt (int num_params))]\<rparr>]\<rparr>"

definition add_dict_return_violation :: "FunctionVisitor \<Rightarrow> ann \<Rightarrow> string \<Rightarrow> FunctionVisitor" where
  "add_dict_return_violation self a fname =
     self
       \<lparr>fo_violations := fo_violations self @
          [\<lparr>rule_name = ''functions_to_objects'',
            message = ''Function '' @ quoted fname @ '' returns a dictionary. ''
              @ ''Consider using a dataclass or named tuple instead.'',
            file_path = fo_file_path self,
            line = lineno a,
            column = col_offset a,
            severity = ''info'',
            suggestion = Some
              (''Returning dictionaries loses type information and makes code ''
               @ ''harder to maintain. Consider using a dataclass, named tuple, ''
               @ ''or a proper class to represent the returned data.''),
            code_snippet = Some (get_source_line (fo_source self) (lineno a)),
            metadata =
              [(''pattern'', PStr ''dict_return''),
               (''function'', PStr fname)]\<rparr>]\<rparr>"

text \<open>
  \<open>visit_FunctionDef\<close> and \<open>visit_AsyncFunctionDef\<close>, up to the call of
  \<open>generic_visit\<close>; \<open>is_async\<close> tells the two apart.
\<close>

definition fo_visit_function ::
  "FunctionVisitor \<Rightarrow> stmt \<Rightarrow> ann \<Rightarrow> string \<Rightarrow> arguments \<Rightarrow> bool \<Rightarrow> FunctionVisitor" where
  "fo_visit_function self node a fname as is_async =
     (if fo_in_class self then self
      else
        (let is_private = startswith fname ''_'';
             num_params = count_params as;
             rd = (if fo_check_dict_returns self then returns_dict node else False);
             s1 = self\<lparr>fo_function_info := fo_function_info self @
                    [\<lparr>fi_name = fname, fi_line = lineno a, fi_params = num_params,
                      fi_returns_dict = rd, fi_is_private = is_private,
                      fi_is_async = is_async\<rparr>]\<rparr>;
             s2 = (if int num_params > fo_max_params s1 \<and> \<not> is_private
                   then add_many_params_violation
                          (s1\<lparr>many_params_count := many_params_count s1 + 1\<rparr>) a fname num_params
                   else s1)
         in if rd \<and> \<not> is_private
            then add_dict_return_violation
                   (s2\<lparr>dict_return_count := dict_return_count s2 + 1\<rparr>) a fname
            else s2))"

definition fo_enter :: "FunctionVisitor \<Rightarrow> node \<Rightarrow> FunctionVisitor" where
  "fo_enter self n =
     (case n of
        NStmt (ClassDef a cname bases kws body decorator_list) \<Rightarrow> self\<lparr>fo_in_class := True\<rparr>
      | NStmt (FunctionDef a fname as body decorator_list returns) \<Rightarrow>
          fo_visit_function self (FunctionDef a fname as body decorator_list returns)
            a fname as False
      | NStmt (AsyncFunctionDef a fname as body decorator_list returns) \<Rightarrow>
          fo_visit_function self (AsyncFunctionDef a fname as body decorator_list returns)
            a fname as True
      | _ \<Rightarrow> self)"

definition fo_leave :: "FunctionVisitor \<Rightarrow> FunctionVisitor \<Rightarrow> node \<Rightarrow> FunctionVisitor" where
  "fo_leave before after n =
     (case n of
        NStmt (ClassDef a cname bases kws body decorator_list) \<Rightarrow>
          after\<lparr>fo_in_class := fo_in_class before\<rparr>
      | _ \<Rightarrow> after)"

text \<open>
  \<open>_find_function_groups\<close>: the public functions whose name has an underscore after a
  first word of at least three characters, grouped by that word in order of first
  appearance; groups of one are dropped.
\<close>

definition add_to_group ::
  "(string \<times> function_info list) list \<Rightarrow> function_info \<Rightarrow> (string \<times> function_info list) list" where
  "add_to_group groups func =
     (let fname = fi_name func; prefix = takeWhile (\<lambda>c. c \<noteq> CHR ''_'') fname in
      if startswith fname ''_'' then groups
      else if CHR ''_'' \<in> set fname \<and> length prefix \<ge> 3 then
        AList.update prefix
          ((case map_of groups prefix of None \<Rightarrow> [] | Some fs \<Rightarrow> fs) @ [func]) groups
      else groups)"

definition find_function_groups :: "function_info list \<Rightarrow> (string \<times> function_info list) list" where
  "find_function_groups infos =
     filter (\<lambda>(k, v). length v \<ge> 2) (foldl add_to_group [] infos)"

text \<open>
  \<open>str.title\<close>: a cased character after a cased character is lowered, any other cased
  character is put in title case.  The title case of \<open>0xDF\<close> is \<open>Ss\<close>; that of \<open>0xB5\<close> and
  \<open>0xFF\<close> is a code point above 255, which a character here cannot hold, and \<open>c_title\<close>
  leaves these two as they are.
\<close>

definition c_title :: "char \<Rightarrow> string" where
  "c_title c =
     (let n = (of_char c :: nat)
      in if (97 \<le> n \<and> n \<le> 122) \<or> (224 \<le> n \<and> n \<le> 246) \<or> (248 \<le> n \<and> n \<le> 254)
         then [char_of (n - 32)]
         else if n = 223 then ''Ss'' else [c])"

fun title_from :: "bool \<Rightarrow> string \<Rightarrow> string" where
  "title_from prev_cased [] = []"
| "title_from prev_cased (c # cs) =
     (if c_isupper c \<or> c_islower c
      then (if prev_cased then [c_lower c] else c_title c) @ title_from True cs
      else c # title_from False cs)"

definition title :: "string \<Rightarrow> string" where
  "title s = title_from False s"

definition related_violation :: "string \<Rightarrow> string \<Rightarrow> function_info list \<Rightarrow> RuleViolation" where
  "related_violation path prefix functions =
     (let func_names = map fi_name functions;
          first_line = foldl min (fi_line (hd functions)) (map fi_line (tl functions))
      in \<lparr>rule_name = ''functions_to_objects'',
          message = ''Found '' @ str_nat (length functions) @ '' related functions with prefix ''
            @ quoted (prefix @ ''_'') @ '': '' @ join '', '' (take 5 func_names)
            @ (if length func_names > 5 then ''...'' else [])
            @ ''. Consider grouping into a class.'',
          file_path = path,
          line = first_line,
          column = 0,
          severity = ''info'',
          suggestion = Some
            (''These functions appear related. Consider creating a class ''
             @ quoted (filter (\<lambda>c. c \<noteq> CHR ''_'') (title prefix)) @ '' with these as methods.''),
          code_snippet = None,
          metadata =
            [(''pattern'', PStr ''related_functions''),
             (''prefix'', PStr prefix),
             (''functions'', PList (map PStr func_names))]\<rparr>)"

definition check_related :: "function_info list \<Rightarrow> string \<Rightarrow> RuleViolation list" where
  "check_related infos path =
     map (\<lambda>(prefix, functions). related_violation path prefix functions)
       (filter (\<lambda>(prefix, functions). length functions \<ge> 3) (find_function_groups infos))"

definition FunctionsToObjectsRule_analyze ::
  "FunctionsToObjectsRule \<Rightarrow> module \<Rightarrow> string \<Rightarrow> string \<Rightarrow> RuleResult" where
  "FunctionsToObjectsRule_analyze self tree source path =
     (let visitor = visit fo_enter fo_leave
                      (FunctionVisitor_init path source (max_params self) (check_dict_returns self))
                      (NMod tree);
          groups = find_function_groups (fo_function_info visitor)
      in \<lparr>result_rule_name = ''functions_to_objects'',
          violations = fo_violations visitor
            @ (if check_related_functions self
               then check_related (fo_function_info visitor) path else []),
          summary =
            [(''total_functions'', PInt (int (length (fo_function_info visitor)))),
             (''functions_with_many_params'', PInt (int (many_params_count visitor))),
             (''functions_returning_dicts'', PInt (int (dict_return_count visitor))),
             (''related_function_groups'', PInt (int (length groups)))],
          result_metadata =
            [(''functions'', PList (map (PDict \<circ> function_info_dict) (fo_function_info visitor))),
             (''function_groups'',
              PDict (map (\<lambda>(k, v). (k, PList (map (PDict \<circ> function_info_dict) v))) groups))]\<rparr>)"

subsection \<open>A function with positional-only parameters\<close>

text \<open>
  The parameter count in the specification's words: every positional parameter, every
  keyword-only parameter, \<open>*args\<close> and \<open>**kwargs\<close> count one each.
\<close>

definition total_parameters :: "arguments \<Rightarrow> nat" where
  "total_parameters as =
     length (posonlyargs as) + length (args as) + length (kwonlyargs as)
     + (if vararg as \<noteq> None then 1 else 0) + (if kwarg as \<noteq> None then 1 else 0)"

text \<open>The tree of \<^verbatim>\<open>def build(a, b, c, d, e, /): pass\<close>\<close>

definition posonly_source :: string where
  "posonly_source = ''def build(a, b, c, d, e, /): pass''"

definition posonly_arguments :: arguments where
  "posonly_arguments =
     \<lparr>posonlyargs = [Arg (at 2 1 10) ''a'' None, Arg (at 3 1 13) ''b'' None,
                     Arg (at 4 1 16) ''c'' None, Arg (at 5 1 19) ''d'' None,
                     Arg (at 6 1 22) ''e'' None],
      args = [], vararg = None, kwonlyargs = [], kw_defaults = [], kwarg = None,
      defaults = []\<rparr>"

definition posonly_tree :: module where
  "posonly_tree =
     Module [FunctionDef (at 1 1 0) ''build'' posonly_arguments [Pass (at 7 1 29)] [] None]"

text \<open>The same function with a slash-free header: \<^verbatim>\<open>def build(a, b, c, d, e): pass\<close>\<close>

definition plain_arguments :: arguments where
  "plain_arguments =
     \<lparr>posonlyargs = [],
      args = [Arg (at 2 1 10) ''a'' None, Arg (at 3 1 13) ''b'' None,
              Arg (at 4 1 16) ''c'' None, Arg (at 5 1 19) ''d'' None,
              Arg (at 6 1 22) ''e'' None],
      vararg = None, kwonlyargs = [], kw_defaults = [], kwarg = None, defaults = []\<rparr>"

definition plain_tree :: module where
  "plain_tree =
     Module [FunctionDef (at 1 1 0) ''build'' plain_arguments [Pass (at 7 1 26)] [] None]"

section \<open>The encapsulation rule\<close>

record EncapsulationRule =
  allow_self_access :: bool
  allow_private_access :: bool
  allow_dunder_access :: bool
  max_chain_length :: int
  warn_dependency_access :: bool

definition EncapsulationRule_init :: "pydict \<Rightarrow> EncapsulationRule option" where
  "EncapsulationRule_init options =
     map_option (\<lambda>m.
       \<lparr>allow_self_access = option_flag options ''allow_self_access'' True,
        allow_private_access = option_flag options ''allow_private_access'' False,
        allow_dunder_access = option_flag options ''allow_dunder_access'' True,
        max_chain_length = m,
        warn_dependency_access = option_flag options ''warn_dependency_access'' True\<rparr>)
       (option_int options ''max_chain_length'' 1)"

text \<open>
  The visitor.  \<open>_call_targets\<close> and \<open>_class_bases\<close> are sets of \<open>id(node)\<close>;
  \<open>_imported_modules\<close> is a set of names.
\<close>

record EncapsulationVisitor =
  en_file_path :: string
  en_source :: string
  en_rule :: EncapsulationRule
  en_violations :: "RuleViolation list"
  en_in_class :: bool
  en_current_class :: "string option"
  call_targets :: "nat set"
  imported_modules :: "string set"
  class_bases :: "nat set"
  module_access_skipped :: nat

definition EncapsulationVisitor_init ::
  "string \<Rightarrow> string \<Rightarrow> EncapsulationRule \<Rightarrow> EncapsulationVisitor" where
  "EncapsulationVisitor_init path source rule =
     \<lparr>en_file_path = path, en_source = source, en_rule = rule, en_violations = [],
      en_in_class = False, en_current_class = None, call_targets = {}, imported_modules = {},
      class_bases = {}, module_access_skipped = 0\<rparr>"

text \<open>\<open>visit_Import\<close> and \<open>visit_ImportFrom\<close>: the names a module is bound to.\<close>

definition import_name :: "import_alias \<Rightarrow> string" where
  "import_name al =
     (if truthy_str (asname al) then the (asname al)
      else takeWhile (\<lambda>c. c \<noteq> CHR ''.'') (name al))"

definition import_from_name :: "import_alias \<Rightarrow> string" where
  "import_from_name al = (if truthy_str (asname al) then the (asname al) else name al)"

text \<open>\<open>_mark_as_class_base\<close>: the ids it adds for one base expression.\<close>

fun class_base_ids :: "expr \<Rightarrow> nat set" where
  "class_base_ids (Attribute a v attr) =
     insert (nid a) (insert (nid (expr_ann v)) (class_base_ids v))"
| "class_base_ids e = {nid (expr_ann e)}"

text \<open>
  \<open>_get_attribute_chain\<close>: for \<open>obj.prop1.prop2\<close> the list \<open>["obj", "prop1", "prop2"]\<close>, and
  the empty list when the base of the chain is not a \<open>Name\<close>.
\<close>

fun attribute_chain :: "expr \<Rightarrow> string list" where
  "attribute_chain (Attribute a v attr) =
     (case attribute_chain v of [] \<Rightarrow> [] | b # rest \<Rightarrow> (b # rest) @ [attr])"
| "attribute_chain (Name a i) = [i]"
| "attribute_chain _ = []"

definition common_modules :: "string list" where
  "common_modules = [''os'', ''sys'', ''math'', ''typing'', ''collections'', ''functools'']"

definition is_dunder :: "string \<Rightarrow> bool" where
  "is_dunder attr = (startswith attr ''__'' \<and> endswith attr ''__'')"

definition constant_like :: "string \<Rightarrow> bool" where
  "constant_like attr = list_all (\<lambda>c. c_isupper c \<or> c = CHR ''_'') attr"

definition create_violation ::
  "EncapsulationVisitor \<Rightarrow> ann \<Rightarrow> string \<Rightarrow> string list \<Rightarrow> RuleViolation option" where
  "create_violation self a base_name attr_names =
     (if constant_like (last attr_names) then None
      else if base_name \<in> set common_modules then None
      else
        (let full_access = base_name @ ''.'' @ join ''.'' attr_names;
             long = (int (length attr_names) > max_chain_length (en_rule self))
         in Some
           \<lparr>rule_name = ''encapsulation'',
            message =
              (if long then
                 ''Long attribute chain detected: '' @ quoted full_access @ ''. ''
                 @ ''This violates the Law of Demeter. Consider using delegation.''
               else
                 ''Direct property access: '' @ quoted full_access @ ''. ''
                 @ ''Consider using a method instead (Tell Don'' @ [CHR 0x27] @ ''t Ask).''),
            file_path = en_file_path self,
            line = lineno a,
            column = col_offset a,
            severity = ''warning'',
            suggestion = Some
              (if long then
                 ''Instead of accessing '' @ quoted full_access @ '', consider adding a method ''
                 @ ''to '' @ quoted base_name @ '' that encapsulates this behavior.''
               else
                 ''Instead of accessing '' @ quoted (base_name @ ''.'' @ hd attr_names) @ '', ''
                 @ ''consider telling '' @ quoted base_name @ '' what to do with a method call.''),
            code_snippet = Some (get_source_line (en_source self) (lineno a)),
            metadata =
              [(''base_object'', PStr base_name),
               (''accessed_attributes'', PList (map PStr attr_names)),
               (''chain_length'', PInt (int (length attr_names)))]\<rparr>))"

text \<open>\<open>visit_Attribute\<close>, up to its call of \<open>generic_visit\<close>.\<close>

definition en_visit_Attribute :: "EncapsulationVisitor \<Rightarrow> expr \<Rightarrow> ann \<Rightarrow> EncapsulationVisitor" where
  "en_visit_Attribute self node a =
     (if nid a \<in> call_targets self then self
      else if nid a \<in> class_bases self then
        self\<lparr>module_access_skipped := module_access_skipped self + 1\<rparr>
      else
        (case attribute_chain node of
           [] \<Rightarrow> self
         | base_name # attr_names \<Rightarrow>
             if allow_self_access (en_rule self) \<and> (base_name = ''self'' \<or> base_name = ''cls'')
               then self
             else if base_name \<in> imported_modules self \<and> length attr_names = 1
                     \<and> (case hd attr_names of [] \<Rightarrow> False | c # cs \<Rightarrow> c_isupper c)
               then self\<lparr>module_access_skipped := module_access_skipped self + 1\<rparr>
             else if allow_dunder_access (en_rule self) \<and> list_ex is_dunder attr_names
               then self
             else if allow_private_access (en_rule self)
                     \<and> list_ex (\<lambda>attr. startswith attr ''_'') attr_names
               then self
             else if length attr_names > 0 then
               (case create_violation self a base_name attr_names of
                  Some violation \<Rightarrow> self\<lparr>en_violations := en_violations self @ [violation]\<rparr>
                | None \<Rightarrow> self)
             else self))"

definition en_enter :: "EncapsulationVisitor \<Rightarrow> node \<Rightarrow> EncapsulationVisitor" where
  "en_enter self n =
     (case n of
        NStmt (Import a names) \<Rightarrow>
          self\<lparr>imported_modules := imported_modules self \<union> set (map import_name names)\<rparr>
      | NStmt (ImportFrom a m names level) \<Rightarrow>
          if truthy_str m
          then self\<lparr>imported_modules := imported_modules self \<union> set (map import_from_name names)\<rparr>
          else self
      | NStmt (ClassDef a cname bases kws body decorator_list) \<Rightarrow>
          self\<lparr>class_bases := class_bases self \<union> \<Union> (set (map class_base_ids bases)),
               en_in_class := True, en_current_class := Some cname\<rparr>
      | NExpr (Call a func as kws) \<Rightarrow>
          (case func of
             Attribute a' v attr \<Rightarrow> self\<lparr>call_targets := insert (nid a') (call_targets self)\<rparr>
           | _ \<Rightarrow> self)
      | NExpr (Attribute a v attr) \<Rightarrow> en_visit_Attribute self (Attribute a v attr) a
      | _ \<Rightarrow> self)"

definition en_leave ::
  "EncapsulationVisitor \<Rightarrow> EncapsulationVisitor \<Rightarrow> node \<Rightarrow> EncapsulationVisitor" where
  "en_leave before after n =
     (case n of
        NStmt (ClassDef a cname bases kws body decorator_list) \<Rightarrow>
          after\<lparr>en_in_class := en_in_class before, en_current_class := en_current_class before\<rparr>
      | _ \<Rightarrow> after)"

definition EncapsulationRule_analyze ::
  "EncapsulationRule \<Rightarrow> module \<Rightarrow> string \<Rightarrow> string \<Rightarrow> RuleResult" where
  "EncapsulationRule_analyze self tree source path =
     (let visitor = visit en_enter en_leave (EncapsulationVisitor_init path source self) (NMod tree)
      in \<lparr>result_rule_name = ''encapsulation'',
          violations = en_violations visitor,
          summary =
            [(''total_violations'', PInt (int (length (en_violations visitor)))),
             (''files_analyzed'', PInt 1),
             (''module_access_skipped'', PInt (int (module_access_skipped visitor)))],
          result_metadata = []\<rparr>)"

subsection \<open>Attribute chains\<close>

text \<open>
  The expression \<open>x.a\<^sub>1. \<dots> .a\<^sub>n\<close>: \<open>steps\<close> lists, from the base outwards, the annotation
  of each \<open>Attribute\<close> node with the name it accesses.
\<close>

definition chain_expr :: "ann \<Rightarrow> string \<Rightarrow> (ann \<times> string) list \<Rightarrow> expr" where
  "chain_expr a0 x steps = foldl (\<lambda>e (a, attr). Attribute a e attr) (Name a0 x) steps"

text \<open>
  The trees of \<^verbatim>\<open>y = x.b.c\<close>, and of \<^verbatim>\<open>def f(os):\<close> / \<^verbatim>\<open>    return os.b.c\<close>, where
  \<open>os\<close> is a parameter and nothing is imported.
\<close>

definition xbc_source :: string where
  "xbc_source = ''y = x.b.c''"

definition xbc_tree :: module where
  "xbc_tree =
     Module
       [Assign (at 1 1 0) [Name (at 2 1 0) ''y'']
          (chain_expr (at 3 1 4) ''x'' [(at 4 1 4, ''b''), (at 5 1 4, ''c'')])]"

definition os_param_source :: string where
  "os_param_source = ''def f(os):'' @ [CHR 0x0A] @ ''    return os.b.c''"

definition os_param_tree :: module where
  "os_param_tree =
     Module
       [FunctionDef (at 1 1 0) ''f''
          \<lparr>posonlyargs = [], args = [Arg (at 2 1 6) ''os'' None], vararg = None,
           kwonlyargs = [], kw_defaults = [], kwarg = None, defaults = []\<rparr>
          [Return (at 3 2 4)
             (Some (chain_expr (at 4 2 11) ''os'' [(at 5 2 11, ''b''), (at 6 2 11, ''c'')]))]
          [] None]"

text \<open>
  The default options of the rule, the violation \<open>_create_violation\<close> builds for the prefix
  of a chain, and the steps of a chain that no exemption of \<open>visit_Attribute\<close> covers: the
  node is neither the target of a call nor a class base, and the attribute is neither a dunder
  name nor written in capitals and underscores only.
\<close>

definition prefix_violation ::
  "EncapsulationVisitor \<Rightarrow> string \<Rightarrow> (ann \<times> string) list \<Rightarrow> RuleViolation" where
  "prefix_violation s x pre = the (create_violation s (fst (last pre)) x (map snd pre))"

definition default_encapsulation :: EncapsulationRule where
  "default_encapsulation =
     \<lparr>allow_self_access = True, allow_private_access = False, allow_dunder_access = True,
      max_chain_length = 1, warn_dependency_access = True\<rparr>"

definition plain_step :: "EncapsulationVisitor \<Rightarrow> ann \<times> string \<Rightarrow> bool" where
  "plain_step s st =
     (nid (fst st) \<notin> call_targets s \<and> nid (fst st) \<notin> class_bases s
      \<and> \<not> is_dunder (snd st) \<and> \<not> constant_like (snd st))"

section \<open>Configuration\<close>

text \<open>
  \<open>config.py\<close>.  The dataclass annotations are not enforced and \<open>from_file\<close> stores what
  the JSON document holds, so the fields are Python values.  \<open>rules\<close> is the dict from rule
  name to \<open>RuleConfig\<close>, in insertion order.
\<close>

record RuleConfig =
  enabled :: pyval
  rc_severity :: pyval
  options :: pyval

definition RuleConfig_init :: "pyval \<Rightarrow> RuleConfig" where
  "RuleConfig_init e = \<lparr>enabled = e, rc_severity = PStr ''warning'', options = PDict []\<rparr>"

record AnalyzerConfig =
  rules :: "(string \<times> RuleConfig) list"
  output_format :: pyval
  include_patterns :: pyval
  exclude_patterns :: pyval
  cfg_max_file_size :: pyval

definition AVAILABLE_RULES :: "string list" where
  "AVAILABLE_RULES =
     [''encapsulation'', ''coupling'', ''null_object'', ''polymorphism'',
      ''functions_to_objects'', ''type_code'', ''reference_exposure'', ''dictionary_usage'',
      ''boolean_flag'']"

text \<open>\<open>__post_init__\<close>: every available rule missing from \<open>rules\<close> gets a default entry.\<close>

definition post_init :: "AnalyzerConfig \<Rightarrow> AnalyzerConfig" where
  "post_init cfg =
     cfg\<lparr>rules :=
       foldl (\<lambda>rs rule_name.
                if rule_name \<in> set (dict_keys rs) then rs
                else AList.update rule_name (RuleConfig_init (PBool True)) rs)
         (rules cfg) AVAILABLE_RULES\<rparr>"

definition AnalyzerConfig_init ::
  "(string \<times> RuleConfig) list \<Rightarrow> pyval \<Rightarrow> pyval \<Rightarrow> pyval \<Rightarrow> pyval \<Rightarrow> AnalyzerConfig" where
  "AnalyzerConfig_init rs fmt incl excl max_size =
     post_init \<lparr>rules = rs, output_format = fmt, include_patterns = incl,
                exclude_patterns = excl, cfg_max_file_size = max_size\<rparr>"

definition default_include :: pyval where
  "default_include = PList [PStr ''*.py'']"

definition default_exclude :: pyval where
  "default_exclude = PList [PStr ''**/test_*.py'', PStr ''**/*_test.py'', PStr ''**/tests/**'']"

definition AnalyzerConfig_default :: AnalyzerConfig where
  "AnalyzerConfig_default =
     AnalyzerConfig_init [] (PStr ''json'') default_include default_exclude (PInt 10485760)"

definition enable_rule :: "AnalyzerConfig \<Rightarrow> string \<Rightarrow> pydict \<Rightarrow> exn + AnalyzerConfig" where
  "enable_rule cfg rule opts =
     (if rule \<notin> set AVAILABLE_RULES then Inl (Exn (''Unknown rule: '' @ rule))
      else Inr (cfg\<lparr>rules :=
                  AList.update rule
                    \<lparr>enabled = PBool True, rc_severity = PStr ''warning'', options = PDict opts\<rparr>
                    (rules cfg)\<rparr>))"

definition get_enabled_rules :: "AnalyzerConfig \<Rightarrow> string list" where
  "get_enabled_rules cfg = map fst (filter (\<lambda>(name, c). truthy (enabled c)) (rules cfg))"

definition to_dict :: "AnalyzerConfig \<Rightarrow> pydict" where
  "to_dict cfg =
     [(''rules'',
       PDict (map (\<lambda>(name, c).
                     (name, PDict [(''enabled'', enabled c), (''severity'', rc_severity c),
                                   (''options'', options c)]))
                (rules cfg))),
      (''output_format'', output_format cfg),
      (''include_patterns'', include_patterns cfg),
      (''exclude_patterns'', exclude_patterns cfg),
      (''max_file_size'', cfg_max_file_size cfg)]"

text \<open>
  The persisted form.  \<open>json\<close> holds the JSON values: what \<open>json.dump\<close> writes and, read as
  Python values, what \<open>json.load\<close> returns (\<open>null\<close> is \<open>None\<close>, an array a list, an object a
  dict with string keys).  The embedding keeps the written document as a value, not as
  text.  \<open>json.dump\<close> writes a tuple as an array, as it does a list, and writes a key that
  is not a string as a string: \<open>null\<close>, \<open>true\<close>, \<open>false\<close> or the digits of the integer; two
  keys of a dict may so become the same member name.  \<open>json.load\<close> builds the dict of an
  object member by member, so a repeated name keeps its first place and its last value.
\<close>

datatype json =
    JNull
  | JBool bool
  | JInt int
  | JFloat pyfloat
  | JStr string
  | JArray "json list"
  | JObject "(string \<times> json) list"

fun key_text :: "pykey \<Rightarrow> string" where
  "key_text KNone = ''null''"
| "key_text (KBool b) = (if b then ''true'' else ''false'')"
| "key_text (KInt i) = str_int i"
| "key_text (KStr s) = s"

primrec json_dump :: "pyval \<Rightarrow> json" where
  "json_dump PNone = JNull"
| "json_dump (PBool b) = JBool b"
| "json_dump (PInt i) = JInt i"
| "json_dump (PFloat f) = JFloat f"
| "json_dump (PStr s) = JStr s"
| "json_dump (PList xs) = JArray (map json_dump xs)"
| "json_dump (PTuple xs) = JArray (map json_dump xs)"
| "json_dump (PDict kvs) = JObject (map (map_prod id json_dump) kvs)"
| "json_dump (PKeyed kvs) = JObject (map (map_prod key_text json_dump) kvs)"

definition members :: "(string \<times> json) list \<Rightarrow> (string \<times> json) list" where
  "members kvs = foldl (\<lambda>d kv. AList.update (fst kv) (snd kv) d) [] kvs"

primrec json_load :: "json \<Rightarrow> json" where
  "json_load JNull = JNull"
| "json_load (JBool b) = JBool b"
| "json_load (JInt i) = JInt i"
| "json_load (JFloat f) = JFloat f"
| "json_load (JStr s) = JStr s"
| "json_load (JArray xs) = JArray (map json_load xs)"
| "json_load (JObject kvs) = JObject (members (map (map_prod id json_load) kvs))"

text \<open>A loaded value as the Python value it is.\<close>

primrec pyval_of :: "json \<Rightarrow> pyval" where
  "pyval_of JNull = PNone"
| "pyval_of (JBool b) = PBool b"
| "pyval_of (JInt i) = PInt i"
| "pyval_of (JFloat f) = PFloat f"
| "pyval_of (JStr s) = PStr s"
| "pyval_of (JArray xs) = PList (map pyval_of xs)"
| "pyval_of (JObject kvs) = PDict (map (map_prod id pyval_of) kvs)"

text \<open>
  The files \<open>from_file\<close> and \<open>save\<close> touch: what a path holds (nothing, a JSON document, or
  text on which \<open>json.load\<close> raises the given error) and the \<open>OSError\<close>, if any, that
  opening the path for writing raises.
\<close>

datatype file_content = Json json | Malformed exn

record file_system =
  contents :: "string \<Rightarrow> file_content option"
  write_error :: "string \<Rightarrow> exn option"

definition save :: "file_system \<Rightarrow> AnalyzerConfig \<Rightarrow> string \<Rightarrow> exn + file_system" where
  "save fs cfg path =
     (case write_error fs path of
        Some e \<Rightarrow> Inl e
      | None \<Rightarrow> Inr (fs\<lparr>contents := (contents fs)(path \<mapsto> Json (json_dump (PDict (to_dict cfg))))\<rparr>))"

text \<open>\<open>d.get(key, default)\<close> on a loaded dict, and the \<open>AttributeError\<close> of a value.\<close>

definition json_get :: "(string \<times> json) list \<Rightarrow> string \<Rightarrow> json \<Rightarrow> json" where
  "json_get d key dflt = (case map_of d key of None \<Rightarrow> dflt | Some v \<Rightarrow> v)"

fun type_name :: "pyval \<Rightarrow> string" where
  "type_name PNone = ''NoneType''"
| "type_name (PBool b) = ''bool''"
| "type_name (PInt i) = ''int''"
| "type_name (PFloat f) = ''float''"
| "type_name (PStr s) = ''str''"
| "type_name (PList xs) = ''list''"
| "type_name (PTuple xs) = ''tuple''"
| "type_name (PDict kvs) = ''dict''"
| "type_name (PKeyed kvs) = ''dict''"

definition no_attribute :: "pyval \<Rightarrow> string \<Rightarrow> exn" where
  "no_attribute v attr =
     Exn ([CHR 0x27] @ type_name v @ [CHR 0x27] @ '' object has no attribute ''
          @ [CHR 0x27] @ attr @ [CHR 0x27])"

text \<open>
  \<open>from_file\<close>.  The tests \<open>isinstance(rule_data, bool)\<close> and \<open>isinstance(rule_data, dict)\<close>
  are on loaded values; what is stored in the configuration is the Python value.
\<close>

fun rule_from_data :: "json \<Rightarrow> RuleConfig option" where
  "rule_from_data (JBool b) = Some (RuleConfig_init (PBool b))"
| "rule_from_data (JObject d) =
     Some \<lparr>enabled = pyval_of (json_get d ''enabled'' (JBool True)),
           rc_severity = pyval_of (json_get d ''severity'' (JStr ''warning'')),
           options = pyval_of (json_get d ''options'' (JObject []))\<rparr>"
| "rule_from_data _ = None"

definition load_rules :: "(string \<times> json) list \<Rightarrow> (string \<times> RuleConfig) list" where
  "load_rules items =
     foldl (\<lambda>rs (rule_name, rule_data).
              case rule_from_data rule_data of
                None \<Rightarrow> rs
              | Some c \<Rightarrow> AList.update rule_name c rs)
       [] items"

definition from_file :: "file_system \<Rightarrow> string \<Rightarrow> exn + AnalyzerConfig" where
  "from_file fs path =
     (case contents fs path of
        None \<Rightarrow> Inl (Exn (''Config file not found: '' @ path))
      | Some (Malformed e) \<Rightarrow> Inl e
      | Some (Json doc) \<Rightarrow>
          (case json_load doc of
             JObject data \<Rightarrow>
               (case json_get data ''rules'' (JObject []) of
                  JObject items \<Rightarrow>
                    Inr (AnalyzerConfig_init (load_rules items)
                           (pyval_of (json_get data ''output_format'' (JStr ''json'')))
                           (pyval_of (json_get data ''include_patterns'' (JArray [JStr ''*.py''])))
                           (pyval_of (json_get data ''exclude_patterns''
                              (JArray [JStr ''**/test_*.py'', JStr ''**/*_test.py'',
                                       JStr ''**/tests/**''])))
                           (pyval_of (json_get data ''max_file_size'' (JInt 10485760))))
                | v \<Rightarrow> Inl (no_attribute (pyval_of v) ''items''))
           | v \<Rightarrow> Inl (no_attribute (pyval_of v) ''get'')))"

text \<open>
  The values that come back from a file as they were saved: those built from \<open>None\<close>,
  booleans, integers, floats other than NaN, strings, lists and dicts with string keys.
  (A reloaded NaN is a NaN, but NaN is not equal to NaN; the keys of a Python dict are
  distinct.)
\<close>

primrec json_native :: "pyval \<Rightarrow> bool" where
  "json_native PNone = True"
| "json_native (PBool b) = True"
| "json_native (PInt i) = True"
| "json_native (PFloat f) = (f \<noteq> NaN)"
| "json_native (PStr s) = True"
| "json_native (PList xs) = list_all id (map json_native xs)"
| "json_native (PTuple xs) = False"
| "json_native (PDict kvs) =
     (distinct (map fst kvs) \<and> list_all snd (map (map_prod id json_native) kvs))"
| "json_native (PKeyed kvs) = False"

text \<open>The entry \<open>to_dict\<close> writes for a rule.\<close>

definition rule_entry :: "RuleConfig \<Rightarrow> pyval" where
  "rule_entry c =
     PDict [(''enabled'', enabled c), (''severity'', rc_severity c), (''options'', options c)]"

text \<open>
  What \<open>json.load\<close> gives back for a value \<open>json.dump\<close> wrote, and a rule configuration
  with its three fields read back that way.
\<close>

definition reloaded_value :: "pyval \<Rightarrow> pyval" where
  "reloaded_value v = pyval_of (json_load (json_dump v))"

definition reloaded :: "RuleConfig \<Rightarrow> RuleConfig" where
  "reloaded c =
     \<lparr>enabled = reloaded_value (enabled c), rc_severity = reloaded_value (rc_severity c),
      options = reloaded_value (options c)\<rparr>"

text \<open>
  The configuration of the round-trip example: the default one after
  \<^verbatim>\<open>enable_rule("polymorphism", exclude=("a", "b"))\<close>, and a file system with no file.
\<close>

definition tuple_options :: pydict where
  "tuple_options = [(''exclude'', PTuple [PStr ''a'', PStr ''b''])]"

definition tuple_config :: AnalyzerConfig where
  "tuple_config =
     (case enable_rule AnalyzerConfig_default ''polymorphism'' tuple_options of
        Inr cfg \<Rightarrow> cfg
      | Inl e \<Rightarrow> AnalyzerConfig_default)"

definition empty_fs :: file_system where
  "empty_fs = \<lparr>contents = (\<lambda>path. None), write_error = (\<lambda>path. None)\<rparr>"

definition saved_fs :: file_system where
  "saved_fs =
     (case save empty_fs tuple_config ''oop.json'' of Inr fs \<Rightarrow> fs | Inl e \<Rightarrow> empty_fs)"

section \<open>Parsing and the orchestrator\<close>

text \<open>
  \<open>ast.parse\<close> belongs to the interpreter, not to the analyzer.  The embedding takes it as
  a parameter from the source text and the file name to what the call does: it returns a
  module, raises \<open>SyntaxError\<close> (kept by the text \<open>str(e)\<close> gives), or raises another
  exception.
\<close>

datatype parse_outcome = Parsed module | SyntaxError string | Raised exn

type_synonym parser = "string \<Rightarrow> string \<Rightarrow> parse_outcome"

text \<open>
  \<open>safety.py\<close>: \<open>validate_source_code\<close> calls \<open>ast.parse(source)\<close>, whose file name is
  \<open><unknown>\<close>, and \<open>parse_safely\<close> calls \<open>ast.parse(source, filename=file_path)\<close>.  Both
  catch \<open>SyntaxError\<close> only; \<open>Inl\<close> is an exception that leaves the method.
\<close>

definition validate_source_code :: "parser \<Rightarrow> string \<Rightarrow> string \<Rightarrow> exn + SafetyReport" where
  "validate_source_code ast_parse source path =
     (case ast_parse source ''<unknown>'' of
        Parsed tree \<Rightarrow> Inr \<lparr>is_safe = True, report_file_path = path, issues = []\<rparr>
      | SyntaxError msg \<Rightarrow>
          Inr \<lparr>is_safe = False, report_file_path = path,
               issues = [''Syntax error in source: '' @ msg]\<rparr>
      | Raised e \<Rightarrow> Inl e)"

definition parse_safely :: "parser \<Rightarrow> string \<Rightarrow> string \<Rightarrow> exn + module option" where
  "parse_safely ast_parse source path =
     (case ast_parse source path of
        Parsed tree \<Rightarrow> Inr (Some tree)
      | SyntaxError msg \<Rightarrow> Inr None
      | Raised e \<Rightarrow> Inl e)"

text \<open>
  \<open>analyzer.py\<close>.  What a call raises is kept with the side of \<open>Exception\<close> it is on,
  since the handler of \<open>analyze_source\<close> is \<open>except Exception\<close>: \<open>Exception e\<close> is an
  instance of \<open>Exception\<close>, \<open>NonException e\<close> an instance of \<open>BaseException\<close> that is not
  one of \<open>Exception\<close> (\<open>KeyboardInterrupt\<close>, \<open>SystemExit\<close>, \<open>GeneratorExit\<close>).

  A rule object is its \<open>analyze\<close> method: from the tree, the source and the path to a
  \<open>RuleResult\<close>, or to what it raises.  \<open>an_rules\<close> is the dict \<open>_rules\<close> from rule name to
  rule object, in insertion order.
\<close>

datatype raised = Exception exn | NonException exn

type_synonym rule_object = "module \<Rightarrow> string \<Rightarrow> string \<Rightarrow> raised + RuleResult"

record OOPAnalyzer =
  an_config :: AnalyzerConfig
  safety :: SafetyValidator
  an_rules :: "(string \<times> rule_object) list"

text \<open>
  \<open>_initialize_rules\<close>, for a registry from rule name to the constructor of the rule class,
  which is given the options of the rule.
\<close>

definition initialize_rules ::
  "(string \<times> (pyval \<Rightarrow> rule_object)) list \<Rightarrow> AnalyzerConfig \<Rightarrow> (string \<times> rule_object) list" where
  "initialize_rules registry cfg =
     foldl (\<lambda>rs rule_name.
              case map_of registry rule_name of
                None \<Rightarrow> rs
              | Some cls \<Rightarrow>
                  AList.update rule_name
                    (cls (case map_of (rules cfg) rule_name of
                            None \<Rightarrow> PDict []
                          | Some rule_config \<Rightarrow> options rule_config))
                    rs)
       [] (get_enabled_rules cfg)"

text \<open>
  The loop of \<open>analyze_source\<close> over \<open>_rules.items()\<close>: a result is stored under the name of
  its rule, an instance of \<open>Exception\<close> becomes an entry of \<open>errors\<close>, and anything else a
  rule raises leaves the loop and the method.
\<close>

fun run_rules ::
  "(string \<times> rule_object) list \<Rightarrow> module \<Rightarrow> string \<Rightarrow> string \<Rightarrow>
   (string \<times> RuleResult) list \<times> pydict list \<Rightarrow>
   exn + (string \<times> RuleResult) list \<times> pydict list" where
  "run_rules [] tree source path acc = Inr acc"
| "run_rules ((rname, rule) # rest) tree source path (res, errs) =
     (case rule tree source path of
        Inr result \<Rightarrow>
          run_rules rest tree source path (AList.update rname result res, errs)
      | Inl (Exception e) \<Rightarrow>
          run_rules rest tree source path
            (res,
             errs @ [[(''file'', PStr path), (''rule'', PStr rname),
                      (''error'', PStr (str_exn e))]])
      | Inl (NonException e) \<Rightarrow> Inl e)"

text \<open>\<open>now\<close> is the clock reading the report takes as its timestamp.\<close>

definition analyze_source ::
  "parser \<Rightarrow> nat \<Rightarrow> OOPAnalyzer \<Rightarrow> string \<Rightarrow> string \<Rightarrow> exn + AnalysisReport" where
  "analyze_source ast_parse now self source path =
     (case validate_source_code ast_parse source path of
        Inl e \<Rightarrow> Inl e
      | Inr safety_report \<Rightarrow>
          if \<not> is_safe safety_report then
            Inr \<lparr>files_analyzed = [], results = [], timestamp = now,
                 config = to_dict (an_config self),
                 errors = [[(''file'', PStr path), (''error'', PStr ''Failed to parse source''),
                            (''details'', PList (map PStr (issues safety_report)))]]\<rparr>
          else
            (case parse_safely ast_parse source path of
               Inl e \<Rightarrow> Inl e
             | Inr None \<Rightarrow>
                 Inr \<lparr>files_analyzed = [], results = [], timestamp = now,
                      config = to_dict (an_config self),
                      errors = [[(''file'', PStr path),
                                 (''error'', PStr ''Failed to parse source'')]]\<rparr>
             | Inr (Some tree) \<Rightarrow>
                 (case run_rules (an_rules self) tree source path ([], []) of
                    Inl e \<Rightarrow> Inl e
                  | Inr (res, errs) \<Rightarrow>
                      Inr \<lparr>files_analyzed = [path], results = res, timestamp = now,
                           config = to_dict (an_config self), errors = errs\<rparr>)))"

text \<open>
  What \<open>ast.parse\<close> of CPython 3.11 does on three sources: the function of the boolean-flag
  scenario parses, \<^verbatim>\<open>x =\<close> is a syntax error, and a sum of 200001 operands raises
  \<open>RecursionError\<close> while the tree is built.  No other source is used below; the table
  gives them the empty module.
\<close>

definition deep_source :: string where
  "deep_source = ''x'' @ concat (replicate 200000 '' + x'')"

definition observed_parse :: parser where
  "observed_parse source filename =
     (if source = deep_source then
        Raised (Exn ''maximum recursion depth exceeded during ast construction'')
      else if source = ''x ='' then
        SyntaxError (''invalid syntax ('' @ filename @ '', line 1)'')
      else if source = process_source then Parsed process_tree
      else Parsed (Module []))"

text \<open>
  Rule objects for the examples: one whose \<open>analyze\<close> raises \<^verbatim>\<open>RuntimeError("boom")\<close>, one
  whose \<open>analyze\<close> raises \<^verbatim>\<open>KeyboardInterrupt()\<close>, whose text is empty, and the boolean-flag
  rule with default options.  Each analyzer has two of them.
\<close>

definition raising_rule :: rule_object where
  "raising_rule tree source path = Inl (Exception (Exn ''boom''))"

definition interrupted_rule :: rule_object where
  "interrupted_rule tree source path = Inl (NonException (Exn []))"

definition boolean_flag_object :: rule_object where
  "boolean_flag_object tree source path =
     Inr (BooleanFlagRule_analyze (the (BooleanFlagRule_init [])) tree source path)"

definition sample_analyzer :: OOPAnalyzer where
  "sample_analyzer =
     \<lparr>an_config = AnalyzerConfig_default, safety = SafetyValidator_init None,
      an_rules = [(''type_code'', raising_rule), (''boolean_flag'', boolean_flag_object)]\<rparr>"

definition interrupted_analyzer :: OOPAnalyzer where
  "interrupted_analyzer =
     \<lparr>an_config = AnalyzerConfig_default, safety = SafetyValidator_init None,
      an_rules = [(''type_code'', interrupted_rule), (''boolean_flag'', boolean_flag_object)]\<rparr>"

section \<open>Properties\<close>

subsection \<open>Derived counts of results and reports\<close>

text \<open>
  C1. For every \<open>RuleResult\<close>, \<open>violation_count\<close> is the length of \<open>violations\<close> and
  \<open>has_violations\<close> holds exactly when \<open>violation_count\<close> is positive; for every
  \<open>AnalysisReport\<close>, \<open>total_violations\<close> is the sum of \<open>violation_count\<close> over the
  values of its \<open>results\<close> mapping.
\<close>

theorem result_and_report_counts:
  "violation_count r = length (violations r)
   \<and> (has_violations r \<longleftrightarrow> violation_count r > 0)
   \<and> total_violations rep = (\<Sum>res \<leftarrow> map snd (results rep). violation_count res)"
  by (simp add: violation_count_def has_violations_def total_violations_def dict_values_def comp_def)

subsection \<open>A zero size limit falls back to the default\<close>

text \<open>
  C9. \<open>SafetyValidator(max_file_size=0)\<close> has the 10 MiB default as its limit, not 0, and
  under it \<open>validate_file_path\<close> accepts every existing regular \<open>.py\<close> file of at most
  10 MiB.
\<close>

theorem zero_max_file_size_is_default:
  assumes "path_exists (fs path)" and "is_file (fs path)" and "suffix (fs path) = ''.py''"
    and "stat_size (fs path) = Inr n" and "n \<le> 10485760"
  shows "max_file_size (SafetyValidator_init (Some 0)) = 10485760
         \<and> is_safe (validate_file_path (SafetyValidator_init (Some 0)) fs path)"
  using assms
  by (simp add: SafetyValidator_init_def MAX_FILE_SIZE_BYTES_def validate_file_path_def)

theorem zero_max_file_size_is_default_witness:
  "max_file_size (SafetyValidator_init (Some 0)) = 10485760
   \<and> is_safe (validate_file_path (SafetyValidator_init (Some 0))
        (\<lambda>p. \<lparr>path_exists = True, is_file = True, is_dir = False, suffix = ''.py'',
               stat_size = Inr 10485760\<rparr>) ''pkg/mod.py'')"
  using zero_max_file_size_is_default
    [of "\<lambda>p. \<lparr>path_exists = True, is_file = True, is_dir = False, suffix = ''.py'',
               stat_size = Inr 10485760\<rparr>" "''pkg/mod.py''" 10485760]
  by simp

subsection \<open>The boolean-flag scenario\<close>

lemmas bf_defs =
  BooleanFlagRule_init_def option_flag_def option_int_def BooleanFlagRule_analyze_def
  BooleanFlagVisitor_init_def bf_enter_def bf_leave_def check_function_def
  find_boolean_params_def is_boolean_param_def is_bool_type_def is_bool_default_def
  get_default_for_arg_def is_boolean_name_def boolean_prefixes_def boolean_names_def
  count_conditional_usages_def counter_enter_def bf_add_violation_def
  opt_nodes_def at_def lower_def c_lower_def c_isupper_def startswith_def

text \<open>
  C4. On the tree of
  \<^verbatim>\<open>def process(data, verbose: bool = False):\<close> /
  \<^verbatim>\<open>    if verbose:\<close> /
  \<^verbatim>\<open>        print(data)\<close>
  the boolean-flag rule with default options reports exactly one violation; its metadata
  names the parameter \<open>verbose\<close> with \<open>conditional_usages = 1\<close>, and the summary counts
  it as a free function: \<open>function_flags = 1\<close>, \<open>constructor_flags = 0\<close>,
  \<open>method_flags = 0\<close>.
\<close>

theorem boolean_flag_scenario:
  "\<exists>rule v.
     BooleanFlagRule_init [] = Some rule
     \<and> violations (BooleanFlagRule_analyze rule process_tree process_source path) = [v]
     \<and> map_of (metadata v) ''parameter'' = Some (PStr ''verbose'')
     \<and> map_of (metadata v) ''conditional_usages'' = Some (PInt 1)
     \<and> map_of (summary (BooleanFlagRule_analyze rule process_tree process_source path))
           ''function_flags'' = Some (PInt 1)
     \<and> map_of (summary (BooleanFlagRule_analyze rule process_tree process_source path))
           ''constructor_flags'' = Some (PInt 0)
     \<and> map_of (summary (BooleanFlagRule_analyze rule process_tree process_source path))
           ''method_flags'' = Some (PInt 0)"
  by (simp add: bf_defs process_tree_def)

subsection \<open>Traversal of nodes no method handles\<close>

lemma visit_nodes_append:
  "visit_nodes enter leave s (xs @ ys) = visit_nodes enter leave (visit_nodes enter leave s xs) ys"
  by (induction xs arbitrary: s) simp_all

lemma visit_quiet_both:
  fixes enter :: "'s \<Rightarrow> node \<Rightarrow> 's"
  shows "(\<forall>t m. Q m \<longrightarrow> enter t m = t) \<longrightarrow> (\<forall>b t m. Q m \<longrightarrow> leave b t m = t)
       \<longrightarrow> (\<forall>m. Q m \<longrightarrow> list_all Q (iter_child_nodes m))
       \<longrightarrow> Q n \<longrightarrow> visit enter leave s n = s"
    and "(\<forall>t m. Q m \<longrightarrow> enter t m = t) \<longrightarrow> (\<forall>b t m. Q m \<longrightarrow> leave b t m = t)
       \<longrightarrow> (\<forall>m. Q m \<longrightarrow> list_all Q (iter_child_nodes m))
       \<longrightarrow> list_all Q ns \<longrightarrow> visit_nodes enter leave s ns = s"
proof (induction enter leave s n and enter leave s ns rule: visit_visit_nodes.induct)
  case (1 enter leave s n)
  show ?case
  proof (intro impI)
    assume en: "\<forall>t m. Q m \<longrightarrow> enter t m = t" and lv: "\<forall>b t m. Q m \<longrightarrow> leave b t m = t"
      and ch: "\<forall>m. Q m \<longrightarrow> list_all Q (iter_child_nodes m)" and q: "Q n"
    from q en have e: "enter s n = s" by blast
    from q ch have "list_all Q (iter_child_nodes n)" by blast
    with 1 en lv ch have "visit_nodes enter leave (enter s n) (iter_child_nodes n) = enter s n"
      by blast
    with e lv q show "visit enter leave s n = s" by simp
  qed
next
  case (2 enter leave s)
  then show ?case by simp
next
  case (3 enter leave s c cs)
  show ?case
  proof (intro impI)
    assume en: "\<forall>t m. Q m \<longrightarrow> enter t m = t" and lv: "\<forall>b t m. Q m \<longrightarrow> leave b t m = t"
      and ch: "\<forall>m. Q m \<longrightarrow> list_all Q (iter_child_nodes m)" and q: "list_all Q (c # cs)"
    from q have qc: "Q c" and qcs: "list_all Q cs" by simp_all
    from 3(1) en lv ch qc have v: "visit enter leave s c = s" by blast
    from 3(2) en lv ch qcs
    have "visit_nodes enter leave (visit enter leave s c) cs = visit enter leave s c" by blast
    with v show "visit_nodes enter leave s (c # cs) = s" by (simp del: visit.simps)
  qed
qed

lemma visit_quiet:
  assumes "\<And>t m. Q m \<Longrightarrow> enter t m = t" and "\<And>b t m. Q m \<Longrightarrow> leave b t m = t"
    and "\<And>m. Q m \<Longrightarrow> list_all Q (iter_child_nodes m)"
  shows "Q n \<Longrightarrow> visit enter leave s n = s"
    and "list_all Q ns \<Longrightarrow> visit_nodes enter leave s ns = s"
  using assms visit_quiet_both [of Q enter leave] by blast+

lemma quiet_lists [simp]:
  "list_all quiet_node (map NExpr es)"
  "list_all quiet_node (map NKeyword ks)"
  "list_all quiet_node (map NAlias als)"
  "list_all quiet_node (opt_nodes NExpr x)"
  "list_all quiet_node (concat (map (opt_nodes NExpr) xs))"
  by (auto simp add: list_all_iff quiet_node_def opt_nodes_def split: option.splits)

lemma quiet_children: "quiet_node m \<Longrightarrow> list_all quiet_node (iter_child_nodes m)"
proof (cases m)
  case (NStmt s)
  assume "quiet_node m"
  with NStmt show ?thesis
    by (cases s) (simp_all add: quiet_node_def simple_stmt_def)
next
  case (NExpr e)
  then show ?thesis
    by (cases e) (simp_all add: quiet_node_def)
next
  case (NKeyword k)
  then show ?thesis by (cases k) (simp add: quiet_node_def)
qed (simp_all add: quiet_node_def)

subsection \<open>The type-code rule on a chain of three branches\<close>

lemma tc_enter_quiet: "quiet_node m \<Longrightarrow> tc_enter t m = t"
proof (cases m)
  case (NStmt s)
  assume "quiet_node m"
  with NStmt show ?thesis
    by (cases s) (simp_all add: quiet_node_def simple_stmt_def tc_enter_def)
qed (simp_all add: tc_enter_def quiet_node_def)

lemma tc_leave_quiet: "quiet_node m \<Longrightarrow> tc_leave b t m = t"
proof (cases m)
  case (NStmt s)
  assume "quiet_node m"
  with NStmt show ?thesis
    by (cases s) (simp_all add: quiet_node_def simple_stmt_def tc_leave_def)
qed (simp_all add: tc_leave_def quiet_node_def)

lemma tc_quiet:
  "quiet_node n \<Longrightarrow> visit tc_enter tc_leave s n = s"
  "list_all quiet_node ns \<Longrightarrow> visit_nodes tc_enter tc_leave s ns = s"
  using visit_quiet [of quiet_node tc_enter tc_leave, OF tc_enter_quiet tc_leave_quiet quiet_children]
  by blast+

lemma tc_visit_simple_if:
  assumes "list_all simple_stmt b"
  shows "visit tc_enter tc_leave s (NStmt (If a t b orelse))
         = visit_nodes tc_enter tc_leave (tc_visit_If s (If a t b orelse)) (map NStmt orelse)"
proof -
  have q: "list_all quiet_node (NExpr t # map NStmt b)"
    using assms by (simp add: quiet_node_def list_all_iff)
  have "visit tc_enter tc_leave s (NStmt (If a t b orelse))
        = visit_nodes tc_enter tc_leave (tc_visit_If s (If a t b orelse))
            ((NExpr t # map NStmt b) @ map NStmt orelse)"
    by (simp add: tc_enter_def tc_leave_def)
  also have "\<dots> = visit_nodes tc_enter tc_leave (tc_visit_If s (If a t b orelse)) (map NStmt orelse)"
    unfolding visit_nodes_append using tc_quiet(2) [OF q] by simp
  finally show ?thesis .
qed

lemma tc_visit_module:
  "visit tc_enter tc_leave s (NMod (Module body)) = visit_nodes tc_enter tc_leave s (map NStmt body)"
  by (simp add: tc_enter_def tc_leave_def)

lemma tc_visit_chain3:
  assumes b1: "list_all simple_stmt b1" and b2: "list_all simple_stmt b2"
    and b3: "list_all simple_stmt b3"
  shows "visit tc_enter tc_leave s (NMod (Module [type_chain3 i1 t1 b1 i2 t2 b2 i3 t3 b3]))
         = tc_visit_If
             (tc_visit_If
                (tc_visit_If s (If i1 t1 b1 [If i2 t2 b2 [If i3 t3 b3 []]]))
                (If i2 t2 b2 [If i3 t3 b3 []]))
             (If i3 t3 b3 [])"
  by (simp only: tc_visit_module type_chain3_def list.map visit_nodes.simps
        tc_visit_simple_if [OF b1] tc_visit_simple_if [OF b2] tc_visit_simple_if [OF b3])

lemmas tc_defs =
  TypeCodeRule_init_def option_flag_def option_int_def TypeCodeVisitor_init_def
  TYPE_CODE_ATTRIBUTES_def tc_visit_If_def analyze_if_chain_def analyze_compare_def
  is_type_attribute_def get_full_attribute_def get_comparison_value_def
  classify_comparison_value_def tc_add_violation_def self_type_test_def
  lower_def c_lower_def c_isupper_def





lemma lower_type: "lower ''type'' = ''type''"
  by (simp add: lower_def c_lower_def c_isupper_def)

lemma analyze_self_type:
  assumes "''type'' \<in> set (type_code_attributes s)"
  shows "analyze_condition s (self_type_test p q r ops n c)
         = (s\<lparr>tc_type_attr_count := tc_type_attr_count s + 1\<rparr>, Some (self_type_branch n c))"
  using assms
  by (simp add: self_type_test_def analyze_compare_def is_type_attribute_def lower_type
        self_type_branch_def get_full_attribute_def get_comparison_value_def)

lemma chain1_branches:
  assumes "''type'' \<in> set (type_code_attributes s)"
  shows "chain_branches s (If i3 (self_type_test p3 q3 r3 ops3 n3 c3) b3 []) acc
         = (s\<lparr>tc_type_attr_count := tc_type_attr_count s + 1\<rparr>, acc @ [self_type_branch n3 c3])"
  using assms by (simp add: analyze_self_type)

lemma chain2_branches:
  assumes "''type'' \<in> set (type_code_attributes s)"
  shows "chain_branches s
           (If i2 (self_type_test p2 q2 r2 ops2 n2 c2) b2
              [If i3 (self_type_test p3 q3 r3 ops3 n3 c3) b3 []]) acc
         = (s\<lparr>tc_type_attr_count := tc_type_attr_count s + 2\<rparr>,
            acc @ [self_type_branch n2 c2, self_type_branch n3 c3])"
  using assms by (simp add: analyze_self_type)

lemma chain3_branches:
  assumes "''type'' \<in> set (type_code_attributes s)"
  shows "chain_branches s
           (If i1 (self_type_test p1 q1 r1 ops1 n1 c1) b1
              [If i2 (self_type_test p2 q2 r2 ops2 n2 c2) b2
                 [If i3 (self_type_test p3 q3 r3 ops3 n3 c3) b3 []]]) acc
         = (s\<lparr>tc_type_attr_count := tc_type_attr_count s + 3\<rparr>,
            acc @ [self_type_branch n1 c1, self_type_branch n2 c2, self_type_branch n3 c3])"
  using assms by (simp add: analyze_self_type)

lemma tc_visit_If_chain3:
  assumes "''type'' \<in> set (type_code_attributes s)" and "tc_min_branches (tc_rule s) = 2"
  shows "tc_visit_If s
           (If i1 (self_type_test p1 q1 r1 ops1 n1 c1) b1
              [If i2 (self_type_test p2 q2 r2 ops2 n2 c2) b2
                 [If i3 (self_type_test p3 q3 r3 ops3 n3 c3) b3 []]])
         = tc_add_violation (s\<lparr>tc_type_attr_count := tc_type_attr_count s + 3\<rparr>) i1
             \<lparr>is_type_code_pattern = True, ci_checked_attribute = ''self.type'',
              branch_count = 3, type_code_branches = 3, comparison_values = [c1, c2, c3],
              ci_pattern_type = classify_comparison_value [Name n1 c1]\<rparr>"
  using assms
  by (simp add: tc_visit_If_def analyze_if_chain_def chain3_branches self_type_branch_def
        numeral_3_eq_3 del: chain_branches.simps)

lemma tc_visit_If_chain2:
  assumes "''type'' \<in> set (type_code_attributes s)" and "tc_min_branches (tc_rule s) = 2"
  shows "tc_visit_If s
           (If i2 (self_type_test p2 q2 r2 ops2 n2 c2) b2
              [If i3 (self_type_test p3 q3 r3 ops3 n3 c3) b3 []])
         = tc_add_violation (s\<lparr>tc_type_attr_count := tc_type_attr_count s + 2\<rparr>) i2
             \<lparr>is_type_code_pattern = True, ci_checked_attribute = ''self.type'',
              branch_count = 2, type_code_branches = 2, comparison_values = [c2, c3],
              ci_pattern_type = classify_comparison_value [Name n2 c2]\<rparr>"
  using assms
  by (simp add: tc_visit_If_def analyze_if_chain_def chain2_branches self_type_branch_def
        numeral_2_eq_2 del: chain_branches.simps)

lemma tc_visit_If_chain1:
  assumes "''type'' \<in> set (type_code_attributes s)" and "tc_min_branches (tc_rule s) = 2"
  shows "tc_visit_If s (If i3 (self_type_test p3 q3 r3 ops3 n3 c3) b3 [])
         = s\<lparr>tc_type_attr_count := tc_type_attr_count s + 1\<rparr>"
  using assms
  by (simp add: tc_visit_If_def analyze_if_chain_def chain1_branches del: chain_branches.simps)

lemma tc_add_violation_frame [simp]:
  "type_code_attributes (tc_add_violation s a ci) = type_code_attributes s"
  "tc_rule (tc_add_violation s a ci) = tc_rule s"
  by (simp_all add: tc_add_violation_def Let_def)

lemma tc_add_violation_appends:
  "\<exists>v. tc_violations (tc_add_violation s a ci) = tc_violations s @ [v]
       \<and> line v = lineno a
       \<and> map_of (metadata v) ''checked_attribute'' = Some (PStr (ci_checked_attribute ci))
       \<and> map_of (metadata v) ''branch_count'' = Some (PInt (int (branch_count ci)))"
  by (simp add: tc_add_violation_def Let_def)

lemma tc_chain3_result:
  assumes "list_all simple_stmt b1" and "list_all simple_stmt b2" and "list_all simple_stmt b3"
  shows "\<exists>rule v1 v2.
           TypeCodeRule_init [] = Some rule
           \<and> violations (TypeCodeRule_analyze rule
                 (Module [type_chain3 i1 (self_type_test p1 q1 r1 ops1 n1 c1) b1
                                      i2 (self_type_test p2 q2 r2 ops2 n2 c2) b2
                                      i3 (self_type_test p3 q3 r3 ops3 n3 c3) b3])
                 source path) = [v1, v2]
           \<and> line v1 = lineno i1
           \<and> map_of (metadata v1) ''checked_attribute'' = Some (PStr ''self.type'')
           \<and> map_of (metadata v1) ''branch_count'' = Some (PInt 3)
           \<and> line v2 = lineno i2
           \<and> map_of (metadata v2) ''checked_attribute'' = Some (PStr ''self.type'')
           \<and> map_of (metadata v2) ''branch_count'' = Some (PInt 2)"
proof -
  let ?rule = "\<lparr>tc_min_branches = 2, check_constants = True, check_enums = True\<rparr>"
  let ?t1 = "self_type_test p1 q1 r1 ops1 n1 c1"
  let ?t2 = "self_type_test p2 q2 r2 ops2 n2 c2"
  let ?t3 = "self_type_test p3 q3 r3 ops3 n3 c3"
  let ?s0 = "TypeCodeVisitor_init path source ?rule TYPE_CODE_ATTRIBUTES"
  define s1 where "s1 = tc_visit_If ?s0 (If i1 ?t1 b1 [If i2 ?t2 b2 [If i3 ?t3 b3 []]])"
  define s2 where "s2 = tc_visit_If s1 (If i2 ?t2 b2 [If i3 ?t3 b3 []])"
  define s3 where "s3 = tc_visit_If s2 (If i3 ?t3 b3 [])"
  have init: "TypeCodeRule_init [] = Some ?rule"
    by (simp add: TypeCodeRule_init_def option_flag_def option_int_def)
  have a0: "''type'' \<in> set (type_code_attributes ?s0)" "tc_min_branches (tc_rule ?s0) = 2"
    and v0: "tc_violations ?s0 = []"
    by (simp_all add: TypeCodeVisitor_init_def TYPE_CODE_ATTRIBUTES_def)
  note e1 = tc_visit_If_chain3 [OF a0, of i1 p1 q1 r1 ops1 n1 c1 b1 i2 p2 q2 r2 ops2 n2 c2 b2
      i3 p3 q3 r3 ops3 n3 c3 b3, folded s1_def]
  have a1: "''type'' \<in> set (type_code_attributes s1)" "tc_min_branches (tc_rule s1) = 2"
    using a0 by (simp_all add: e1)
  obtain v1 where v1: "tc_violations s1 = [v1]" "line v1 = lineno i1"
      "map_of (metadata v1) ''checked_attribute'' = Some (PStr ''self.type'')"
      "map_of (metadata v1) ''branch_count'' = Some (PInt 3)"
    using tc_add_violation_appends
      [of "?s0\<lparr>tc_type_attr_count := tc_type_attr_count ?s0 + 3\<rparr>" i1
          "\<lparr>is_type_code_pattern = True, ci_checked_attribute = ''self.type'',
            branch_count = 3, type_code_branches = 3, comparison_values = [c1, c2, c3],
            ci_pattern_type = classify_comparison_value [Name n1 c1]\<rparr>"]
    unfolding e1 [symmetric] using v0 by auto
  note e2 = tc_visit_If_chain2 [OF a1, of i2 p2 q2 r2 ops2 n2 c2 b2 i3 p3 q3 r3 ops3 n3 c3 b3,
      folded s2_def]
  have a2: "''type'' \<in> set (type_code_attributes s2)" "tc_min_branches (tc_rule s2) = 2"
    using a1 by (simp_all add: e2)
  obtain v2 where v2: "tc_violations s2 = [v1, v2]" "line v2 = lineno i2"
      "map_of (metadata v2) ''checked_attribute'' = Some (PStr ''self.type'')"
      "map_of (metadata v2) ''branch_count'' = Some (PInt 2)"
    using tc_add_violation_appends
      [of "s1\<lparr>tc_type_attr_count := tc_type_attr_count s1 + 2\<rparr>" i2
          "\<lparr>is_type_code_pattern = True, ci_checked_attribute = ''self.type'',
            branch_count = 2, type_code_branches = 2, comparison_values = [c2, c3],
            ci_pattern_type = classify_comparison_value [Name n2 c2]\<rparr>"]
    unfolding e2 [symmetric] using v1(1) by auto
  have e3: "s3 = s2\<lparr>tc_type_attr_count := tc_type_attr_count s2 + 1\<rparr>"
    unfolding s3_def using tc_visit_If_chain1 [OF a2] .
  have "violations (TypeCodeRule_analyze ?rule
          (Module [type_chain3 i1 ?t1 b1 i2 ?t2 b2 i3 ?t3 b3]) source path) = tc_violations s3"
    unfolding TypeCodeRule_analyze_def tc_visit_chain3 [OF assms] s1_def s2_def s3_def
    by (simp add: Let_def del: visit.simps)
  also have "\<dots> = [v1, v2]" by (simp add: e3 v2(1))
  finally show ?thesis using init v1 v2 by blast
qed




subsection \<open>The polymorphism rule on if/elif chains\<close>

lemma pick_max_best: "snd best \<le> snd (pick_max ps best)"
proof (induction ps arbitrary: best)
  case Nil
  then show ?case by simp
next
  case (Cons q ps)
  show ?case
    using Cons.IH [of q] Cons.IH [of best] by (simp split: if_splits)
qed

lemma pick_max_ge: "p \<in> set ps \<Longrightarrow> snd p \<le> snd (pick_max ps best)"
proof (induction ps arbitrary: best)
  case Nil
  then show ?case by simp
next
  case (Cons q ps)
  show ?case
  proof (cases "p = q")
    case True
    then show ?thesis
      using pick_max_best [of q ps] pick_max_best [of best ps] by (simp split: if_splits)
  next
    case False
    with Cons.prems have "p \<in> set ps" by simp
    from Cons.IH [OF this] show ?thesis by simp
  qed
qed

lemma pick_max_mem: "pick_max ps best \<in> set (best # ps)"
  by (induction ps arbitrary: best) (auto split: if_splits)

lemma set_first_occurrences [simp]: "set (first_occurrences xs) = set xs"
  by (simp add: first_occurrences_def)

lemma most_common1_Some:
  assumes "xs \<noteq> []"
  shows "\<exists>v. most_common1 xs = Some (v, count_list xs v) \<and> v \<in> set xs
             \<and> (\<forall>w. count_list xs w \<le> count_list xs v)"
proof -
  let ?ps = "map (\<lambda>x. (x, count_list xs x)) (first_occurrences xs)"
  from assms have "set (first_occurrences xs) \<noteq> {}" by simp
  then have "?ps \<noteq> []" by (metis list.map_disc_iff set_empty)
  then obtain p ps where ps: "?ps = p # ps" by (cases ?ps) auto
  then have mc: "most_common1 xs = Some (pick_max ps p)" by (simp add: most_common1_def)
  have mem: "pick_max ps p \<in> set ?ps" using pick_max_mem [of ps p] ps by simp
  then obtain v where v: "pick_max ps p = (v, count_list xs v)" "v \<in> set xs" by auto
  have "count_list xs w \<le> count_list xs v" for w
  proof (cases "w \<in> set xs")
    case True
    then have "(w, count_list xs w) \<in> set (p # ps)" using ps [symmetric] by auto
    then have "snd (w, count_list xs w) \<le> snd (pick_max ps p)"
      using pick_max_best [of p ps] pick_max_ge [of "(w, count_list xs w)" ps p] by auto
    with v show ?thesis by simp
  next
    case False
    then show ?thesis by (simp add: count_list_0_iff)
  qed
  with mc v show ?thesis by auto
qed

lemma single_remdups_count:
  assumes "length (remdups xs) = 1"
  shows "count_list xs (hd xs) = length xs"
proof -
  from assms have "card (set xs) = 1" by (simp add: length_remdups_card_conv)
  then obtain a where a: "set xs = {a}" by (auto simp: card_1_singleton_iff)
  then have "xs \<noteq> []" by auto
  then have "hd xs \<in> set xs" by simp
  with a have "hd xs = a" by simp
  moreover from a have "filter ((=) a) xs = xs" by (auto simp: filter_id_conv)
  ultimately show ?thesis by (simp add: count_list_eq_length_filter)
qed

lemma analyze_if_pattern_iff:
  "analyze_if_pattern node \<noteq> None \<longleftrightarrow>
     (collect_checked_vars node [] \<noteq> []
      \<and> (\<exists>v. 7 * length (collect_checked_vars node []) \<le> 10 * count_list (collect_checked_vars node []) v))"
proof -
  define vars where "vars = collect_checked_vars node []"
  have unfolded: "analyze_if_pattern node =
     (if vars = [] then None
      else if length (remdups vars) = 1 then
        Some \<lparr>pi_type = ''same_variable'', pi_variable = hd vars, consistency = None\<rparr>
      else
        (case most_common1 vars of
           None \<Rightarrow> None
         | Some (v, c) \<Rightarrow>
             if 10 * c \<ge> 7 * length vars then
               Some \<lparr>pi_type = ''mostly_same_variable'', pi_variable = v,
                     consistency = Some (c, length vars)\<rparr>
             else None))"
    unfolding analyze_if_pattern_def Let_def vars_def ..
  have goal: "(if vars = [] then None
      else if length (remdups vars) = 1 then
        Some \<lparr>pi_type = ''same_variable'', pi_variable = hd vars, consistency = None\<rparr>
      else
        (case most_common1 vars of
           None \<Rightarrow> None
         | Some (v, c) \<Rightarrow>
             if 10 * c \<ge> 7 * length vars then
               Some \<lparr>pi_type = ''mostly_same_variable'', pi_variable = v,
                     consistency = Some (c, length vars)\<rparr>
             else None)) \<noteq> None
     \<longleftrightarrow> (vars \<noteq> [] \<and> (\<exists>v. 7 * length vars \<le> 10 * count_list vars v))"
    (is "?lhs \<longleftrightarrow> ?rhs")
  proof (cases "vars = []")
    case True
    then show ?thesis by simp
  next
    case False
    show ?thesis
    proof (cases "length (remdups vars) = 1")
      case True
      from single_remdups_count [OF True]
      have "7 * length vars \<le> 10 * count_list vars (hd vars)" by simp
      with True False show ?thesis by auto
    next
      case single: False
      from most_common1_Some [OF False] obtain v where
        v: "most_common1 vars = Some (v, count_list vars v)"
           "\<forall>w. count_list vars w \<le> count_list vars v" by blast
      have "(\<exists>w. 7 * length vars \<le> 10 * count_list vars w)
            \<longleftrightarrow> 7 * length vars \<le> 10 * count_list vars v"
        using v(2) by (meson le_trans mult_le_mono2)
      with False single v(1) show ?thesis by simp
    qed
  qed
  show ?thesis unfolding unfolded using goal unfolding vars_def .
qed

lemma lcv_append [simp]:
  "long_chain_violations (xs @ ys) = long_chain_violations xs @ long_chain_violations ys"
  by (simp add: long_chain_violations_def)

lemma lcv_isinstance [simp]:
  "long_chain_violations (pm_violations (check_isinstance_pattern s a t))
   = long_chain_violations (pm_violations s)"
  by (simp add: check_isinstance_pattern_def long_chain_violations_def)

lemma lcv_type_attribute [simp]:
  "long_chain_violations (pm_violations (check_type_attribute_pattern s a t))
   = long_chain_violations (pm_violations s)"
  by (simp add: check_type_attribute_pattern_def long_chain_violations_def Let_def)

lemma lcv_add_violation:
  "length (long_chain_violations (pm_violations (pm_add_violation s a n info)))
   = length (long_chain_violations (pm_violations s)) + 1"
  by (simp add: pm_add_violation_def long_chain_violations_def Let_def)

lemma lcv_long_chain_step:
  "length (long_chain_violations (pm_violations (long_chain_step s node)))
   = length (long_chain_violations (pm_violations s))
     + (if pm_min_branches (pm_rule s) \<le> int (count_branches node)
           \<and> analyze_if_pattern node \<noteq> None then 1 else 0)"
  by (auto simp add: long_chain_step_def Let_def lcv_add_violation split: option.splits)

lemma lcv_pm_visit_If:
  "length (long_chain_violations (pm_violations (pm_visit_If self node test)))
   = length (long_chain_violations (pm_violations self))
     + (if pm_min_branches (pm_rule self) \<le> int (count_branches node)
           \<and> collect_checked_vars node [] \<noteq> []
           \<and> (\<exists>v. 7 * length (collect_checked_vars node [])
                      \<le> 10 * count_list (collect_checked_vars node []) v)
        then 1 else 0)"
  unfolding pm_visit_If_def Let_def
  using lcv_long_chain_step [of self node] analyze_if_pattern_iff [of node]
  by (simp del: count_branches_loop.simps collect_checked_vars.simps)

lemma pm_enter_quiet: "quiet_node m \<Longrightarrow> pm_enter t m = t"
proof (cases m)
  case (NStmt s)
  assume "quiet_node m"
  with NStmt show ?thesis
    by (cases s) (simp_all add: quiet_node_def simple_stmt_def pm_enter_def)
qed (simp_all add: pm_enter_def quiet_node_def)

lemma pm_leave_quiet: "quiet_node m \<Longrightarrow> pm_leave b t m = t"
proof (cases m)
  case (NStmt s)
  assume "quiet_node m"
  with NStmt show ?thesis
    by (cases s) (simp_all add: quiet_node_def simple_stmt_def pm_leave_def)
qed (simp_all add: pm_leave_def quiet_node_def)

lemma pm_quiet:
  "quiet_node n \<Longrightarrow> visit pm_enter pm_leave s n = s"
  "list_all quiet_node ns \<Longrightarrow> visit_nodes pm_enter pm_leave s ns = s"
  using visit_quiet [of quiet_node pm_enter pm_leave, OF pm_enter_quiet pm_leave_quiet quiet_children]
  by blast+

lemma pm_visit_simple_if:
  assumes "list_all simple_stmt b"
  shows "visit pm_enter pm_leave s (NStmt (If a t b orelse))
         = visit_nodes pm_enter pm_leave (pm_visit_If s (If a t b orelse) t) (map NStmt orelse)"
proof -
  have q: "list_all quiet_node (NExpr t # map NStmt b)"
    using assms by (simp add: quiet_node_def list_all_iff)
  have "visit pm_enter pm_leave s (NStmt (If a t b orelse))
        = visit_nodes pm_enter pm_leave (pm_visit_If s (If a t b orelse) t)
            ((NExpr t # map NStmt b) @ map NStmt orelse)"
    by (simp add: pm_enter_def pm_leave_def)
  also have "\<dots> = visit_nodes pm_enter pm_leave (pm_visit_If s (If a t b orelse) t) (map NStmt orelse)"
    unfolding visit_nodes_append using pm_quiet(2) [OF q] by simp
  finally show ?thesis .
qed

lemma pm_visit_module:
  "visit pm_enter pm_leave s (NMod (Module body)) = visit_nodes pm_enter pm_leave s (map NStmt body)"
  by (simp add: pm_enter_def pm_leave_def)

lemma pm_visit_chain3:
  assumes b1: "list_all simple_stmt b1" and b2: "list_all simple_stmt b2"
    and b3: "list_all simple_stmt b3"
  shows "visit pm_enter pm_leave s (NMod (Module [If i1 t1 b1 [If i2 t2 b2 [If i3 t3 b3 []]]]))
         = pm_visit_If
             (pm_visit_If
                (pm_visit_If s (If i1 t1 b1 [If i2 t2 b2 [If i3 t3 b3 []]]) t1)
                (If i2 t2 b2 [If i3 t3 b3 []]) t2)
             (If i3 t3 b3 []) t3"
  by (simp only: pm_visit_module list.map visit_nodes.simps
        pm_visit_simple_if [OF b1] pm_visit_simple_if [OF b2] pm_visit_simple_if [OF b3])

lemma pm_rule_frame [simp]: "pm_rule (pm_visit_If s node test) = pm_rule s"
  by (simp add: pm_visit_If_def long_chain_step_def pm_add_violation_def
        check_isinstance_pattern_def check_type_attribute_pattern_def Let_def
        split: option.splits del: count_branches_loop.simps collect_checked_vars.simps)

text \<open>
  C6 against the code.  With default options (a minimum of 3 branches) the chain
  \<^verbatim>\<open>if x == 1: ... elif f(): ... elif g(): ...\<close>
  of three branches is reported as a long chain checking \<open>x\<close>, though only one of its
  three branches examines \<open>x\<close> and no variable is examined by 70 percent of the branches:
  \<open>_analyze_if_pattern\<close> keeps the variables of the conditions that yield one and takes
  the share among those, so a branch whose condition yields none is not counted at all.
\<close>

theorem mixed_chain_reported:
  "\<exists>rule.
     PolymorphismRule_init [] = Some rule
     \<and> pm_min_branches rule = 3
     \<and> length (long_chain_violations
           (violations (PolymorphismRule_analyze rule mixed_tree mixed_source ''mixed.py''))) = 1
     \<and> count_branches mixed_chain = 3
     \<and> collect_checked_vars mixed_chain [] = [''x'']
     \<and> branches_checking ''x'' mixed_chain = 1
     \<and> \<not> consistent_across_branches mixed_chain"
proof -
  let ?rule = "\<lparr>pm_min_branches = 3, check_isinstance = True, check_type_attributes = True\<rparr>"
  let ?t1 = "Compare (at 2 1 3) (Name (at 3 1 3) ''x'') [Eq] [Constant (at 4 1 8) (CInt 1)]"
  let ?t2 = "Call (at 7 3 5) (Name (at 8 3 5) ''f'') [] []"
  let ?t3 = "Call (at 11 5 5) (Name (at 12 5 5) ''g'') [] []"
  let ?c3 = "If (at 10 5 0) ?t3 [Pass (at 13 6 4)] []"
  let ?c2 = "If (at 6 3 0) ?t2 [Pass (at 9 4 4)] [?c3]"
  let ?c1 = "If (at 1 1 0) ?t1 [Pass (at 5 2 4)] [?c2]"
  let ?s0 = "PolymorphismVisitor_init ''mixed.py'' mixed_source ?rule"
  have init: "PolymorphismRule_init [] = Some ?rule"
    by (simp add: PolymorphismRule_init_def option_flag_def option_int_def)
  have c1: "mixed_chain = ?c1" by (simp add: mixed_chain_def)
  have cb: "count_branches ?c1 = 3" "count_branches ?c2 = 2" "count_branches ?c3 = 1"
    by (simp_all add: count_branches_def)
  have vars: "collect_checked_vars ?c1 [] = [''x'']"
    by (simp add: truthy_str_def)
  have s0: "pm_min_branches (pm_rule ?s0) = 3" "pm_violations ?s0 = []"
    by (simp_all add: PolymorphismVisitor_init_def)
  have simple: "list_all simple_stmt [Pass (at 5 2 4)]" "list_all simple_stmt [Pass (at 9 4 4)]"
    "list_all simple_stmt [Pass (at 13 6 4)]"
    by (simp_all add: simple_stmt_def)
  have "violations (PolymorphismRule_analyze ?rule mixed_tree mixed_source ''mixed.py'')
        = pm_violations (pm_visit_If (pm_visit_If (pm_visit_If ?s0 ?c1 ?t1) ?c2 ?t2) ?c3 ?t3)"
    unfolding PolymorphismRule_analyze_def mixed_tree_def c1 pm_visit_chain3 [OF simple]
    by (simp add: Let_def del: visit.simps)
  moreover have "length (long_chain_violations
      (pm_violations (pm_visit_If (pm_visit_If (pm_visit_If ?s0 ?c1 ?t1) ?c2 ?t2) ?c3 ?t3))) = 1"
    unfolding lcv_pm_visit_If pm_rule_frame s0 cb vars
    by (simp add: long_chain_violations_def)
  moreover have "branches_checking ''x'' mixed_chain = 1"
    by (simp add: branches_checking_def mixed_chain_def)
  moreover have "\<not> consistent_across_branches mixed_chain"
    unfolding consistent_across_branches_def c1 vars cb
    by (simp add: branches_checking_def)
  ultimately show ?thesis using init cb(1) vars unfolding c1 [symmetric] by simp
qed

subsection \<open>The parameter count of the functions-to-objects rule\<close>

lemmas fo_defs =
  FunctionsToObjectsRule_init_def option_flag_def option_int_def
  FunctionsToObjectsRule_analyze_def FunctionVisitor_init_def fo_enter_def fo_leave_def
  fo_visit_function_def count_params_def total_parameters_def returns_dict_def walk_def
  is_dict_return_def add_many_params_violation_def add_dict_return_violation_def
  check_related_def find_function_groups_def add_to_group_def startswith_def
  posonly_tree_def posonly_arguments_def plain_tree_def plain_arguments_def
  at_def opt_nodes_def

text \<open>
  C7 against the code.  \<^verbatim>\<open>def build(a, b, c, d, e, /): pass\<close> is a public module-level
  function with five positional parameters, more than the default maximum of 4, yet
  \<open>_count_params\<close> gives 0 and the rule with default options reports nothing; with the
  header \<^verbatim>\<open>def build(a, b, c, d, e)\<close> the same function is reported.
\<close>

theorem posonly_function_not_flagged:
  "\<exists>rule.
     FunctionsToObjectsRule_init [] = Some rule
     \<and> max_params rule = 4
     \<and> total_parameters posonly_arguments = 5
     \<and> count_params posonly_arguments = 0
     \<and> violations (FunctionsToObjectsRule_analyze rule posonly_tree posonly_source ''m.py'') = []
     \<and> length (violations (FunctionsToObjectsRule_analyze rule plain_tree posonly_source ''m.py'')) = 1"
  by (simp add: fo_defs)

subsection \<open>Attribute chains in the encapsulation rule\<close>

lemma chain_expr_Nil [simp]: "chain_expr a0 x [] = Name a0 x"
  by (simp add: chain_expr_def)

lemma chain_expr_snoc [simp]:
  "chain_expr a0 x (steps @ [(a, attr)]) = Attribute a (chain_expr a0 x steps) attr"
  by (simp add: chain_expr_def)

lemma attribute_chain_chain_expr [simp]:
  "attribute_chain (chain_expr a0 x steps) = x # map snd steps"
  by (induction steps rule: rev_induct) (auto simp del: chain_expr_def)

lemma create_violation_frame:
  "create_violation (s\<lparr>en_violations := vs\<rparr>) a x attrs = create_violation s a x attrs"
  by (simp add: create_violation_def)

lemma prefix_violation_frame [simp]:
  "prefix_violation (s\<lparr>en_violations := vs\<rparr>) x pre = prefix_violation s x pre"
  by (simp add: prefix_violation_def create_violation_frame)

lemma plain_step_frame [simp]:
  "plain_step (s\<lparr>en_violations := vs\<rparr>) st = plain_step s st"
  by (simp add: plain_step_def)

lemma visit_chain:
  assumes "en_rule s = default_encapsulation"
    and "x \<noteq> ''self''" and "x \<noteq> ''cls''" and "x \<notin> imported_modules s"
    and "x \<notin> set common_modules"
    and "list_all (plain_step s) steps"
  shows "visit en_enter en_leave s (NExpr (chain_expr a0 x steps))
         = s\<lparr>en_violations := en_violations s
               @ map (\<lambda>k. prefix_violation s x (take k steps)) (rev [1..<Suc (length steps)])\<rparr>"
  using assms
proof (induction steps arbitrary: s rule: rev_induct)
  case Nil
  then show ?case by (simp add: en_enter_def en_leave_def)
next
  case (snoc st steps)
  obtain a attr where st: "st = (a, attr)" by (cases st)
  let ?node = "chain_expr a0 x (steps @ [(a, attr)])"
  from snoc.prems st have ps: "plain_step s (a, attr)" and rest: "list_all (plain_step s) steps"
    by simp_all
  have cv: "create_violation s a x (map snd steps @ [attr])
            = Some (prefix_violation s x (steps @ [(a, attr)]))"
    using ps snoc.prems(5)
    by (simp add: prefix_violation_def create_violation_def plain_step_def Let_def)
  have enter: "en_enter s (NExpr ?node)
               = s\<lparr>en_violations := en_violations s @ [prefix_violation s x (steps @ [(a, attr)])]\<rparr>"
    using ps snoc.prems cv
    by (simp add: en_enter_def en_visit_Attribute_def plain_step_def default_encapsulation_def
          list_ex_iff list_all_iff)
  let ?s' = "s\<lparr>en_violations := en_violations s @ [prefix_violation s x (steps @ [(a, attr)])]\<rparr>"
  have ih: "visit en_enter en_leave ?s' (NExpr (chain_expr a0 x steps))
            = ?s'\<lparr>en_violations := en_violations ?s'
                  @ map (\<lambda>k. prefix_violation ?s' x (take k steps)) (rev [1..<Suc (length steps)])\<rparr>"
    using snoc.prems rest by (intro snoc.IH) (simp_all add: list_all_iff)
  have "visit en_enter en_leave s (NExpr ?node)
        = visit en_enter en_leave ?s' (NExpr (chain_expr a0 x steps))"
    using enter by (simp add: en_leave_def del: chain_expr_def)
  also note ih
  finally show ?case unfolding st by (simp del: chain_expr_def)
qed

lemma init_default_encapsulation: "EncapsulationRule_init [] = Some default_encapsulation"
  by (simp add: EncapsulationRule_init_def default_encapsulation_def option_flag_def option_int_def)

lemma prefix_violation_plain:
  assumes "en_rule s = default_encapsulation"
    and "x \<notin> set common_modules"
    and "list_all (plain_step s) steps"
    and "1 \<le> k" and "k \<le> length steps"
  shows "prefix_violation s x (take k steps) =
           \<lparr>rule_name = ''encapsulation'',
            message =
              (if 1 < k then
                 ''Long attribute chain detected: ''
                 @ quoted (x @ ''.'' @ join ''.'' (map snd (take k steps)))
                 @ ''. This violates the Law of Demeter. Consider using delegation.''
               else
                 ''Direct property access: ''
                 @ quoted (x @ ''.'' @ join ''.'' (map snd (take k steps)))
                 @ ''. Consider using a method instead (Tell Don'' @ [CHR 0x27] @ ''t Ask).''),
            file_path = en_file_path s,
            line = lineno (fst (steps ! (k - 1))),
            column = col_offset (fst (steps ! (k - 1))),
            severity = ''warning'',
            suggestion = Some
              (if 1 < k then
                 ''Instead of accessing '' @ quoted (x @ ''.'' @ join ''.'' (map snd (take k steps)))
                 @ '', consider adding a method to '' @ quoted x
                 @ '' that encapsulates this behavior.''
               else
                 ''Instead of accessing '' @ quoted (x @ ''.'' @ snd (hd steps))
                 @ '', consider telling '' @ quoted x @ '' what to do with a method call.''),
            code_snippet = Some (get_source_line (en_source s) (lineno (fst (steps ! (k - 1))))),
            metadata =
              [(''base_object'', PStr x),
               (''accessed_attributes'', PList (map PStr (map snd (take k steps)))),
               (''chain_length'', PInt (int k))]\<rparr>"
proof -
  from assms(4,5) have ne: "take k steps \<noteq> []" by auto
  have len: "length (take k steps) = k" using assms(5) by simp
  have "last (take k steps) = take k steps ! (k - 1)"
    using ne len by (simp add: last_conv_nth)
  also have "\<dots> = steps ! (k - 1)" using assms(4) by simp
  finally have last_take: "last (take k steps) = steps ! (k - 1)" .
  have "steps ! (k - 1) \<in> set steps" using assms(4,5) by simp
  with assms(3) have "plain_step s (steps ! (k - 1))" by (simp add: list_all_iff)
  then have plain: "\<not> constant_like (snd (steps ! (k - 1)))" by (simp add: plain_step_def)
  have last_attr: "last (map snd (take k steps)) = snd (steps ! (k - 1))"
    using ne last_take by (simp add: last_map)
  have hd_attr: "hd (map snd (take k steps)) = snd (hd steps)"
    using assms(4,5) by (cases steps) (auto simp: take_Suc_conv_app_nth hd_map hd_take)
  show ?thesis
    unfolding prefix_violation_def create_violation_def
    using plain assms(1,2,4,5)
    by (simp add: last_attr last_take hd_attr len Let_def default_encapsulation_def min_def
          del: last_map hd_map take_map)
qed

lemma rev_upt_nth:
  assumes "1 \<le> k" and "k \<le> n"
  shows "rev [1..<Suc n] ! (n - k) = k"
proof -
  have "rev [1..<Suc n] ! (n - k) = [1..<Suc n] ! (length [1..<Suc n] - Suc (n - k))"
    using assms by (subst rev_nth) auto
  also have "\<dots> = [1..<Suc n] ! (k - 1)" using assms by simp
  also have "\<dots> = 1 + (k - 1)" using assms by (intro nth_upt) simp
  also have "\<dots> = k" using assms by simp
  finally show ?thesis .
qed



lemmas en_defs =
  EncapsulationRule_analyze_def EncapsulationVisitor_init_def en_enter_def en_leave_def
  en_visit_Attribute_def create_violation_def common_modules_def is_dunder_def constant_like_def
  chain_expr_def at_def default_encapsulation_def opt_nodes_def


subsection \<open>Saving and reloading the configuration\<close>

lemma update_fresh: "k \<notin> fst ` set al \<Longrightarrow> AList.update k v al = al @ [(k, v)]"
  by (induction al) auto

lemma members_step:
  "distinct (map fst (acc @ kvs)) \<Longrightarrow>
   foldl (\<lambda>d kv. AList.update (fst kv) (snd kv) d) acc kvs = acc @ kvs"
proof (induction kvs arbitrary: acc)
  case Nil
  then show ?case by simp
next
  case (Cons kv kvs)
  from Cons.prems have fresh: "fst kv \<notin> fst ` set acc" by auto
  from Cons.prems have "distinct (map fst ((acc @ [kv]) @ kvs))" by auto
  from Cons.IH [OF this] show ?case
    by (simp add: update_fresh [OF fresh])
qed

lemma members_distinct: "distinct (map fst kvs) \<Longrightarrow> members kvs = kvs"
  using members_step [of "[]" kvs] by (simp add: members_def)

lemma members_step_nonempty:
  "foldl (\<lambda>d kv. AList.update (fst kv) (snd kv) d) acc kvs = [] \<longleftrightarrow> acc = [] \<and> kvs = []"
proof (induction kvs arbitrary: acc)
  case Nil
  then show ?case by simp
next
  case (Cons kv kvs)
  have "AList.update (fst kv) (snd kv) acc \<noteq> []" by (cases acc) auto
  with Cons.IH [of "AList.update (fst kv) (snd kv) acc"] show ?case by simp
qed

lemma members_empty: "members kvs = [] \<longleftrightarrow> kvs = []"
  by (simp add: members_def members_step_nonempty)

lemma truthy_round_trip: "truthy (reloaded_value v) = truthy v"
proof (cases v)
  case (PFloat f)
  then show ?thesis by (cases f) (simp_all add: reloaded_value_def)
qed (simp_all add: reloaded_value_def members_empty)

lemma native_round_trip: "json_native v \<Longrightarrow> reloaded_value v = v"
  unfolding reloaded_value_def
proof (induction v)
  case (PList xs)
  then show ?case by (simp add: list_all_iff map_idI)
next
  case (PDict kvs)
  from PDict.prems have d: "distinct (map fst kvs)" by simp
  have keys: "map fst (map (map_prod id json_load) (map (map_prod id json_dump) kvs)) = map fst kvs"
    by (simp add: comp_def)
  have m: "members (map (map_prod id json_load) (map (map_prod id json_dump) kvs))
           = map (map_prod id json_load) (map (map_prod id json_dump) kvs)"
    by (rule members_distinct) (simp only: keys d)
  have "map (map_prod id pyval_of \<circ> (map_prod id json_load \<circ> map_prod id json_dump)) kvs = kvs"
  proof (rule map_idI)
    fix kv assume kv: "kv \<in> set kvs"
    obtain k v where [simp]: "kv = (k, v)" by (cases kv)
    from PDict.prems kv have "json_native v" by (auto simp: list_all_iff)
    with PDict.IH kv
    show "(map_prod id pyval_of \<circ> (map_prod id json_load \<circ> map_prod id json_dump)) kv = kv"
      by fastforce
  qed
  then show ?case by (simp add: m del: map_map) (simp add: comp_def)
qed simp_all

lemma rule_from_entry:
  "rule_from_data (json_load (json_dump (rule_entry c))) = Some (reloaded c)"
  by (simp add: rule_entry_def reloaded_value_def reloaded_def json_get_def members_def)

lemma load_rules_step:
  "distinct (map fst (acc @ rs)) \<Longrightarrow>
   foldl (\<lambda>rs (rule_name, rule_data).
            case rule_from_data rule_data of
              None \<Rightarrow> rs
            | Some c \<Rightarrow> AList.update rule_name c rs)
     acc (map (\<lambda>(n, c). (n, json_load (json_dump (rule_entry c)))) rs)
   = acc @ map (\<lambda>(n, c). (n, reloaded c)) rs"
proof (induction rs arbitrary: acc)
  case Nil
  then show ?case by simp
next
  case (Cons r rs)
  obtain n c where r: "r = (n, c)" by (cases r)
  from Cons.prems r have fresh: "n \<notin> fst ` set acc" by auto
  from Cons.prems r have "distinct (map fst ((acc @ [(n, reloaded c)]) @ rs))" by auto
  from Cons.IH [OF this] show ?case
    by (simp add: r rule_from_entry update_fresh [OF fresh])
qed

lemma load_rules_to_dict:
  assumes "distinct (dict_keys rs)"
  shows "load_rules (map (\<lambda>(n, c). (n, json_load (json_dump (rule_entry c)))) rs)
         = map (\<lambda>(n, c). (n, reloaded c)) rs"
  using load_rules_step [of "[]" rs] assms by (simp add: load_rules_def dict_keys_def)

lemma post_init_step:
  "set names \<subseteq> set (dict_keys rs) \<Longrightarrow>
   foldl (\<lambda>rs rule_name.
            if rule_name \<in> set (dict_keys rs) then rs
            else AList.update rule_name (RuleConfig_init (PBool True)) rs)
     rs names = rs"
  by (induction names) auto

lemma post_init_complete:
  "set AVAILABLE_RULES \<subseteq> set (dict_keys (rules cfg)) \<Longrightarrow> post_init cfg = cfg"
  by (simp add: post_init_def post_init_step)

lemma load_rules_entries:
  assumes "distinct (dict_keys rs)"
  shows "json_load (json_dump (PDict (map (\<lambda>(n, c). (n, rule_entry c)) rs)))
         = JObject (map (\<lambda>(n, c). (n, json_load (json_dump (rule_entry c)))) rs)"
proof -
  have keys: "map fst (map (map_prod id json_load)
                 (map (map_prod id json_dump) (map (\<lambda>(n, c). (n, rule_entry c)) rs)))
              = map fst rs"
    by (simp add: comp_def case_prod_beta)
  have "members (map (map_prod id json_load)
                 (map (map_prod id json_dump) (map (\<lambda>(n, c). (n, rule_entry c)) rs)))
        = map (map_prod id json_load)
                 (map (map_prod id json_dump) (map (\<lambda>(n, c). (n, rule_entry c)) rs))"
    by (rule members_distinct) (use assms in \<open>simp only: keys dict_keys_def\<close>)
  then show ?thesis
    by (simp del: map_map) (simp add: comp_def case_prod_beta)
qed

lemma load_dump_record:
  assumes "distinct [k1, k2, k3, k4, k5]"
  shows "json_load (json_dump (PDict [(k1, v1), (k2, v2), (k3, v3), (k4, v4), (k5, v5)]))
         = JObject [(k1, json_load (json_dump v1)), (k2, json_load (json_dump v2)),
                    (k3, json_load (json_dump v3)), (k4, json_load (json_dump v4)),
                    (k5, json_load (json_dump v5))]"
  using assms by (simp add: members_def)

lemma dump_to_dict:
  assumes "distinct (dict_keys (rules cfg))"
  shows "json_load (json_dump (PDict (to_dict cfg)))
   = JObject [(''rules'', JObject (map (\<lambda>(n, c). (n, json_load (json_dump (rule_entry c)))) (rules cfg))),
            (''output_format'', json_load (json_dump (output_format cfg))),
            (''include_patterns'', json_load (json_dump (include_patterns cfg))),
            (''exclude_patterns'', json_load (json_dump (exclude_patterns cfg))),
            (''max_file_size'', json_load (json_dump (cfg_max_file_size cfg)))]"
proof -
  have td: "to_dict cfg =
     [(''rules'', PDict (map (\<lambda>(n, c). (n, rule_entry c)) (rules cfg))),
      (''output_format'', output_format cfg),
      (''include_patterns'', include_patterns cfg),
      (''exclude_patterns'', exclude_patterns cfg),
      (''max_file_size'', cfg_max_file_size cfg)]"
    by (simp add: to_dict_def rule_entry_def)
  have "json_load (json_dump (PDict (to_dict cfg)))
   = JObject [(''rules'', json_load (json_dump (PDict (map (\<lambda>(n, c). (n, rule_entry c)) (rules cfg))))),
            (''output_format'', json_load (json_dump (output_format cfg))),
            (''include_patterns'', json_load (json_dump (include_patterns cfg))),
            (''exclude_patterns'', json_load (json_dump (exclude_patterns cfg))),
            (''max_file_size'', json_load (json_dump (cfg_max_file_size cfg)))]"
    unfolding td by (rule load_dump_record) simp
  then show ?thesis by (simp only: load_rules_entries [OF assms])
qed

lemma keys_reloaded: "dict_keys (map (\<lambda>(n, c). (n, reloaded c)) rs) = dict_keys rs"
  by (simp add: dict_keys_def comp_def case_prod_beta)

lemma from_file_save:
  assumes "save fs cfg path = Inr fs'"
    and "distinct (dict_keys (rules cfg))"
    and "set AVAILABLE_RULES \<subseteq> set (dict_keys (rules cfg))"
  shows "from_file fs' path =
         Inr \<lparr>rules = map (\<lambda>(n, c). (n, reloaded c)) (rules cfg),
              output_format = reloaded_value (output_format cfg),
              include_patterns = reloaded_value (include_patterns cfg),
              exclude_patterns = reloaded_value (exclude_patterns cfg),
              cfg_max_file_size = reloaded_value (cfg_max_file_size cfg)\<rparr>"
proof -
  from assms(1) have fs': "contents fs' path = Some (Json (json_dump (PDict (to_dict cfg))))"
    by (auto simp: save_def split: option.splits)
  show ?thesis
    using assms(2,3)
    by (simp add: from_file_def fs' dump_to_dict json_get_def load_rules_to_dict
          AnalyzerConfig_init_def post_init_complete keys_reloaded reloaded_value_def
        del: json_load.simps json_dump.simps)
qed

lemma enabled_reloaded:
  "map fst (filter (\<lambda>(name, c). truthy (enabled c)) (map (\<lambda>(n, c). (n, reloaded c)) rs))
   = map fst (filter (\<lambda>(name, c). truthy (enabled c)) rs)"
  by (induction rs) (auto simp: reloaded_def truthy_round_trip)

lemma map_of_reloaded:
  "map_of (map (\<lambda>(n, c). (n, reloaded c)) rs) k = map_option reloaded (map_of rs k)"
  by (induction rs) auto

text \<open>
  C8, amended.  For a configuration whose rules hold every available rule (as the
  constructor leaves them) and that \<open>save\<close> could write, \<open>from_file\<close> returns a
  configuration with the same enabled rule names, in the same order, and the same rule
  names; the options of every rule are the saved ones as \<open>json.load\<close> gives them back,
  which are the saved ones themselves when they are built from \<open>None\<close>, booleans, integers,
  floats other than NaN, strings, lists and dicts with string keys.
\<close>

theorem save_from_file_round_trip:
  assumes "save fs cfg path = Inr fs'"
    and "distinct (dict_keys (rules cfg))"
    and "set AVAILABLE_RULES \<subseteq> set (dict_keys (rules cfg))"
  shows "\<exists>cfg'. from_file fs' path = Inr cfg'
           \<and> get_enabled_rules cfg' = get_enabled_rules cfg
           \<and> dict_keys (rules cfg') = dict_keys (rules cfg)
           \<and> (\<forall>r c. map_of (rules cfg) r = Some c \<longrightarrow>
                 (\<exists>c'. map_of (rules cfg') r = Some c'
                       \<and> options c' = reloaded_value (options c)
                       \<and> (json_native (options c) \<longrightarrow> options c' = options c)))"
proof -
  let ?cfg' = "\<lparr>rules = map (\<lambda>(n, c). (n, reloaded c)) (rules cfg),
              output_format = reloaded_value (output_format cfg),
              include_patterns = reloaded_value (include_patterns cfg),
              exclude_patterns = reloaded_value (exclude_patterns cfg),
              cfg_max_file_size = reloaded_value (cfg_max_file_size cfg)\<rparr>"
  have loaded: "from_file fs' path = Inr ?cfg'"
    by (rule from_file_save [OF assms])
  have names: "get_enabled_rules ?cfg' = get_enabled_rules cfg"
    by (simp add: get_enabled_rules_def enabled_reloaded)
  have keys: "dict_keys (rules ?cfg') = dict_keys (rules cfg)"
    by (simp add: keys_reloaded)
  have opts: "\<exists>c'. map_of (rules ?cfg') r = Some c'
                 \<and> options c' = reloaded_value (options c)
                 \<and> (json_native (options c) \<longrightarrow> options c' = options c)"
    if "map_of (rules cfg) r = Some c" for r c
  proof -
    have "map_of (rules ?cfg') r = Some (reloaded c)"
      using that by (simp add: map_of_reloaded)
    moreover have "options (reloaded c) = reloaded_value (options c)"
      by (simp add: reloaded_def)
    moreover have "json_native (options c) \<longrightarrow> options (reloaded c) = options c"
      by (simp add: reloaded_def native_round_trip)
    ultimately show ?thesis by blast
  qed
  from loaded names keys opts show ?thesis by blast
qed

lemma rules_default:
  "rules AnalyzerConfig_default = map (\<lambda>n. (n, RuleConfig_init (PBool True))) AVAILABLE_RULES"
  by (simp add: AnalyzerConfig_default_def AnalyzerConfig_init_def post_init_def
        AVAILABLE_RULES_def dict_keys_def)

lemma rules_tuple_config:
  "rules tuple_config =
     [(''encapsulation'', RuleConfig_init (PBool True)),
      (''coupling'', RuleConfig_init (PBool True)),
      (''null_object'', RuleConfig_init (PBool True)),
      (''polymorphism'',
       \<lparr>enabled = PBool True, rc_severity = PStr ''warning'', options = PDict tuple_options\<rparr>),
      (''functions_to_objects'', RuleConfig_init (PBool True)),
      (''type_code'', RuleConfig_init (PBool True)),
      (''reference_exposure'', RuleConfig_init (PBool True)),
      (''dictionary_usage'', RuleConfig_init (PBool True)),
      (''boolean_flag'', RuleConfig_init (PBool True))]"
  by (simp add: tuple_config_def enable_rule_def rules_default) (simp add: AVAILABLE_RULES_def)

lemma save_tuple_config: "save empty_fs tuple_config ''oop.json'' = Inr saved_fs"
  by (simp add: saved_fs_def save_def empty_fs_def)

lemma tuple_config_keys:
  "distinct (dict_keys (rules tuple_config))"
  "set AVAILABLE_RULES \<subseteq> set (dict_keys (rules tuple_config))"
  by (simp_all add: rules_tuple_config dict_keys_def AVAILABLE_RULES_def)

lemma reloaded_tuple_options:
  "reloaded_value (PDict tuple_options) = PDict [(''exclude'', PList [PStr ''a'', PStr ''b''])]"
  by (simp add: reloaded_value_def tuple_options_def members_def)

theorem save_from_file_round_trip_witness:
  "\<exists>cfg' c'.
     save empty_fs tuple_config ''oop.json'' = Inr saved_fs
     \<and> from_file saved_fs ''oop.json'' = Inr cfg'
     \<and> get_enabled_rules cfg' = get_enabled_rules tuple_config
     \<and> map_of (rules cfg') ''polymorphism'' = Some c'
     \<and> options c' = PDict [(''exclude'', PList [PStr ''a'', PStr ''b''])]"
proof -
  have c: "map_of (rules tuple_config) ''polymorphism''
           = Some \<lparr>enabled = PBool True, rc_severity = PStr ''warning'',
                   options = PDict tuple_options\<rparr>"
    by (simp add: rules_tuple_config)
  from save_from_file_round_trip [OF save_tuple_config tuple_config_keys] c reloaded_tuple_options
    save_tuple_config
  show ?thesis by fastforce
qed

text \<open>
  The claim as worded fails for an option value that is a tuple: after
  \<^verbatim>\<open>enable_rule("polymorphism", exclude=("a", "b"))\<close>, saving and reloading gives the
  option \<open>exclude\<close> the list \<^verbatim>\<open>["a", "b"]\<close>, and a list is not equal to a tuple.
\<close>

theorem tuple_option_counterexample:
  "\<exists>cfg' c c'.
     save empty_fs tuple_config ''oop.json'' = Inr saved_fs
     \<and> from_file saved_fs ''oop.json'' = Inr cfg'
     \<and> map_of (rules tuple_config) ''polymorphism'' = Some c
     \<and> map_of (rules cfg') ''polymorphism'' = Some c'
     \<and> options c = PDict [(''exclude'', PTuple [PStr ''a'', PStr ''b''])]
     \<and> options c' = PDict [(''exclude'', PList [PStr ''a'', PStr ''b''])]
     \<and> options c' \<noteq> options c"
proof -
  have c: "map_of (rules tuple_config) ''polymorphism''
           = Some \<lparr>enabled = PBool True, rc_severity = PStr ''warning'',
                   options = PDict tuple_options\<rparr>"
    by (simp add: rules_tuple_config)
  have c': "map_of (map (\<lambda>(n, c). (n, reloaded c)) (rules tuple_config)) ''polymorphism''
           = Some (reloaded \<lparr>enabled = PBool True, rc_severity = PStr ''warning'',
                   options = PDict tuple_options\<rparr>)"
    by (simp add: map_of_reloaded c)
  from from_file_save [OF save_tuple_config tuple_config_keys] c c' reloaded_tuple_options
    save_tuple_config
  show ?thesis by (simp add: reloaded_def tuple_options_def)
qed

text \<open>
  Two more values that do not come back as they were saved: a dict with the key \<open>1\<close> comes
  back with the key \<^verbatim>\<open>"1"\<close>, and the keys \<open>1\<close> and \<^verbatim>\<open>"1"\<close> of one dict come back as one key
  with the value of the later.
\<close>

lemma reloaded_int_key:
  "reloaded_value (PKeyed [(KInt 1, PStr ''a'')]) = PDict [(''1'', PStr ''a'')]"
  "reloaded_value (PKeyed [(KInt 1, PStr ''a''), (KStr ''1'', PStr ''b'')])
     = PDict [(''1'', PStr ''b'')]"
  by (simp_all add: reloaded_value_def members_def str_int_def)

subsection \<open>Parsing a source on which \<open>ast.parse\<close> raises\<close>

lemma length_deep_source: "length deep_source = 800001"
  by (simp add: deep_source_def length_concat sum_list_replicate)

lemma not_deep_source: "length s < 800001 \<Longrightarrow> s \<noteq> deep_source"
  using length_deep_source by auto

text \<open>
  C3 against the code.  \<open>parse_safely\<close> is to return \<open>None\<close> when parsing fails, and does on
  \<^verbatim>\<open>x =\<close>; but it catches \<open>SyntaxError\<close> only, as \<open>validate_source_code\<close> does, and on a
  sum of 200001 operands, where \<open>ast.parse\<close> raises \<open>RecursionError\<close>, the exception leaves
  both methods.
\<close>

theorem parse_safely_raises_on_deep_source:
  "parse_safely observed_parse ''x ='' ''m.py'' = Inr None
   \<and> parse_safely observed_parse deep_source ''m.py''
     = Inl (Exn ''maximum recursion depth exceeded during ast construction'')
   \<and> validate_source_code observed_parse deep_source ''m.py''
     = Inl (Exn ''maximum recursion depth exceeded during ast construction'')"
  by (simp add: parse_safely_def validate_source_code_def observed_parse_def not_deep_source)

subsection \<open>A rule that raises\<close>

lemma run_rules_results:
  "distinct (map fst rs) \<Longrightarrow>
   run_rules rs tree source path (racc, eacc) = Inr (res, errs) \<Longrightarrow>
   map_of res k =
     (case map_of rs k of
        None \<Rightarrow> map_of racc k
      | Some rule \<Rightarrow>
          (case rule tree source path of Inr result \<Rightarrow> Some result | Inl e \<Rightarrow> map_of racc k))"
proof (induction rs arbitrary: racc eacc)
  case Nil
  then show ?case by simp
next
  case (Cons r rs)
  obtain k0 rule0 where r: "r = (k0, rule0)" by (cases r)
  from Cons.prems r have d: "distinct (map fst rs)" and fresh: "map_of rs k0 = None"
    by (auto simp: map_of_eq_None_iff)
  show ?case
  proof (cases "rule0 tree source path")
    case (Inr result)
    with Cons.prems(2) r
    have "run_rules rs tree source path (AList.update k0 result racc, eacc) = Inr (res, errs)"
      by simp
    from Cons.IH [OF d this] show ?thesis
      using fresh Inr by (auto simp: r update_conv' split: option.splits sum.splits)
  next
    case (Inl raised)
    show ?thesis
    proof (cases raised)
      case (Exception e)
      with Cons.prems(2) r Inl
      have "run_rules rs tree source path
              (racc, eacc @ [[(''file'', PStr path), (''rule'', PStr k0),
                              (''error'', PStr (str_exn e))]]) = Inr (res, errs)"
        by simp
      from Cons.IH [OF d this] show ?thesis
        using fresh Inl by (auto simp: r split: option.splits sum.splits)
    next
      case (NonException e)
      with Cons.prems(2) r Inl show ?thesis by simp
    qed
  qed
qed

lemma run_rules_errors_mono:
  "run_rules rs tree source path (racc, eacc) = Inr (res, errs) \<Longrightarrow> set eacc \<subseteq> set errs"
proof (induction rs arbitrary: racc eacc)
  case Nil
  then show ?case by simp
next
  case (Cons r rs)
  obtain k0 rule0 where r: "r = (k0, rule0)" by (cases r)
  show ?case
  proof (cases "rule0 tree source path")
    case (Inr result)
    with Cons.prems r
    have "run_rules rs tree source path (AList.update k0 result racc, eacc) = Inr (res, errs)"
      by simp
    from Cons.IH [OF this] show ?thesis .
  next
    case (Inl raised)
    show ?thesis
    proof (cases raised)
      case (Exception e)
      with Cons.prems r Inl
      have "run_rules rs tree source path
              (racc, eacc @ [[(''file'', PStr path), (''rule'', PStr k0),
                              (''error'', PStr (str_exn e))]]) = Inr (res, errs)"
        by simp
      from Cons.IH [OF this] show ?thesis by simp
    next
      case (NonException e)
      with Cons.prems r Inl show ?thesis by simp
    qed
  qed
qed

lemma run_rules_errors:
  "(r, rule) \<in> set rs \<Longrightarrow> rule tree source path = Inl (Exception e) \<Longrightarrow>
   run_rules rs tree source path (racc, eacc) = Inr (res, errs) \<Longrightarrow>
   [(''file'', PStr path), (''rule'', PStr r), (''error'', PStr (str_exn e))] \<in> set errs"
proof (induction rs arbitrary: racc eacc)
  case Nil
  then show ?case by simp
next
  case (Cons x rs)
  obtain k0 rule0 where x: "x = (k0, rule0)" by (cases x)
  show ?case
  proof (cases "(r, rule) = (k0, rule0)")
    case True
    with Cons.prems(2,3) x
    have "run_rules rs tree source path
            (racc, eacc @ [[(''file'', PStr path), (''rule'', PStr r),
                            (''error'', PStr (str_exn e))]]) = Inr (res, errs)"
      by simp
    from run_rules_errors_mono [OF this] show ?thesis by simp
  next
    case False
    with Cons.prems(1) x have mem: "(r, rule) \<in> set rs" by auto
    show ?thesis
    proof (cases "rule0 tree source path")
      case (Inr result)
      with Cons.prems(3) x
      have "run_rules rs tree source path (AList.update k0 result racc, eacc) = Inr (res, errs)"
        by simp
      from Cons.IH [OF mem Cons.prems(2) this] show ?thesis .
    next
      case (Inl raised)
      show ?thesis
      proof (cases raised)
        case (Exception e0)
        with Cons.prems(3) x Inl
        have "run_rules rs tree source path
                (racc, eacc @ [[(''file'', PStr path), (''rule'', PStr k0),
                                (''error'', PStr (str_exn e0))]]) = Inr (res, errs)"
          by simp
        from Cons.IH [OF mem Cons.prems(2) this] show ?thesis .
      next
        case (NonException e0)
        with Cons.prems(3) x Inl show ?thesis by simp
      qed
    qed
  qed
qed

lemma run_rules_returns:
  "(\<forall>(r, rule) \<in> set rs. \<forall>e. rule tree source path \<noteq> Inl (NonException e)) \<Longrightarrow>
   \<exists>res errs. run_rules rs tree source path (racc, eacc) = Inr (res, errs)"
proof (induction rs arbitrary: racc eacc)
  case Nil
  then show ?case by simp
next
  case (Cons x rs)
  obtain k0 rule0 where x: "x = (k0, rule0)" by (cases x)
  from Cons.prems x have rest: "\<forall>(r, rule) \<in> set rs. \<forall>e. rule tree source path \<noteq> Inl (NonException e)"
    and hd: "\<forall>e. rule0 tree source path \<noteq> Inl (NonException e)"
    by auto
  show ?case
  proof (cases "rule0 tree source path")
    case (Inr result)
    with Cons.IH [OF rest] show ?thesis by (simp add: x)
  next
    case (Inl raised)
    with hd obtain e where "raised = Exception e" by (cases raised) auto
    with Inl Cons.IH [OF rest] show ?thesis by (simp add: x)
  qed
qed

text \<open>
  C2, amended.  When the source parses, no rule of the analyzer raises anything outside
  \<open>Exception\<close>, and the \<open>analyze\<close> call of a rule raises an instance of \<open>Exception\<close>,
  \<open>analyze_source\<close> returns a report: its errors hold an entry with the name of the rule
  and the text of the exception, its results hold no entry for that rule, and they hold
  the result of every rule whose \<open>analyze\<close> call returned.
\<close>

theorem rule_failure_is_isolated:
  assumes "ast_parse source ''<unknown>'' = Parsed parsed"
    and "ast_parse source path = Parsed tree"
    and "distinct (dict_keys (an_rules self))"
    and "\<forall>(r', rule') \<in> set (an_rules self). \<forall>e'. rule' tree source path \<noteq> Inl (NonException e')"
    and "(r, rule) \<in> set (an_rules self)"
    and "rule tree source path = Inl (Exception e)"
  shows "\<exists>report. analyze_source ast_parse now self source path = Inr report
           \<and> [(''file'', PStr path), (''rule'', PStr r), (''error'', PStr (str_exn e))]
               \<in> set (errors report)
           \<and> map_of (results report) r = None
           \<and> (\<forall>r' rule' result.
                 (r', rule') \<in> set (an_rules self) \<and> rule' tree source path = Inr result
                 \<longrightarrow> map_of (results report) r' = Some result)"
proof -
  from run_rules_returns [OF assms(4)]
  obtain res errs where run: "run_rules (an_rules self) tree source path ([], []) = Inr (res, errs)"
    by blast
  let ?report = "\<lparr>files_analyzed = [path], results = res, timestamp = now,
                  config = to_dict (an_config self), errors = errs\<rparr>"
  from assms(3) have d: "distinct (map fst (an_rules self))" by (simp add: dict_keys_def)
  have ret: "analyze_source ast_parse now self source path = Inr ?report"
    by (simp add: analyze_source_def validate_source_code_def parse_safely_def assms(1,2) run)
  have err: "[(''file'', PStr path), (''rule'', PStr r), (''error'', PStr (str_exn e))] \<in> set errs"
    using run_rules_errors [OF assms(5,6) run] .
  have lookup: "map_of res k =
     (case map_of (an_rules self) k of
        None \<Rightarrow> None
      | Some rule \<Rightarrow> (case rule tree source path of Inr result \<Rightarrow> Some result | Inl e \<Rightarrow> None))"
    for k
    using run_rules_results [OF d run, where k = k]
    by (simp split: option.splits sum.splits)
  have none: "map_of res r = None"
    using lookup [of r] map_of_is_SomeI [OF d assms(5)] assms(6) by simp
  have others: "map_of res r' = Some result"
    if "(r', rule') \<in> set (an_rules self)" "rule' tree source path = Inr result"
    for r' rule' result
    using lookup [of r'] map_of_is_SomeI [OF d that(1)] that(2) by simp
  from ret err none others show ?thesis by auto
qed

lemma observed_process_source: "observed_parse process_source f = Parsed process_tree"
proof -
  have short: "length process_source < 800001"
    by (simp add: process_source_def)
  show ?thesis
    by (simp add: observed_parse_def not_deep_source [OF short]) (simp add: process_source_def)
qed

theorem rule_failure_is_isolated_witness:
  "\<exists>report.
     analyze_source observed_parse 0 sample_analyzer process_source ''m.py'' = Inr report
     \<and> [(''file'', PStr ''m.py''), (''rule'', PStr ''type_code''), (''error'', PStr ''boom'')]
         \<in> set (errors report)
     \<and> map_of (results report) ''type_code'' = None
     \<and> map_of (results report) ''boolean_flag''
         = Some (BooleanFlagRule_analyze (the (BooleanFlagRule_init [])) process_tree
                   process_source ''m.py'')"
proof -
  have bf: "boolean_flag_object process_tree process_source ''m.py''
            = Inr (BooleanFlagRule_analyze (the (BooleanFlagRule_init [])) process_tree
                     process_source ''m.py'')"
    by (simp add: boolean_flag_object_def)
  have d: "distinct (dict_keys (an_rules sample_analyzer))"
    by (simp add: sample_analyzer_def dict_keys_def)
  have m: "(''type_code'', raising_rule) \<in> set (an_rules sample_analyzer)"
    and m': "(''boolean_flag'', boolean_flag_object) \<in> set (an_rules sample_analyzer)"
    by (simp_all add: sample_analyzer_def)
  have raises: "raising_rule process_tree process_source ''m.py'' = Inl (Exception (Exn ''boom''))"
    by (simp add: raising_rule_def)
  have caught: "\<forall>(r', rule') \<in> set (an_rules sample_analyzer).
                  \<forall>e'. rule' process_tree process_source ''m.py'' \<noteq> Inl (NonException e')"
    by (simp add: sample_analyzer_def raising_rule_def boolean_flag_object_def)
  from rule_failure_is_isolated
    [where ast_parse = observed_parse and source = process_source and path = "''m.py''"
       and tree = process_tree and parsed = process_tree and self = sample_analyzer
       and r = "''type_code''" and rule = raising_rule and e = "Exn ''boom''" and now = 0,
     OF observed_process_source observed_process_source d caught m raises]
    m' bf
  show ?thesis by auto
qed

text \<open>
  The claim as worded fails for what \<open>except Exception\<close> does not catch: when the \<open>analyze\<close>
  call of a rule raises \<open>KeyboardInterrupt\<close>, \<open>analyze_source\<close> returns no report and the
  exception leaves it.
\<close>

theorem keyboard_interrupt_counterexample:
  "analyze_source observed_parse 0 interrupted_analyzer process_source ''m.py'' = Inl (Exn [])"
  by (simp add: analyze_source_def validate_source_code_def parse_safely_def
        observed_process_source interrupted_analyzer_def interrupted_rule_def)

end
